theory Spec2Isabelle
  imports Main
begin

section \<open>JavaScript values\<close>

text \<open>
  Request bodies, query values and the provider's order are untyped JSON in the source
  (\<^verbatim>\<open>Record<string, unknown>\<close>). They are modelled by one datatype of JavaScript
  values; numbers are integers, with \<open>JNaN\<close> for the result of a failed \<^verbatim>\<open>parseInt\<close>.
\<close>

datatype jsvalue =
    JUndefined
  | JNull
  | JBool bool
  | JNum int
  | JNaN
  | JStr string
  | JArr "jsvalue list"
  | JObj "(string \<times> jsvalue) list"

text \<open>Truthiness, as tested by \<^verbatim>\<open>if (x)\<close>, \<^verbatim>\<open>!x\<close>, \<^verbatim>\<open>x || y\<close> and \<^verbatim>\<open>x && y\<close>.\<close>

fun truthy :: "jsvalue \<Rightarrow> bool" where
  "truthy JUndefined = False"
| "truthy JNull = False"
| "truthy (JBool b) = b"
| "truthy (JNum n) = (n \<noteq> 0)"
| "truthy JNaN = False"
| "truthy (JStr s) = (s \<noteq> [])"
| "truthy (JArr xs) = True"
| "truthy (JObj kvs) = True"

fun is_nullish :: "jsvalue \<Rightarrow> bool" where
  "is_nullish JUndefined = True"
| "is_nullish JNull = True"
| "is_nullish v = False"

text \<open>\<^verbatim>\<open>a ?? b\<close> and \<^verbatim>\<open>a || b\<close>.\<close>

definition nullish_or :: "jsvalue \<Rightarrow> jsvalue \<Rightarrow> jsvalue" where
  "nullish_or a b = (if is_nullish a then b else a)"

definition js_or :: "jsvalue \<Rightarrow> jsvalue \<Rightarrow> jsvalue" where
  "js_or a b = (if truthy a then a else b)"

text \<open>\<^verbatim>\<open>typeof v === 'object'\<close> (true of \<^verbatim>\<open>null\<close> as well) and \<^verbatim>\<open>typeof v === 'string'\<close>.\<close>

fun typeof_object :: "jsvalue \<Rightarrow> bool" where
  "typeof_object JNull = True"
| "typeof_object (JArr xs) = True"
| "typeof_object (JObj kvs) = True"
| "typeof_object v = False"

fun typeof_string :: "jsvalue \<Rightarrow> bool" where
  "typeof_string (JStr s) = True"
| "typeof_string v = False"

text \<open>
  Property read \<^verbatim>\<open>v?.k\<close>: \<^verbatim>\<open>undefined\<close> on \<^verbatim>\<open>null\<close> and \<^verbatim>\<open>undefined\<close>. On an
  object it is the value stored under the key; primitives and arrays have none of the
  keys the source reads. The plain read \<^verbatim>\<open>v.k\<close> agrees with it on every value that
  is not nullish and throws a TypeError on a nullish one; the callers below test for that
  case before their first read.
\<close>

fun member :: "jsvalue \<Rightarrow> string \<Rightarrow> jsvalue" where
  "member (JObj kvs) k = (case map_of kvs k of None \<Rightarrow> JUndefined | Some v \<Rightarrow> v)"
| "member v k = JUndefined"

text \<open>
  \<^verbatim>\<open>parseInt(s, 10)\<close>: leading white space is skipped, one sign is read, then the longest
  run of decimal digits; no digit at all gives \<^verbatim>\<open>NaN\<close>. A string is a list of code
  units below 256, so the white space is tab, line feed, vertical tab, form feed, carriage
  return, space and the no-break space U+00A0; the white space of JavaScript above U+00FF
  (U+FEFF, U+2028 and the like) does not occur in these strings. Numbers are exact
  integers: the result is the one of JavaScript for every run of digits whose value is
  below \<open>2\<^sup>5\<^sup>3\<close>, as order and transaction ids are; above, JavaScript rounds to a double.
\<close>

definition is_digit :: "char \<Rightarrow> bool" where
  "is_digit c = (48 \<le> (of_char c :: nat) \<and> (of_char c :: nat) \<le> 57)"

definition is_space :: "char \<Rightarrow> bool" where
  "is_space c = ((of_char c :: nat) \<in> {9, 10, 11, 12, 13, 32, 160})"

definition digits_value :: "string \<Rightarrow> nat" where
  "digits_value ds = foldl (\<lambda>a c. 10 * a + ((of_char c :: nat) - 48)) 0 ds"

definition parseInt :: "string \<Rightarrow> jsvalue" where
  "parseInt s =
     (let t = dropWhile is_space s;
          neg = (t \<noteq> [] \<and> hd t = CHR ''-'');
          u = (if t \<noteq> [] \<and> (hd t = CHR ''-'' \<or> hd t = CHR ''+'') then tl t else t);
          ds = takeWhile is_digit u
      in if ds = [] then JNaN
         else JNum ((if neg then - 1 else 1) * int (digits_value ds)))"

text \<open>\<^verbatim>\<open>s.includes(sub)\<close>.\<close>

fun str_includes :: "string \<Rightarrow> string \<Rightarrow> bool" where
  "str_includes [] sub = (sub = [])"
| "str_includes (c # cs) sub = (take (length sub) (c # cs) = sub \<or> str_includes cs sub)"

text \<open>The digit of a value below the radix, for a radix up to 36.\<close>

definition digit_char :: "nat \<Rightarrow> char" where
  "digit_char d = ''0123456789abcdefghijklmnopqrstuvwxyz'' ! d"

text \<open>\<^verbatim>\<open>n.toString(radix)\<close> of a natural number; \<^verbatim>\<open>String(n)\<close> is radix 10.\<close>

fun number_to_string :: "nat \<Rightarrow> nat \<Rightarrow> string" where
  "number_to_string radix n =
     (if n < radix \<or> radix < 2 then [digit_char n]
      else number_to_string radix (n div radix) @ [digit_char (n mod radix)])"

declare number_to_string.simps [simp del]

text \<open>
  The string a value becomes in a template literal: an array is its elements joined by
  commas, \<^verbatim>\<open>null\<close> and \<^verbatim>\<open>undefined\<close> among them as the empty string.
\<close>

fun join_commas :: "string list \<Rightarrow> string" where
  "join_commas [] = []"
| "join_commas [s] = s"
| "join_commas (s # ss) = s @ '','' @ join_commas ss"

fun template_string :: "jsvalue \<Rightarrow> string" where
  "template_string JUndefined = ''undefined''"
| "template_string JNull = ''null''"
| "template_string (JBool b) = (if b then ''true'' else ''false'')"
| "template_string (JNum n) =
     (if n < 0 then ''-'' @ number_to_string 10 (nat (- n)) else number_to_string 10 (nat n))"
| "template_string JNaN = ''NaN''"
| "template_string (JStr s) = s"
| "template_string (JArr xs) =
     join_commas (map (\<lambda>x. if is_nullish x then [] else template_string x) xs)"
| "template_string (JObj kvs) = ''[object Object]''"

section \<open>Documents of the host store\<close>

text \<open>
  A relationship field holds either the bare id of the related document or the
  populated document; of a populated order, customer or transaction the source reads the
  id only, of a populated cart it reads every field.
\<close>

datatype ref = RefId int | RefDoc int

fun ref_id :: "ref \<Rightarrow> int" where
  "ref_id (RefId n) = n"
| "ref_id (RefDoc n) = n"

text \<open>Truthiness of an optional relationship field: an object is truthy, a number unless 0.\<close>

fun ref_truthy :: "ref option \<Rightarrow> bool" where
  "ref_truthy None = False"
| "ref_truthy (Some (RefId n)) = (n \<noteq> 0)"
| "ref_truthy (Some (RefDoc n)) = True"

record item =
  item_product :: jsvalue
  item_variant :: jsvalue
  item_quantity :: jsvalue

record address =
  addr_firstName :: jsvalue
  addr_lastName :: jsvalue
  addr_company :: jsvalue
  addr_addressLine1 :: jsvalue
  addr_addressLine2 :: jsvalue
  addr_city :: jsvalue
  addr_state :: jsvalue
  addr_postalCode :: jsvalue
  addr_country :: jsvalue
  addr_phone :: jsvalue

record cart =
  cart_id :: int
  cart_items :: "item list option"
  cart_customer :: "ref option"
  cart_subtotal :: jsvalue
  cart_currency :: jsvalue
  cart_purchasedAt :: jsvalue
  cart_status :: jsvalue

datatype cart_ref = CartId int | CartDoc cart

text \<open>The group field \<^verbatim>\<open>svea\<close> of a transaction.\<close>

record svea_data =
  svea_orderId :: jsvalue
  svea_clientOrderNumber :: jsvalue
  svea_paymentType :: jsvalue

record transaction =
  tx_id :: int
  tx_status :: string
  tx_order :: "ref option"
  tx_cart :: "cart_ref option"
  tx_customer :: "ref option"
  tx_customerEmail :: jsvalue
  tx_amount :: jsvalue
  tx_currency :: jsvalue
  tx_billingAddress :: "address option"
  tx_items :: "item list option"
  tx_svea :: "svea_data option"

record order =
  order_id :: int
  order_amount :: jsvalue
  order_currency :: jsvalue
  order_items :: "item list"
  order_status :: string
  order_transactions :: "ref list"
  order_shippingAddress :: "address option"
  order_customer :: "int option"
  order_customerEmail :: jsvalue

section \<open>The world: store, log and external calls\<close>

datatype collection = Transactions | Orders | Carts

text \<open>Every write the store has accepted, oldest first.\<close>

datatype store_write = Created collection int | Updated collection int

record store =
  transactions :: "transaction list"
  orders :: "order list"
  carts :: "cart list"
  journal :: "store_write list"

datatype level = Info | Warn | Error

datatype log_entry = Console level string | Logger level string

record world =
  store :: store
  logs :: "log_entry list"
  calls :: nat

text \<open>
  What a handler can throw. The source throws \<^verbatim>\<open>Error\<close> objects told apart by their
  message only. \<open>message\<close> gives the messages written in the source; for the errors
  raised outside the repository (by the runtime, the host framework or the network) it
  gives a name in their place.
\<close>

datatype exn =
    TransactionNotFound
  | SveaOrderIdRequired
  | FetchOrderFailed nat string
  | OrderNotFinalized jsvalue
  | CartNotFound
  | CredentialsRequired
  | NotFound
  | TypeError
  | ExternalFailure

fun message :: "exn \<Rightarrow> string" where
  "message TransactionNotFound = ''Transaction not found.''"
| "message SveaOrderIdRequired = ''Svea order ID is required.''"
| "message (FetchOrderFailed st txt) =
     ''Failed to fetch Svea order: '' @ number_to_string 10 st @ '' '' @ txt"
| "message (OrderNotFinalized st) =
     ''Svea order is not finalized. Current status: '' @ template_string st"
| "message CartNotFound = ''Cart not found.''"
| "message CredentialsRequired = ''Merchant ID and secret key are required''"
| "message NotFound = ''Not Found''"
| "message TypeError = ''TypeError''"
| "message ExternalFailure = ''ExternalFailure''"

text \<open>
  A handler is a function of the world that returns a value or an exception, and the
  world as it has left it.
\<close>

type_synonym 'a prog = "world \<Rightarrow> (exn + 'a) \<times> world"

definition ret :: "'a \<Rightarrow> 'a prog" where
  "ret x = (\<lambda>w. (Inr x, w))"

definition raise :: "exn \<Rightarrow> 'a prog" where
  "raise e = (\<lambda>w. (Inl e, w))"

definition bnd :: "'a prog \<Rightarrow> ('a \<Rightarrow> 'b prog) \<Rightarrow> 'b prog" where
  "bnd m f = (\<lambda>w. case m w of (Inl e, w') \<Rightarrow> (Inl e, w') | (Inr x, w') \<Rightarrow> f x w')"

definition try_catch :: "'a prog \<Rightarrow> (exn \<Rightarrow> 'a prog) \<Rightarrow> 'a prog" where
  "try_catch m h = (\<lambda>w. case m w of (Inl e, w') \<Rightarrow> h e w' | (Inr x, w') \<Rightarrow> (Inr x, w'))"

definition console :: "level \<Rightarrow> string \<Rightarrow> unit prog" where
  "console l m = (\<lambda>w. (Inr (), w\<lparr>logs := logs w @ [Console l m]\<rparr>))"

definition logger :: "level \<Rightarrow> string \<Rightarrow> unit prog" where
  "logger l m = (\<lambda>w. (Inr (), w\<lparr>logs := logs w @ [Logger l m]\<rparr>))"

section \<open>Request signing\<close>

text \<open>
  The UTC fields of \<^verbatim>\<open>new Date()\<close>, as the getters give them: the month counts from 0.
\<close>

record utc_time =
  utc_year :: nat
  utc_month :: nat
  utc_date :: nat
  utc_hours :: nat
  utc_minutes :: nat
  utc_seconds :: nat

text \<open>
  The hash and the encoding come from the runtime (\<^verbatim>\<open>crypto.createHash('sha512')\<close>,
  \<^verbatim>\<open>Buffer.toString('base64')\<close>); the digest is a string of bytes.
\<close>

record crypto =
  sha512 :: "string \<Rightarrow> string"
  base64 :: "string \<Rightarrow> string"

text \<open>\<^verbatim>\<open>s.padStart(2, '0')\<close> and \<^verbatim>\<open>s.toLowerCase()\<close> (on ASCII).\<close>

definition padStart2 :: "string \<Rightarrow> string" where
  "padStart2 s = replicate (2 - length s) CHR ''0'' @ s"

definition to_lower_char :: "char \<Rightarrow> char" where
  "to_lower_char c =
     (if 65 \<le> (of_char c :: nat) \<and> (of_char c :: nat) \<le> 90
      then char_of ((of_char c :: nat) + 32) else c)"

definition toLowerCase :: "string \<Rightarrow> string" where
  "toLowerCase s = map to_lower_char s"

definition utc_timestamp :: "utc_time \<Rightarrow> string" where
  "utc_timestamp now =
     (let year = number_to_string 10 (utc_year now);
          month = padStart2 (number_to_string 10 (utc_month now + 1));
          day = padStart2 (number_to_string 10 (utc_date now));
          hours = padStart2 (number_to_string 10 (utc_hours now));
          minutes = padStart2 (number_to_string 10 (utc_minutes now));
          seconds = padStart2 (number_to_string 10 (utc_seconds now))
      in year @ ''-'' @ month @ ''-'' @ day @ '' '' @ hours @ '':'' @ minutes @ '':'' @ seconds)"

definition digest_hex :: "string \<Rightarrow> string" where
  "digest_hex hashBytes =
     toLowerCase (concat (map (\<lambda>b. padStart2 (number_to_string 16 (of_char b))) hashBytes))"

definition createSveaAuthHeaders ::
    "crypto \<Rightarrow> utc_time \<Rightarrow> string \<Rightarrow> string \<Rightarrow> string \<Rightarrow> exn + (string \<times> string)" where
  "createSveaAuthHeaders cr now merchantId secretKey requestBody =
     (if merchantId = [] \<or> secretKey = [] then Inl CredentialsRequired
      else
        let timestamp = utc_timestamp now;
            input = requestBody @ secretKey @ timestamp;
            hash = digest_hex (sha512 cr input);
            tokenString = merchantId @ '':'' @ hash;
            token = base64 cr tokenString
        in Inr (token, timestamp))"

text \<open>
  The provider's documented scheme, in the words of the specification: the timestamp has
  the form \<^verbatim>\<open>YYYY-MM-DD HH:MM:SS\<close>, the token is the base64 encoding of the merchant
  id, a colon and the lowercase hexadecimal digest, two digits to the byte.
\<close>

definition timestamp_form :: "string \<Rightarrow> bool" where
  "timestamp_form s \<longleftrightarrow>
     length s = 19 \<and>
     list_all (\<lambda>i. is_digit (s ! i)) [0, 1, 2, 3, 5, 6, 8, 9, 11, 12, 14, 15, 17, 18] \<and>
     s ! 4 = CHR ''-'' \<and> s ! 7 = CHR ''-'' \<and> s ! 10 = CHR '' '' \<and>
     s ! 13 = CHR '':'' \<and> s ! 16 = CHR '':''"

definition spec_hex_byte :: "char \<Rightarrow> string" where
  "spec_hex_byte b =
     [''0123456789abcdef'' ! ((of_char b :: nat) div 16),
      ''0123456789abcdef'' ! ((of_char b :: nat) mod 16)]"

definition spec_token :: "crypto \<Rightarrow> string \<Rightarrow> string \<Rightarrow> string \<Rightarrow> string \<Rightarrow> string" where
  "spec_token cr merchantId secretKey requestBody timestamp =
     base64 cr (merchantId @ '':'' @
       concat (map spec_hex_byte (sha512 cr (requestBody @ secretKey @ timestamp))))"

section \<open>External collaborators\<close>

text \<open>
  The host framework, the provider's API and the JavaScript built-ins are outside the
  repository. The handlers see them through this environment:
  \<^item> \<open>fails n\<close>: the \<open>n\<close>-th call to the host framework (\<^verbatim>\<open>getPayload\<close>, \<^verbatim>\<open>find\<close>,
    \<^verbatim>\<open>findByID\<close>, \<^verbatim>\<open>create\<close>, \<^verbatim>\<open>update\<close>) throws;
  \<^item> \<open>json_parse\<close>: \<^verbatim>\<open>JSON.parse\<close>, \<open>None\<close> for a SyntaxError;
  \<^item> \<open>form_parse\<close>: the entries of \<^verbatim>\<open>new URLSearchParams(text)\<close>, \<open>None\<close> if it throws;
  \<^item> \<open>now_iso\<close>: \<^verbatim>\<open>new Date().toISOString()\<close>;
  \<^item> \<open>hashing\<close>, \<open>clock\<close>: the hash functions of the runtime and the UTC fields of
    \<^verbatim>\<open>new Date()\<close>;
  \<^item> \<open>fetch_order\<close>: \<^verbatim>\<open>GET /api/orders/{id}\<close>, given the id, the token and the timestamp;
  \<^item> \<open>to_number\<close>: \<^verbatim>\<open>Number(v)\<close>;
  \<^item> \<open>user_id\<close>, \<open>user_email\<close>: \<^verbatim>\<open>req.user?.id\<close> and \<^verbatim>\<open>req.user?.email\<close>.
\<close>

datatype fetch_result =
    FetchThrows
  | FetchNotOk nat string
  | FetchOk jsvalue

record env =
  fails :: "nat \<Rightarrow> bool"
  json_parse :: "string \<Rightarrow> jsvalue option"
  form_parse :: "string \<Rightarrow> (string \<times> string) list option"
  now_iso :: string
  hashing :: crypto
  clock :: utc_time
  fetch_order :: "jsvalue \<Rightarrow> string \<Rightarrow> string \<Rightarrow> fetch_result"
  to_number :: "jsvalue \<Rightarrow> jsvalue"
  user_id :: "int option"
  user_email :: jsvalue

text \<open>One call to the host framework: it is counted, and throws when the environment says so.\<close>

definition external :: "env \<Rightarrow> unit prog" where
  "external env = (\<lambda>w.
     (if fails env (calls w) then Inl ExternalFailure else Inr (), w\<lparr>calls := Suc (calls w)\<rparr>))"

definition getPayload :: "env \<Rightarrow> unit prog" where
  "getPayload env = external env"

text \<open>
  The store is a document store with three collections. \<^verbatim>\<open>find\<close> with \<^verbatim>\<open>limit: 1\<close>
  gives the first matching document, \<^verbatim>\<open>findByID\<close> and \<^verbatim>\<open>update\<close> throw when no document
  has the id, \<^verbatim>\<open>create\<close> gives the new document a fresh positive id. A query
  \<^verbatim>\<open>equals: v\<close> on a number field matches a stored number equal to the number \<open>v\<close>.
\<close>

definition equals_number :: "jsvalue \<Rightarrow> jsvalue \<Rightarrow> bool" where
  "equals_number stored v = (case v of JNum n \<Rightarrow> stored = JNum n | _ \<Rightarrow> False)"

definition equals_text :: "jsvalue \<Rightarrow> jsvalue \<Rightarrow> bool" where
  "equals_text stored v = (case v of JStr s \<Rightarrow> stored = JStr s | _ \<Rightarrow> False)"

definition svea_of :: "transaction \<Rightarrow> svea_data" where
  "svea_of t = (case tx_svea t of
       Some g \<Rightarrow> g
     | None \<Rightarrow> \<lparr>svea_orderId = JUndefined, svea_clientOrderNumber = JUndefined,
                svea_paymentType = JUndefined\<rparr>)"

text \<open>The three queries on the transactions, as functions of the collection.\<close>

definition lookup_by_id :: "transaction list \<Rightarrow> jsvalue \<Rightarrow> transaction option" where
  "lookup_by_id txs v = find (\<lambda>t. v = JNum (tx_id t)) txs"

definition lookup_by_orderId :: "transaction list \<Rightarrow> jsvalue \<Rightarrow> transaction option" where
  "lookup_by_orderId txs v = find (\<lambda>t. equals_number (svea_orderId (svea_of t)) v) txs"

definition lookup_by_clientOrderNumber ::
    "transaction list \<Rightarrow> jsvalue \<Rightarrow> transaction option" where
  "lookup_by_clientOrderNumber txs v =
     find (\<lambda>t. equals_text (svea_clientOrderNumber (svea_of t)) v) txs"

definition find_transaction_by_orderId :: "env \<Rightarrow> jsvalue \<Rightarrow> transaction option prog" where
  "find_transaction_by_orderId env v =
     bnd (external env) (\<lambda>_ w. (Inr (lookup_by_orderId (transactions (store w)) v), w))"

definition find_transaction_by_clientOrderNumber ::
    "env \<Rightarrow> jsvalue \<Rightarrow> transaction option prog" where
  "find_transaction_by_clientOrderNumber env v =
     bnd (external env) (\<lambda>_ w.
       (Inr (lookup_by_clientOrderNumber (transactions (store w)) v), w))"

definition findByID_transaction :: "env \<Rightarrow> jsvalue \<Rightarrow> transaction prog" where
  "findByID_transaction env v =
     bnd (external env) (\<lambda>_ w.
       case lookup_by_id (transactions (store w)) v of
         None \<Rightarrow> (Inl NotFound, w)
       | Some t \<Rightarrow> (Inr t, w))"

definition findByID_cart :: "env \<Rightarrow> int \<Rightarrow> cart prog" where
  "findByID_cart env n =
     bnd (external env) (\<lambda>_ w.
       case find (\<lambda>c. cart_id c = n) (carts (store w)) of
         None \<Rightarrow> (Inl NotFound, w)
       | Some c \<Rightarrow> (Inr c, w))"

definition findByID_order :: "env \<Rightarrow> int \<Rightarrow> order prog" where
  "findByID_order env n =
     bnd (external env) (\<lambda>_ w.
       case find (\<lambda>d. order_id d = n) (orders (store w)) of
         None \<Rightarrow> (Inl NotFound, w)
       | Some d \<Rightarrow> (Inr d, w))"

text \<open>\<^verbatim>\<open>where: { transactions: { contains: id } }\<close> on the orders.\<close>

definition lookup_order_containing :: "order list \<Rightarrow> int \<Rightarrow> order option" where
  "lookup_order_containing os n = find (\<lambda>d. n \<in> ref_id ` set (order_transactions d)) os"

definition find_order_containing :: "env \<Rightarrow> int \<Rightarrow> order option prog" where
  "find_order_containing env n =
     bnd (external env) (\<lambda>_ w. (Inr (lookup_order_containing (orders (store w)) n), w))"

text \<open>\<^verbatim>\<open>update\<close>: the patch is applied to the document with the id; the updated document is returned.\<close>

definition update_transaction ::
    "env \<Rightarrow> int \<Rightarrow> (transaction \<Rightarrow> transaction) \<Rightarrow> transaction prog" where
  "update_transaction env n patch =
     bnd (external env) (\<lambda>_ w.
       case find (\<lambda>t. tx_id t = n) (transactions (store w)) of
         None \<Rightarrow> (Inl NotFound, w)
       | Some t \<Rightarrow>
           (Inr (patch t),
            w\<lparr>store := (store w)\<lparr>
                 transactions := map (\<lambda>d. if tx_id d = n then patch d else d)
                                   (transactions (store w)),
                 journal := journal (store w) @ [Updated Transactions n]\<rparr>\<rparr>))"

definition update_order :: "env \<Rightarrow> int \<Rightarrow> (order \<Rightarrow> order) \<Rightarrow> order prog" where
  "update_order env n patch =
     bnd (external env) (\<lambda>_ w.
       case find (\<lambda>d. order_id d = n) (orders (store w)) of
         None \<Rightarrow> (Inl NotFound, w)
       | Some d \<Rightarrow>
           (Inr (patch d),
            w\<lparr>store := (store w)\<lparr>
                 orders := map (\<lambda>d. if order_id d = n then patch d else d) (orders (store w)),
                 journal := journal (store w) @ [Updated Orders n]\<rparr>\<rparr>))"

definition update_cart :: "env \<Rightarrow> int \<Rightarrow> (cart \<Rightarrow> cart) \<Rightarrow> cart prog" where
  "update_cart env n patch =
     bnd (external env) (\<lambda>_ w.
       case find (\<lambda>c. cart_id c = n) (carts (store w)) of
         None \<Rightarrow> (Inl NotFound, w)
       | Some c \<Rightarrow>
           (Inr (patch c),
            w\<lparr>store := (store w)\<lparr>
                 carts := map (\<lambda>d. if cart_id d = n then patch d else d) (carts (store w)),
                 journal := journal (store w) @ [Updated Carts n]\<rparr>\<rparr>))"

definition fresh_order_id :: "order list \<Rightarrow> int" where
  "fresh_order_id os = foldl max 0 (map order_id os) + 1"

text \<open>\<^verbatim>\<open>create\<close> on the orders: the data carry every field but the id.\<close>

definition create_order :: "env \<Rightarrow> order \<Rightarrow> order prog" where
  "create_order env data =
     bnd (external env) (\<lambda>_ w.
       let d = data\<lparr>order_id := fresh_order_id (orders (store w))\<rparr>
       in (Inr d,
           w\<lparr>store := (store w)\<lparr>
                orders := orders (store w) @ [d],
                journal := journal (store w) @ [Created Orders (order_id d)]\<rparr>\<rparr>))"

section \<open>The webhook handler\<close>

text \<open>
  A request as the handlers read it: the query parameters, the path split at \<^verbatim>\<open>/\<close>, the
  \<^verbatim>\<open>content-type\<close> header and the body text (\<open>None\<close> when reading it throws).
\<close>

record request =
  req_query :: "(string \<times> string) list"
  req_path :: "string list"
  req_content_type :: "string option"
  req_body :: "string option"

record response =
  resp_status :: nat
  resp_body :: "jsvalue option"
  resp_cors :: bool

text \<open>\<^verbatim>\<open>new NextResponse(null, { status: 200 })\<close> and \<^verbatim>\<open>NextResponse.json(v)\<close>.\<close>

definition empty_200 :: response where
  "empty_200 = \<lparr>resp_status = 200, resp_body = None, resp_cors = False\<rparr>"

definition json_response :: "jsvalue \<Rightarrow> response" where
  "json_response v = \<lparr>resp_status = 200, resp_body = Some v, resp_cors = False\<rparr>"

definition searchParams_get :: "(string \<times> string) list \<Rightarrow> string \<Rightarrow> jsvalue" where
  "searchParams_get q k = (case map_of q k of None \<Rightarrow> JNull | Some v \<Rightarrow> JStr v)"

text \<open>\<^verbatim>\<open>Object.fromEntries(entries)\<close>: of two entries with one key the later one stays.\<close>

definition from_entries :: "(string \<times> string) list \<Rightarrow> jsvalue" where
  "from_entries es = JObj (map (\<lambda>(k, v). (k, JStr v)) (rev es))"

text \<open>The last path segment that matches \<^verbatim>\<open>/^\d+$/\<close>.\<close>

definition webhook_path_order_id :: "string list \<Rightarrow> jsvalue" where
  "webhook_path_order_id path =
     (case find (\<lambda>part. part \<noteq> [] \<and> list_all is_digit part)
             (rev (filter (\<lambda>part. part \<noteq> []) path)) of
        None \<Rightarrow> JNull
      | Some part \<Rightarrow> JStr part)"

definition parse_webhook_body :: "env \<Rightarrow> request \<Rightarrow> jsvalue prog" where
  "parse_webhook_body env req =
     (let contentType = (case req_content_type req of None \<Rightarrow> [] | Some c \<Rightarrow> c)
      in case req_body req of
           None \<Rightarrow> ret (JObj [])
         | Some bodyText \<Rightarrow>
             if bodyText = [] then ret (JObj [])
             else if str_includes contentType ''application/json'' then
               (case json_parse env bodyText of
                  None \<Rightarrow> ret (JObj [])
                | Some v \<Rightarrow> ret v)
             else if str_includes contentType ''application/x-www-form-urlencoded'' then
               (case form_parse env bodyText of
                  None \<Rightarrow> ret (JObj [])
                | Some es \<Rightarrow> ret (from_entries es))
             else
               (case json_parse env bodyText of
                  Some v \<Rightarrow> ret v
                | None \<Rightarrow>
                    (case form_parse env bodyText of
                       Some es \<Rightarrow> ret (from_entries es)
                     | None \<Rightarrow>
                         bnd (console Info ''[Svea Webhook] Could not parse body'')
                           (\<lambda>_. ret (JObj [])))))"

text \<open>
  \<^verbatim>\<open>x && typeof x === 'object' ? x.id : x\<close> on a relationship field, and the truthiness
  and \<^verbatim>\<open>||\<close> of the resulting optional id.
\<close>

definition ref_id_of :: "ref option \<Rightarrow> int option" where
  "ref_id_of r = map_option ref_id r"

definition id_truthy :: "int option \<Rightarrow> bool" where
  "id_truthy n = (case n of None \<Rightarrow> False | Some k \<Rightarrow> k \<noteq> 0)"

definition id_or :: "int option \<Rightarrow> int option \<Rightarrow> int option" where
  "id_or a b = (if id_truthy a then a else b)"

definition normalize_item :: "item \<Rightarrow> item" where
  "normalize_item i =
     \<lparr>item_product =
        (if typeof_object (item_product i) then member (item_product i) ''id''
         else item_product i),
      item_variant =
        (if truthy (item_variant i)
         then (if typeof_object (item_variant i) then member (item_variant i) ''id''
               else item_variant i)
         else JUndefined),
      item_quantity = js_or (item_quantity i) (JNum 1)\<rparr>"

text \<open>The cart of a transaction: the populated document, or the one fetched by id.\<close>

definition load_cart :: "env \<Rightarrow> transaction \<Rightarrow> cart option prog" where
  "load_cart env t =
     (case tx_cart t of
        None \<Rightarrow> ret None
      | Some (CartDoc c) \<Rightarrow> ret (Some c)
      | Some (CartId n) \<Rightarrow>
          if n \<noteq> 0 then bnd (findByID_cart env n) (\<lambda>c. ret (Some c)) else ret None)"

text \<open>The order already linked to the transaction, or the first one that lists it.\<close>

definition lookup_existing_order :: "env \<Rightarrow> transaction \<Rightarrow> int option prog" where
  "lookup_existing_order env t =
     (if ref_truthy (tx_order t) then ret (ref_id_of (tx_order t))
      else bnd (find_order_containing env (tx_id t)) (\<lambda>found. ret (map_option order_id found)))"

definition purchased_patch :: "env \<Rightarrow> cart \<Rightarrow> cart \<Rightarrow> cart" where
  "purchased_patch env cart d =
     d\<lparr>cart_purchasedAt := js_or (cart_purchasedAt cart) (JStr (now_iso env)),
       cart_status := JStr ''purchased'',
       cart_items := Some []\<rparr>"

definition webhook_order_data :: "transaction \<Rightarrow> cart \<Rightarrow> order" where
  "webhook_order_data t cart =
     (let customerId = id_or (ref_id_of (cart_customer cart)) (ref_id_of (tx_customer t))
      in \<lparr>order_id = 0,
          order_amount = js_or (tx_amount t) (js_or (cart_subtotal cart) (JNum 0)),
          order_currency = js_or (tx_currency t) (js_or (cart_currency cart) (JStr ''NOK'')),
          order_items =
            map normalize_item (case cart_items cart of None \<Rightarrow> [] | Some xs \<Rightarrow> xs),
          order_status = ''processing'',
          order_transactions = [RefId (tx_id t)],
          order_shippingAddress = None,
          order_customer = (if id_truthy customerId then customerId else None),
          order_customerEmail =
            (if truthy (tx_customerEmail t) then tx_customerEmail t else JUndefined)\<rparr>)"

definition webhook_create_order :: "env \<Rightarrow> transaction \<Rightarrow> unit prog" where
  "webhook_create_order env t =
     bnd (load_cart env t) (\<lambda>cart_opt.
       case cart_opt of
         None \<Rightarrow> logger Warn ''No cart found for transaction in webhook''
       | Some cart \<Rightarrow>
           bnd (create_order env (webhook_order_data t cart)) (\<lambda>created.
           bnd (logger Info ''Created order from webhook'') (\<lambda>_.
           bnd (update_transaction env (tx_id t)
                  (\<lambda>d. d\<lparr>tx_order := Some (RefId (order_id created))\<rparr>)) (\<lambda>_.
           try_catch
             (bnd (update_cart env (cart_id cart) (purchased_patch env cart)) (\<lambda>_. ret ()))
             (\<lambda>cartError. logger Warn ''Could not update cart in webhook'')))))"

text \<open>The branch of \<^verbatim>\<open>status === 'Final'\<close> behind the idempotency gate.\<close>

definition webhook_finalize :: "env \<Rightarrow> transaction \<Rightarrow> jsvalue \<Rightarrow> jsvalue \<Rightarrow> unit prog" where
  "webhook_finalize env t orderIdNum paymentType =
     (let existingSveaData = svea_of t
      in bnd (update_transaction env (tx_id t)
                (\<lambda>d. d\<lparr>tx_status := ''succeeded'',
                        tx_svea := Some (existingSveaData\<lparr>
                          svea_orderId := orderIdNum,
                          svea_paymentType :=
                            js_or paymentType (svea_paymentType existingSveaData)\<rparr>)\<rparr>)) (\<lambda>_.
         bnd (lookup_existing_order env t) (\<lambda>existingOrderId.
           if \<not> id_truthy existingOrderId then webhook_create_order env t
           else logger Info ''Order already exists - skipping creation'')))"

definition success_body :: jsvalue where
  "success_body = JObj [(''success'', JBool True)]"

definition already_processed_body :: jsvalue where
  "already_processed_body =
     JObj [(''success'', JBool True), (''message'', JStr ''Already processed'')]"

definition webhook_dispatch ::
    "env \<Rightarrow> transaction \<Rightarrow> jsvalue \<Rightarrow> jsvalue \<Rightarrow> jsvalue \<Rightarrow> response prog" where
  "webhook_dispatch env t orderIdNum status paymentType =
     (if status = JStr ''Final'' then
        (if tx_status t = ''succeeded'' \<and> ref_truthy (tx_order t) then
           bnd (logger Info ''Transaction already succeeded - idempotent'') (\<lambda>_.
             ret (json_response already_processed_body))
         else
           bnd (webhook_finalize env t orderIdNum paymentType) (\<lambda>_.
             ret (json_response success_body)))
      else if status = JStr ''Cancelled'' then
        bnd (update_transaction env (tx_id t) (\<lambda>d. d\<lparr>tx_status := ''failed''\<rparr>)) (\<lambda>_.
        bnd (logger Info ''Transaction marked as failed'') (\<lambda>_.
          ret (json_response success_body)))
      else ret (json_response success_body))"

text \<open>\<^verbatim>\<open>typeof v === 'string' ? parseInt(v, 10) : v\<close>.\<close>

definition numeric_id :: "jsvalue \<Rightarrow> jsvalue" where
  "numeric_id v = (case v of JStr s \<Rightarrow> parseInt s | _ \<Rightarrow> v)"

text \<open>The order id, status and payment type, from the body, the query and the path.\<close>

definition webhook_order_id :: "request \<Rightarrow> jsvalue \<Rightarrow> jsvalue" where
  "webhook_order_id req body =
     (let queryOrderId = nullish_or (searchParams_get (req_query req) ''orderId'')
                           (searchParams_get (req_query req) ''OrderId'');
          orderIdFromPath = webhook_path_order_id (req_path req)
      in nullish_or (member body ''OrderId'')
           (nullish_or (member body ''orderId'')
             (nullish_or (member (member body ''Data'') ''OrderId'')
               (nullish_or queryOrderId orderIdFromPath))))"

definition webhook_status :: "request \<Rightarrow> jsvalue \<Rightarrow> jsvalue" where
  "webhook_status req body =
     (let queryStatus = nullish_or (searchParams_get (req_query req) ''status'')
                          (searchParams_get (req_query req) ''Status'')
      in nullish_or (member body ''Status'')
           (nullish_or (member body ''status'')
             (nullish_or (member (member body ''Data'') ''Status'') queryStatus)))"

definition webhook_payment_type :: "jsvalue \<Rightarrow> jsvalue" where
  "webhook_payment_type body =
     nullish_or (member body ''PaymentType'')
       (nullish_or (member body ''paymentType'') (member (member body ''Data'') ''PaymentType''))"

text \<open>The body of the \<^verbatim>\<open>try\<close> block, after \<^verbatim>\<open>getPayload\<close>.\<close>

definition webhook_main :: "env \<Rightarrow> request \<Rightarrow> response prog" where
  "webhook_main env req =
     bnd (parse_webhook_body env req) (\<lambda>body.
       if is_nullish body then raise TypeError
       else
         let orderId = webhook_order_id req body;
             status = webhook_status req body;
             paymentType = webhook_payment_type body
         in if \<not> truthy orderId then
              bnd (console Warn ''[Svea Webhook] Missing OrderId'') (\<lambda>_.
              bnd (logger Warn ''Svea webhook missing OrderId'') (\<lambda>_.
                ret empty_200))
            else
              let orderIdNum = numeric_id orderId
              in bnd (logger Info ''Received Svea webhook'') (\<lambda>_.
                 bnd (find_transaction_by_orderId env orderIdNum) (\<lambda>found.
                   case found of
                     None \<Rightarrow>
                       bnd (logger Warn ''Transaction not found for Svea order'') (\<lambda>_.
                         ret empty_200)
                   | Some t \<Rightarrow>
                       bnd (logger Info ''Found transaction for Svea webhook'') (\<lambda>_.
                         webhook_dispatch env t orderIdNum status paymentType))))"

text \<open>
  The \<^verbatim>\<open>catch\<close> block: the error is written to the console, then to the logger of the
  host (fetched again if \<^verbatim>\<open>getPayload\<close> was what failed; a failure there is ignored),
  and the answer is an empty 200.
\<close>

definition webhook_on_error :: "env \<Rightarrow> bool \<Rightarrow> exn \<Rightarrow> response prog" where
  "webhook_on_error env have_payload e =
     bnd (console Error ''[Svea Webhook] Error:'') (\<lambda>_.
     bnd (try_catch
            (bnd (if have_payload then ret () else getPayload env) (\<lambda>_.
               logger Error ''Error processing Svea webhook''))
            (\<lambda>_. ret ())) (\<lambda>_.
       ret empty_200))"

definition handleWebhook :: "env \<Rightarrow> request \<Rightarrow> response prog" where
  "handleWebhook env req =
     bnd (console Info ''[Svea Webhook] Request received at:'') (\<lambda>_ w.
       case getPayload env w of
         (Inl e, w') \<Rightarrow> webhook_on_error env False e w'
       | (Inr _, w') \<Rightarrow> try_catch (webhook_main env req) (webhook_on_error env True) w')"

section \<open>The validation callback\<close>

text \<open>
  The integrator's predicate \<^verbatim>\<open>customValidation\<close>, given the order id, the transaction
  and the body: it returns a boolean, throws an \<^verbatim>\<open>Error\<close> with a message, or throws
  something else.
\<close>

datatype validation_outcome = Returns bool | ThrowsError string | ThrowsOther

type_synonym custom_validation = "jsvalue \<Rightarrow> transaction \<Rightarrow> jsvalue \<Rightarrow> validation_outcome"

text \<open>\<^verbatim>\<open>NextResponse.json({ Valid: true, ...extra }, { status: 200, headers: CORS_HEADERS })\<close>.\<close>

definition sveaOkResponse :: "(string \<times> jsvalue) list \<Rightarrow> response" where
  "sveaOkResponse extra =
     \<lparr>resp_status = 200, resp_body = Some (JObj ((''Valid'', JBool True) # extra)),
      resp_cors = True\<rparr>"

definition rejection :: "string \<Rightarrow> response" where
  "rejection msg =
     \<lparr>resp_status = 200,
      resp_body = Some (JObj [(''Valid'', JBool False), (''Message'', JStr msg)]),
      resp_cors = True\<rparr>"

text \<open>The last path segment that \<^verbatim>\<open>parseInt\<close> reads as a positive number.\<close>

definition validation_path_order_id :: "string list \<Rightarrow> jsvalue" where
  "validation_path_order_id path =
     (case find (\<lambda>part. case parseInt part of JNum n \<Rightarrow> 0 < n | _ \<Rightarrow> False)
             (rev (filter (\<lambda>part. part \<noteq> []) path)) of
        None \<Rightarrow> JUndefined
      | Some part \<Rightarrow> parseInt part)"

definition parse_validation_body :: "env \<Rightarrow> request \<Rightarrow> jsvalue prog" where
  "parse_validation_body env req =
     (case req_body req of
        None \<Rightarrow>
          bnd (console Info ''[Svea Validation Callback] Could not parse body'')
            (\<lambda>_. ret (JObj []))
      | Some bodyText \<Rightarrow>
          if bodyText = [] then ret (JObj [])
          else (case json_parse env bodyText of
                  None \<Rightarrow>
                    bnd (console Info ''[Svea Validation Callback] Could not parse body'')
                      (\<lambda>_. ret (JObj []))
                | Some v \<Rightarrow> ret v))"

text \<open>A body with an \<^verbatim>\<open>EventName\<close>: the event is logged and answered.\<close>

definition validation_event :: "env \<Rightarrow> jsvalue \<Rightarrow> jsvalue \<Rightarrow> response prog" where
  "validation_event env body orderIdFromUrl =
     bnd (logger Info ''Received Svea webhook event in validation callback'') (\<lambda>_.
       let orderId = js_or (member body ''OrderId'')
                       (js_or (member (member body ''Data'') ''OrderId'')
                         (js_or (member (member body ''Payload'') ''OrderId'') orderIdFromUrl))
       in bnd (if truthy orderId then
                 bnd (find_transaction_by_orderId env (to_number env orderId)) (\<lambda>found.
                   case found of
                     None \<Rightarrow> ret ()
                   | Some t \<Rightarrow> logger Info ''Validated transaction for Svea webhook event'')
               else ret ()) (\<lambda>_.
            ret (sveaOkResponse [])))"

definition run_custom_validation ::
    "custom_validation option \<Rightarrow> jsvalue \<Rightarrow> transaction \<Rightarrow> jsvalue \<Rightarrow> response option prog"
  where
  "run_custom_validation cv orderId t body =
     (case cv of
        None \<Rightarrow> ret None
      | Some validate \<Rightarrow>
          (case validate orderId t body of
             Returns isValid \<Rightarrow>
               if \<not> isValid then
                 bnd (logger Warn ''Custom validation rejected the order'') (\<lambda>_.
                   ret (Some (rejection ''Order validation failed'')))
               else ret None
           | ThrowsError msg \<Rightarrow>
               bnd (logger Error ''Custom validation threw an error'') (\<lambda>_.
                 ret (Some (rejection msg)))
           | ThrowsOther \<Rightarrow>
               bnd (logger Error ''Custom validation threw an error'') (\<lambda>_.
                 ret (Some (rejection ''Validation error'')))))"

text \<open>The order id of a validation request: from the body, or else from the path.\<close>

definition validation_order_id :: "request \<Rightarrow> jsvalue \<Rightarrow> jsvalue" where
  "validation_order_id req body =
     js_or (member body ''OrderId'')
       (js_or (member body ''orderId'') (validation_path_order_id (req_path req)))"

definition validation_main ::
    "env \<Rightarrow> custom_validation option \<Rightarrow> request \<Rightarrow> response prog" where
  "validation_main env cv req =
     (let orderIdFromUrl = validation_path_order_id (req_path req)
      in bnd (parse_validation_body env req) (\<lambda>body.
         bnd (logger Info ''Received Svea validation callback'') (\<lambda>_.
           if is_nullish body then raise TypeError
           else if truthy (member body ''EventName'') then
             validation_event env body orderIdFromUrl
           else
             let orderId = validation_order_id req body
             in bnd (console Info ''[Svea Validation Callback] Processing validation:'') (\<lambda>_.
                if \<not> truthy orderId then
                  bnd (console Warn ''[Svea Validation Callback] Missing OrderId'') (\<lambda>_.
                  bnd (logger Warn ''Missing OrderId in validation callback'') (\<lambda>_.
                    ret (sveaOkResponse [(''Warning'', JStr ''Missing OrderId'')])))
                else
                  bnd (find_transaction_by_orderId env orderId) (\<lambda>found.
                    case found of
                      None \<Rightarrow>
                        bnd (logger Warn ''Transaction not found in validation callback'') (\<lambda>_.
                          ret (sveaOkResponse [(''Warning'', JStr ''Transaction not found'')]))
                    | Some t \<Rightarrow>
                        bnd (if tx_status t \<noteq> ''pending''
                             then logger Warn ''Transaction is not pending in validation callback''
                             else ret ()) (\<lambda>_.
                        bnd (run_custom_validation cv orderId t body) (\<lambda>rejected.
                          case rejected of
                            Some r \<Rightarrow> ret r
                          | None \<Rightarrow>
                              bnd (logger Info ''Svea validation callback successful'') (\<lambda>_.
                                ret (sveaOkResponse
                                       [(''OrderId'', orderId),
                                        (''TransactionId'', JNum (tx_id t))])))))))))"

definition validation_on_error :: "env \<Rightarrow> bool \<Rightarrow> exn \<Rightarrow> response prog" where
  "validation_on_error env have_payload e =
     bnd (console Error ''[Svea Validation Callback] Error:'') (\<lambda>_.
     bnd (try_catch
            (bnd (if have_payload then ret () else getPayload env) (\<lambda>_.
               logger Error ''Error processing Svea validation callback''))
            (\<lambda>_. ret ())) (\<lambda>_.
       ret (sveaOkResponse [(''Error'', JStr (message e))])))"

definition handleValidationRequest ::
    "env \<Rightarrow> custom_validation option \<Rightarrow> request \<Rightarrow> response prog" where
  "handleValidationRequest env cv req =
     bnd (console Info ''[Svea Validation Callback] Request received at:'') (\<lambda>_ w.
       case getPayload env w of
         (Inl e, w') \<Rightarrow> validation_on_error env False e w'
       | (Inr _, w') \<Rightarrow>
           try_catch (validation_main env cv req) (validation_on_error env True) w')"

section \<open>Confirming an order\<close>

record config =
  merchantId :: string
  secretKey :: string

record confirm_result =
  cr_message :: string
  cr_orderID :: int
  cr_transactionID :: int

definition normalizeCartItems :: "item list option \<Rightarrow> item list" where
  "normalizeCartItems items =
     (case items of
        None \<Rightarrow> []
      | Some xs \<Rightarrow> if xs = [] then [] else map normalize_item xs)"

definition mapSveaAddressToPayload :: "jsvalue \<Rightarrow> address option" where
  "mapSveaAddressToPayload addr =
     (if \<not> truthy addr then None
      else
        let firstName = js_or (member addr ''firstName'') (member addr ''FirstName'');
            lastName = js_or (member addr ''lastName'') (member addr ''LastName'');
            streetAddress = js_or (member addr ''streetAddress'') (member addr ''StreetAddress'');
            streetAddress2 =
              js_or (member addr ''streetAddress2'') (member addr ''StreetAddress2'');
            coAddress = js_or (member addr ''coAddress'') (member addr ''CoAddress'');
            city = js_or (member addr ''city'') (member addr ''City'');
            postalCode = js_or (member addr ''postalCode'') (member addr ''PostalCode'');
            countryCode = js_or (member addr ''countryCode'') (member addr ''CountryCode'');
            phoneNumber = js_or (member addr ''phoneNumber'') (member addr ''PhoneNumber'');
            result =
              \<lparr>addr_firstName = js_or firstName JUndefined,
               addr_lastName = js_or lastName JUndefined,
               addr_company = JUndefined,
               addr_addressLine1 = js_or streetAddress (js_or coAddress JUndefined),
               addr_addressLine2 =
                 js_or streetAddress2
                   (if truthy coAddress \<and> truthy streetAddress then coAddress else JUndefined),
               addr_city = js_or city JUndefined,
               addr_state = JUndefined,
               addr_postalCode = js_or postalCode JUndefined,
               addr_country = js_or countryCode JUndefined,
               addr_phone = js_or phoneNumber JUndefined\<rparr>;
            hasData =
              list_ex (\<lambda>v. v \<noteq> JUndefined)
                [addr_firstName result, addr_lastName result, addr_company result,
                 addr_addressLine1 result, addr_addressLine2 result, addr_city result,
                 addr_state result, addr_postalCode result, addr_country result,
                 addr_phone result]
        in if hasData then Some result else None)"

text \<open>The three identifiers, read from the request data under their spellings.\<close>

definition confirm_sveaOrderId :: "jsvalue \<Rightarrow> jsvalue" where
  "confirm_sveaOrderId data =
     nullish_or (member data ''orderId'')
       (nullish_or (member data ''OrderId'') (member data ''sveaOrderId''))"

definition confirm_transactionId :: "jsvalue \<Rightarrow> jsvalue" where
  "confirm_transactionId data =
     nullish_or (member data ''transactionId'') (member data ''transactionID'')"

definition confirm_clientOrderNumber :: "jsvalue \<Rightarrow> jsvalue" where
  "confirm_clientOrderNumber data =
     nullish_or (member data ''clientOrderNumber'') (member data ''ClientOrderNumber'')"

text \<open>Finding the transaction: by id, then by provider order id, then by client order number.\<close>

definition resolve_transaction ::
    "env \<Rightarrow> jsvalue \<Rightarrow> jsvalue \<Rightarrow> jsvalue \<Rightarrow> transaction prog" where
  "resolve_transaction env sveaOrderId transactionId clientOrderNumber =
     bnd (if truthy transactionId then
            try_catch
              (bnd (findByID_transaction env (numeric_id transactionId)) (\<lambda>t. ret (Some t)))
              (\<lambda>_. bnd (logger Warn ''Transaction not found by ID'') (\<lambda>_. ret None))
          else ret None) (\<lambda>byId.
     bnd (if byId = None \<and> truthy sveaOrderId
          then find_transaction_by_orderId env (numeric_id sveaOrderId)
          else ret byId) (\<lambda>byOrderId.
     bnd (if byOrderId = None \<and> truthy clientOrderNumber
          then find_transaction_by_clientOrderNumber env clientOrderNumber
          else ret byOrderId) (\<lambda>found.
       case found of
         None \<Rightarrow> bnd (logger Error ''Transaction not found'') (\<lambda>_. raise TransactionNotFound)
       | Some t \<Rightarrow> ret t)))"

text \<open>The provider order id of the input, or else the one stored on the transaction.\<close>

definition effective_sveaOrderId :: "jsvalue \<Rightarrow> transaction \<Rightarrow> jsvalue" where
  "effective_sveaOrderId sveaOrderId t =
     (if \<not> truthy sveaOrderId \<and> truthy (svea_orderId (svea_of t))
      then svea_orderId (svea_of t) else sveaOrderId)"

definition fetch_svea_order :: "env \<Rightarrow> config \<Rightarrow> jsvalue \<Rightarrow> jsvalue prog" where
  "fetch_svea_order env cfg sveaOrderId =
     (case createSveaAuthHeaders (hashing env) (clock env) (merchantId cfg) (secretKey cfg) [] of
        Inl e \<Rightarrow> raise e
      | Inr (token, timestamp) \<Rightarrow>
          (case fetch_order env sveaOrderId token timestamp of
             FetchThrows \<Rightarrow> raise ExternalFailure
           | FetchNotOk st errorText \<Rightarrow>
               bnd (logger Error ''Error fetching Svea order'') (\<lambda>_.
                 raise (FetchOrderFailed st errorText))
           | FetchOk sveaOrder \<Rightarrow>
               if is_nullish sveaOrder then raise TypeError
               else bnd (logger Info ''Fetched Svea order details'') (\<lambda>_. ret sveaOrder)))"

definition confirm_order_items :: "transaction \<Rightarrow> cart \<Rightarrow> item list" where
  "confirm_order_items t cart =
     (let normalizedOrderItems = normalizeCartItems (cart_items cart)
      in if normalizedOrderItems = [] \<and>
            (case tx_items t of None \<Rightarrow> False | Some xs \<Rightarrow> xs \<noteq> [])
         then normalizeCartItems (tx_items t)
         else normalizedOrderItems)"

definition confirm_shipping_address :: "transaction \<Rightarrow> jsvalue \<Rightarrow> address option" where
  "confirm_shipping_address t sveaOrder =
     (case tx_billingAddress t of
        Some txAddr \<Rightarrow> Some txAddr
      | None \<Rightarrow>
          mapSveaAddressToPayload
            (js_or (member sveaOrder ''ShippingAddress'') (member sveaOrder ''BillingAddress'')))"

definition confirm_billing_address :: "transaction \<Rightarrow> jsvalue \<Rightarrow> address option" where
  "confirm_billing_address t sveaOrder =
     (case tx_billingAddress t of
        Some txAddr \<Rightarrow> Some txAddr
      | None \<Rightarrow>
          mapSveaAddressToPayload
            (js_or (member sveaOrder ''BillingAddress'') (member sveaOrder ''ShippingAddress'')))"

definition confirm_customer_id :: "env \<Rightarrow> transaction \<Rightarrow> cart \<Rightarrow> int option" where
  "confirm_customer_id env t cart =
     (let resolved = id_or (ref_id_of (cart_customer cart))
                       (id_or (ref_id_of (tx_customer t)) (user_id env))
      in if id_truthy resolved then resolved else None)"

definition confirm_customer_email :: "env \<Rightarrow> jsvalue \<Rightarrow> transaction \<Rightarrow> jsvalue \<Rightarrow> jsvalue" where
  "confirm_customer_email env data t sveaOrder =
     js_or (tx_customerEmail t)
       (js_or (member data ''customerEmail'')
         (js_or (member (member sveaOrder ''Customer'') ''emailAddress'')
           (js_or (member sveaOrder ''EmailAddress'')
             (if typeof_string (user_email env) then user_email env else JUndefined))))"

text \<open>\<^verbatim>\<open>Array.from(new Set(xs))\<close>: the first occurrence of every element, in order.\<close>

definition array_from_set :: "int list \<Rightarrow> int list" where
  "array_from_set xs = rev (remdups (rev xs))"

definition merged_transaction_ids :: "order \<Rightarrow> int \<Rightarrow> int list" where
  "merged_transaction_ids existingOrder txid =
     array_from_set
       (filter (\<lambda>n. n \<noteq> 0) (map ref_id (order_transactions existingOrder)) @ [txid])"

definition order_payload ::
    "transaction \<Rightarrow> cart \<Rightarrow> item list \<Rightarrow> address option \<Rightarrow> int option \<Rightarrow> jsvalue \<Rightarrow> order"
  where
  "order_payload t cart normalizedOrderItems shipping customerId customerEmail =
     \<lparr>order_id = 0,
      order_amount = js_or (tx_amount t) (js_or (cart_subtotal cart) (JNum 0)),
      order_currency = js_or (tx_currency t) (js_or (cart_currency cart) (JStr ''NOK'')),
      order_items = normalizedOrderItems,
      order_status = ''processing'',
      order_transactions = [RefId (tx_id t)],
      order_shippingAddress = shipping,
      order_customer = customerId,
      order_customerEmail = (if truthy customerEmail then customerEmail else JUndefined)\<rparr>"

text \<open>
  The update of an existing order: the fields of the payload are written over the
  document, the optional ones only when the payload has them.
\<close>

definition order_patch :: "order \<Rightarrow> int list \<Rightarrow> order \<Rightarrow> order" where
  "order_patch payload mergedTransactionIds d =
     d\<lparr>order_amount := order_amount payload,
       order_currency := order_currency payload,
       order_items := order_items payload,
       order_status := order_status payload,
       order_transactions := map RefId mergedTransactionIds,
       order_shippingAddress :=
         (case order_shippingAddress payload of
            None \<Rightarrow> order_shippingAddress d
          | Some a \<Rightarrow> Some a),
       order_customer :=
         (case order_customer payload of None \<Rightarrow> order_customer d | Some c \<Rightarrow> Some c),
       order_customerEmail :=
         (if truthy (order_customerEmail payload) then order_customerEmail payload
          else order_customerEmail d)\<rparr>"

definition create_or_update_order ::
    "env \<Rightarrow> transaction \<Rightarrow> order \<Rightarrow> int option \<Rightarrow> order prog" where
  "create_or_update_order env t payload existingOrderId =
     (case (if id_truthy existingOrderId then existingOrderId else None) of
        Some n \<Rightarrow>
          bnd (findByID_order env n) (\<lambda>existingOrder.
          bnd (update_order env n
                 (order_patch payload (merged_transaction_ids existingOrder (tx_id t))))
            (\<lambda>updated.
          bnd (logger Info ''Updated existing order'') (\<lambda>_. ret updated)))
      | None \<Rightarrow>
          bnd (create_order env payload) (\<lambda>created.
          bnd (logger Info ''Created new order'') (\<lambda>_. ret created)))"

definition confirm_transaction_patch ::
    "env \<Rightarrow> transaction \<Rightarrow> jsvalue \<Rightarrow> jsvalue \<Rightarrow> int \<Rightarrow> address option \<Rightarrow> jsvalue \<Rightarrow>
     transaction \<Rightarrow> transaction" where
  "confirm_transaction_patch env t sveaOrderId sveaOrder orderId billing customerEmail d =
     (let existingSveaData = svea_of t
      in d\<lparr>tx_order := Some (RefId orderId),
           tx_status := ''succeeded'',
           tx_billingAddress :=
             (case billing of None \<Rightarrow> tx_billingAddress d | Some a \<Rightarrow> Some a),
           tx_customerEmail :=
             (if truthy customerEmail then customerEmail else tx_customerEmail d),
           tx_svea := Some (existingSveaData\<lparr>
             svea_orderId := to_number env sveaOrderId,
             svea_clientOrderNumber :=
               js_or (svea_clientOrderNumber existingSveaData)
                 (member sveaOrder ''ClientOrderNumber''),
             svea_paymentType :=
               js_or (member sveaOrder ''PaymentType'')
                 (member (member sveaOrder ''Payment'') ''paymentType'')\<rparr>)\<rparr>)"

text \<open>From the cart to the updated transaction, once the provider order is final.\<close>

definition confirm_materialize ::
    "env \<Rightarrow> jsvalue \<Rightarrow> transaction \<Rightarrow> jsvalue \<Rightarrow> jsvalue \<Rightarrow> confirm_result prog" where
  "confirm_materialize env data t sveaOrderId sveaOrder =
     bnd (load_cart env t) (\<lambda>cart_opt.
       case cart_opt of
         None \<Rightarrow> raise CartNotFound
       | Some cart \<Rightarrow>
           let normalizedOrderItems = confirm_order_items t cart;
               shipping = confirm_shipping_address t sveaOrder;
               billing = confirm_billing_address t sveaOrder;
               resolvedCustomerId = confirm_customer_id env t cart;
               resolvedCustomerEmail = confirm_customer_email env data t sveaOrder
           in bnd (lookup_existing_order env t) (\<lambda>existingOrderId.
              bnd (create_or_update_order env t
                     (order_payload t cart normalizedOrderItems shipping resolvedCustomerId
                        resolvedCustomerEmail)
                     existingOrderId) (\<lambda>ord.
              bnd (try_catch
                     (bnd (update_cart env (cart_id cart) (purchased_patch env cart)) (\<lambda>_.
                        logger Info ''Cart marked as purchased''))
                     (\<lambda>cartError. logger Warn ''Could not update cart status'')) (\<lambda>_.
              bnd (update_transaction env (tx_id t)
                     (confirm_transaction_patch env t sveaOrderId sveaOrder (order_id ord)
                        billing resolvedCustomerEmail)) (\<lambda>_.
              bnd (logger Info ''Order confirmed successfully'') (\<lambda>_.
                ret \<lparr>cr_message = ''Order confirmed successfully'',
                     cr_orderID = order_id ord,
                     cr_transactionID = tx_id t\<rparr>))))))"

text \<open>What follows once the transaction is found.\<close>

definition confirm_resolved ::
    "env \<Rightarrow> config \<Rightarrow> jsvalue \<Rightarrow> transaction \<Rightarrow> confirm_result prog" where
  "confirm_resolved env cfg data t =
     (let sveaOrderId = effective_sveaOrderId (confirm_sveaOrderId data) t
      in if \<not> truthy sveaOrderId then raise SveaOrderIdRequired
         else
           (case (if tx_status t = ''succeeded'' \<and> ref_truthy (tx_order t)
                  then tx_order t else None) of
              Some link \<Rightarrow>
                bnd (logger Info ''Order already confirmed'') (\<lambda>_.
                  ret \<lparr>cr_message = ''Order already confirmed'',
                       cr_orderID = ref_id link,
                       cr_transactionID = tx_id t\<rparr>)
            | None \<Rightarrow>
                bnd (fetch_svea_order env cfg sveaOrderId) (\<lambda>sveaOrder.
                  if member sveaOrder ''Status'' \<noteq> JStr ''Final''
                  then raise (OrderNotFinalized (member sveaOrder ''Status''))
                  else confirm_materialize env data t sveaOrderId sveaOrder)))"

text \<open>The body of the \<^verbatim>\<open>try\<close> block.\<close>

definition confirm_try :: "env \<Rightarrow> config \<Rightarrow> jsvalue \<Rightarrow> confirm_result prog" where
  "confirm_try env cfg data =
     bnd (resolve_transaction env (confirm_sveaOrderId data) (confirm_transactionId data)
            (confirm_clientOrderNumber data))
       (confirm_resolved env cfg data)"

definition confirmOrder :: "env \<Rightarrow> config \<Rightarrow> jsvalue \<Rightarrow> confirm_result prog" where
  "confirmOrder env cfg data =
     (if is_nullish data then raise TypeError
      else
        bnd (logger Info ''Svea confirmOrder called'') (\<lambda>_.
          try_catch (confirm_try env cfg data)
            (\<lambda>error. bnd (logger Error ''Error confirming order with Svea'') (\<lambda>_.
               raise error))))"

section \<open>Notions used in the statements and proofs\<close>

text \<open>The \<^verbatim>\<open>try\<close> block of the webhook handler, from \<^verbatim>\<open>getPayload\<close> on.\<close>

definition webhook_try :: "env \<Rightarrow> request \<Rightarrow> response prog" where
  "webhook_try env req = bnd (getPayload env) (\<lambda>_. webhook_main env req)"

text \<open>Every value a program returns satisfies \<open>P\<close>; a program leaves an observation as it was.\<close>

definition ok :: "'a prog \<Rightarrow> ('a \<Rightarrow> bool) \<Rightarrow> bool" where
  "ok m P \<longleftrightarrow> (\<forall>w r w'. m w = (Inr r, w') \<longrightarrow> P r)"

definition keeps :: "(world \<Rightarrow> 'b) \<Rightarrow> 'a prog \<Rightarrow> bool" where
  "keeps obs m \<longleftrightarrow> (\<forall>w. obs (snd (m w)) = obs w)"

text \<open>
  The Identifier Resolver in the words of the specification: the first hit among the
  lookup by transaction id, the query by provider order id and the query by client order
  number, each tried only if its identifier is given; and the number of lookups that
  takes.
\<close>

definition spec_resolve ::
    "transaction list \<Rightarrow> jsvalue \<Rightarrow> jsvalue \<Rightarrow> jsvalue \<Rightarrow> transaction option" where
  "spec_resolve txs sveaOrderId transactionId clientOrderNumber =
     (case (if truthy transactionId then lookup_by_id txs (numeric_id transactionId) else None) of
        Some t \<Rightarrow> Some t
      | None \<Rightarrow>
          (case (if truthy sveaOrderId then lookup_by_orderId txs (numeric_id sveaOrderId)
                 else None) of
             Some t \<Rightarrow> Some t
           | None \<Rightarrow>
               (if truthy clientOrderNumber
                then lookup_by_clientOrderNumber txs clientOrderNumber else None)))"

definition spec_resolve_lookups ::
    "transaction list \<Rightarrow> jsvalue \<Rightarrow> jsvalue \<Rightarrow> jsvalue \<Rightarrow> nat" where
  "spec_resolve_lookups txs sveaOrderId transactionId clientOrderNumber =
     (let byId = (if truthy transactionId then lookup_by_id txs (numeric_id transactionId)
                  else None);
          byOrderId = (if truthy sveaOrderId then lookup_by_orderId txs (numeric_id sveaOrderId)
                       else None)
      in (if truthy transactionId then 1 else 0) +
         (if byId = None \<and> truthy sveaOrderId then 1 else 0) +
         (if byId = None \<and> byOrderId = None \<and> truthy clientOrderNumber then 1 else 0))"

definition resolution :: "transaction option \<Rightarrow> exn + transaction" where
  "resolution found = (case found of None \<Rightarrow> Inl TransactionNotFound | Some t \<Rightarrow> Inr t)"

text \<open>The transaction \<^verbatim>\<open>confirmOrder\<close> finds for the request data, or the error it ends with.\<close>

abbreviation confirm_resolution :: "env \<Rightarrow> jsvalue \<Rightarrow> world \<Rightarrow> exn + transaction" where
  "confirm_resolution env data w \<equiv>
     fst (resolve_transaction env (confirm_sveaOrderId data) (confirm_transactionId data)
            (confirm_clientOrderNumber data) w)"

text \<open>
  The message the confirmation component shows when it has none of the three identifiers
  (\<^verbatim>\<open>SveaConfirmOrder.tsx\<close>).
\<close>

definition missing_identifiers_message :: string where
  "missing_identifiers_message =
     ''Missing order identifiers. Please try again or contact support.''"

text \<open>The field \<^verbatim>\<open>Valid\<close> of a response body, and the message of a rejection.\<close>

definition response_valid :: "response \<Rightarrow> jsvalue" where
  "response_valid r = (case resp_body r of None \<Rightarrow> JUndefined | Some b \<Rightarrow> member b ''Valid'')"

definition rejection_message :: "validation_outcome \<Rightarrow> string" where
  "rejection_message outcome =
     (case outcome of
        Returns b \<Rightarrow> ''Order validation failed''
      | ThrowsError msg \<Rightarrow> msg
      | ThrowsOther \<Rightarrow> ''Validation error'')"

text \<open>A response is the work of the predicate: it is the rejection, and the predicate has not returned true.\<close>

definition rejected_by :: "custom_validation option \<Rightarrow> response \<Rightarrow> bool" where
  "rejected_by cv r \<longleftrightarrow>
     (\<exists>validate orderId t body. cv = Some validate \<and> validate orderId t body \<noteq> Returns True \<and>
        r = rejection (rejection_message (validate orderId t body)))"

text \<open>
  The order a transaction already has, as a function of the orders: the one it is linked
  to, or else the first that lists it.
\<close>

definition existing_order_id :: "order list \<Rightarrow> transaction \<Rightarrow> int option" where
  "existing_order_id os t =
     (if ref_truthy (tx_order t) then ref_id_of (tx_order t)
      else map_option order_id (lookup_order_containing os (tx_id t)))"

text \<open>
  The cart of a transaction, as a function of the carts: the populated document, or the
  one with the id.
\<close>

definition cart_of :: "cart list \<Rightarrow> transaction \<Rightarrow> cart option" where
  "cart_of cs t =
     (case tx_cart t of
        None \<Rightarrow> None
      | Some (CartDoc c) \<Rightarrow> Some c
      | Some (CartId n) \<Rightarrow> if n \<noteq> 0 then find (\<lambda>c. cart_id c = n) cs else None)"

text \<open>
  The order data \<^verbatim>\<open>confirmOrder\<close> writes for a transaction, its cart and the provider
  order.
\<close>

definition confirm_payload :: "env \<Rightarrow> jsvalue \<Rightarrow> transaction \<Rightarrow> cart \<Rightarrow> jsvalue \<Rightarrow> order" where
  "confirm_payload env data t cart sveaOrder =
     order_payload t cart (confirm_order_items t cart) (confirm_shipping_address t sveaOrder)
       (confirm_customer_id env t cart) (confirm_customer_email env data t sveaOrder)"

text \<open>
  The transaction ids an order lists. The orders \<open>os'\<close> have grown from \<open>os\<close>: every
  order is still there and lists every id it has listed, 0 apart. No order lists a
  transaction twice.
\<close>

definition linked_ids :: "order \<Rightarrow> int set" where
  "linked_ids d = ref_id ` set (order_transactions d)"

definition orders_grow :: "order list \<Rightarrow> order list \<Rightarrow> bool" where
  "orders_grow os os' \<longleftrightarrow>
     (\<forall>d \<in> set os. \<exists>d' \<in> set os'. order_id d' = order_id d \<and>
        linked_ids d - {0} \<subseteq> linked_ids d')"

definition duplicate_free :: "order list \<Rightarrow> bool" where
  "duplicate_free os \<longleftrightarrow> (\<forall>d \<in> set os. distinct (map ref_id (order_transactions d)))"

text \<open>
  What a step from one world to the next keeps, when the ids of the orders are unique:
  the ids stay unique, the orders have grown, and lists without duplicates stay so.
\<close>

definition grown :: "world \<Rightarrow> world \<Rightarrow> bool" where
  "grown w w' \<longleftrightarrow>
     (distinct (map order_id (orders (store w))) \<longrightarrow>
        distinct (map order_id (orders (store w'))) \<and>
        orders_grow (orders (store w)) (orders (store w')) \<and>
        (duplicate_free (orders (store w)) \<longrightarrow> duplicate_free (orders (store w'))))"

definition grows :: "'a prog \<Rightarrow> bool" where
  "grows m \<longleftrightarrow> (\<forall>w. grown w (snd (m w)))"

text \<open>
  A reading of the clock: the ranges of the UTC getters, and a year of four digits. The
  timestamp of the specification, digit by digit.
\<close>

definition valid_clock :: "utc_time \<Rightarrow> bool" where
  "valid_clock now \<longleftrightarrow>
     1000 \<le> utc_year now \<and> utc_year now \<le> 9999 \<and> utc_month now < 12 \<and>
     1 \<le> utc_date now \<and> utc_date now \<le> 31 \<and> utc_hours now < 24 \<and>
     utc_minutes now < 60 \<and> utc_seconds now < 60"

definition two_digits :: "nat \<Rightarrow> string" where
  "two_digits n = [''0123456789'' ! (n div 10), ''0123456789'' ! (n mod 10)]"

definition four_digits :: "nat \<Rightarrow> string" where
  "four_digits n =
     [''0123456789'' ! (n div 1000), ''0123456789'' ! (n div 100 mod 10),
      ''0123456789'' ! (n div 10 mod 10), ''0123456789'' ! (n mod 10)]"

definition spec_timestamp :: "utc_time \<Rightarrow> string" where
  "spec_timestamp now =
     four_digits (utc_year now) @ ''-'' @
     two_digits (utc_month now + 1) @ ''-'' @ two_digits (utc_date now) @ '' '' @
     two_digits (utc_hours now) @ '':'' @ two_digits (utc_minutes now) @ '':'' @
     two_digits (utc_seconds now)"

section \<open>Example inputs\<close>

text \<open>
  An environment in which no call fails, no body text parses as JSON, and the provider
  reports every order as \<^verbatim>\<open>Created\<close>.
\<close>

definition quiet_env :: env where
  "quiet_env =
     \<lparr>fails = (\<lambda>n. False),
      json_parse = (\<lambda>text. None),
      form_parse = (\<lambda>text. Some []),
      now_iso = ''2026-03-01T12:00:00.000Z'',
      hashing = \<lparr>sha512 = (\<lambda>input. ''digest''), base64 = (\<lambda>text. text)\<rparr>,
      clock = \<lparr>utc_year = 2026, utc_month = 2, utc_date = 1, utc_hours = 12,
               utc_minutes = 0, utc_seconds = 0\<rparr>,
      fetch_order = (\<lambda>v token timestamp. FetchOk (JObj [(''Status'', JStr ''Created'')])),
      to_number = numeric_id,
      user_id = None,
      user_email = JUndefined\<rparr>"

definition shop_config :: config where
  "shop_config = \<lparr>merchantId = ''merchant'', secretKey = ''secret''\<rparr>"

definition shop_cart :: cart where
  "shop_cart =
     \<lparr>cart_id = 5,
      cart_items = Some [\<lparr>item_product = JNum 11, item_variant = JUndefined,
                          item_quantity = JNum 2\<rparr>,
                         \<lparr>item_product = JObj [(''id'', JNum 12)], item_variant = JNull,
                          item_quantity = JUndefined\<rparr>],
      cart_customer = None,
      cart_subtotal = JNum 19900,
      cart_currency = JStr ''NOK'',
      cart_purchasedAt = JUndefined,
      cart_status = JStr ''active''\<rparr>"

text \<open>A pending transaction of the provider order 100.\<close>

definition pending_tx :: transaction where
  "pending_tx =
     \<lparr>tx_id = 1, tx_status = ''pending'', tx_order = None, tx_cart = Some (CartId 5),
      tx_customer = None, tx_customerEmail = JStr ''kari@example.no'', tx_amount = JNum 19900,
      tx_currency = JStr ''NOK'', tx_billingAddress = None, tx_items = None,
      tx_svea = Some \<lparr>svea_orderId = JNum 100,
                      svea_clientOrderNumber = JStr ''ORDER-42-123'',
                      svea_paymentType = JUndefined\<rparr>\<rparr>"

text \<open>A pending transaction that carries no provider data.\<close>

definition bare_tx :: transaction where
  "bare_tx = pending_tx\<lparr>tx_id := 2, tx_svea := None\<rparr>"

text \<open>A succeeded transaction linked to the order 7, without provider data.\<close>

definition foreign_tx :: transaction where
  "foreign_tx =
     pending_tx\<lparr>tx_id := 3, tx_status := ''succeeded'', tx_order := Some (RefId 7),
                tx_svea := None\<rparr>"

text \<open>A succeeded transaction of the provider order 400, linked to the order 7.\<close>

definition settled_tx :: transaction where
  "settled_tx =
     pending_tx\<lparr>tx_id := 4, tx_status := ''succeeded'', tx_order := Some (RefDoc 7),
                tx_svea := Some \<lparr>svea_orderId = JNum 400,
                                  svea_clientOrderNumber = JStr ''ORDER-7-400'',
                                  svea_paymentType = JStr ''CARD''\<rparr>\<rparr>"

text \<open>A failed transaction of the provider order 600 that is linked to the order 8.\<close>

definition relinked_tx :: transaction where
  "relinked_tx =
     pending_tx\<lparr>tx_id := 6, tx_status := ''failed'', tx_order := Some (RefId 8),
                tx_svea := Some \<lparr>svea_orderId = JNum 600,
                                  svea_clientOrderNumber = JStr ''ORDER-8-600'',
                                  svea_paymentType = JUndefined\<rparr>\<rparr>"

definition order_7 :: order where
  "order_7 =
     \<lparr>order_id = 7, order_amount = JNum 5000, order_currency = JStr ''NOK'', order_items = [],
      order_status = ''processing'', order_transactions = [RefId 3, RefDoc 4],
      order_shippingAddress = None, order_customer = None,
      order_customerEmail = JUndefined\<rparr>"

definition order_8 :: order where
  "order_8 = order_7\<lparr>order_id := 8, order_transactions := [RefId 9, RefId 9]\<rparr>"

definition shop_world :: world where
  "shop_world =
     \<lparr>store = \<lparr>transactions = [pending_tx], orders = [], carts = [shop_cart], journal = []\<rparr>,
      logs = [], calls = 0\<rparr>"

definition ledger_world :: world where
  "ledger_world =
     \<lparr>store = \<lparr>transactions = [pending_tx, bare_tx, foreign_tx, settled_tx, relinked_tx],
               orders = [order_7, order_8], carts = [shop_cart], journal = []\<rparr>,
      logs = [], calls = 0\<rparr>"

text \<open>The shop with the order 7 on its books.\<close>

definition tidy_world :: world where
  "tidy_world =
     \<lparr>store = \<lparr>transactions = [pending_tx], orders = [order_7], carts = [shop_cart],
               journal = []\<rparr>,
      logs = [], calls = 0\<rparr>"

text \<open>Webhook requests that carry the order id and the status in the query.\<close>

definition query_request :: "string \<Rightarrow> string \<Rightarrow> request" where
  "query_request orderId status =
     \<lparr>req_query = [(''orderId'', orderId), (''status'', status)],
      req_path = [''api'', ''payments'', ''svea'', ''webhook''],
      req_content_type = None, req_body = None\<rparr>"

text \<open>A request whose body is not JSON, with no order id in the query or the path.\<close>

definition garbage_request :: request where
  "garbage_request =
     \<lparr>req_query = [], req_path = [''api'', ''payments'', ''svea'', ''webhook''],
      req_content_type = Some ''application/json'', req_body = Some ''{OrderId''\<rparr>"

text \<open>The provider reports every order as \<^verbatim>\<open>Final\<close>, paid by card.\<close>

definition final_env :: env where
  "final_env = quiet_env\<lparr>fetch_order :=
     (\<lambda>v token timestamp. FetchOk (JObj [(''Status'', JStr ''Final''),
                                             (''PaymentType'', JStr ''CARD'')]))\<rparr>"

text \<open>The request data of the confirmation scenario of the specification.\<close>

definition confirm_data :: jsvalue where
  "confirm_data = JObj [(''clientOrderNumber'', JStr ''ORDER-42-123'')]"

text \<open>A validation request with the order id in the path, and a predicate of the integrator.\<close>

definition validation_request :: request where
  "validation_request =
     \<lparr>req_query = [], req_path = [''api'', ''payments'', ''svea'', ''validation'', ''100''],
      req_content_type = None, req_body = None\<rparr>"

definition stock_check :: custom_validation where
  "stock_check orderId t body =
     (if tx_amount t = JNum 19900 then ThrowsError ''Out of stock'' else Returns True)"

section \<open>Properties\<close>

subsection \<open>Rules for the program combinators\<close>

lemma ok_ret: "P x \<Longrightarrow> ok (ret x) P"
  by (simp add: ok_def ret_def)

lemma ok_raise: "ok (raise e) P"
  by (simp add: ok_def raise_def)

lemma ok_bnd: "(\<And>x. ok (f x) P) \<Longrightarrow> ok (bnd m f) P"
  by (auto simp: ok_def bnd_def split: prod.splits sum.splits)

lemma ok_try_catch: "ok m P \<Longrightarrow> (\<And>e. ok (h e) P) \<Longrightarrow> ok (try_catch m h) P"
  by (auto simp: ok_def try_catch_def split: prod.splits sum.splits)

lemma ok_if: "(c \<Longrightarrow> ok a P) \<Longrightarrow> (\<not> c \<Longrightarrow> ok b P) \<Longrightarrow> ok (if c then a else b) P"
  by simp

lemma ok_option:
  "ok a P \<Longrightarrow> (\<And>x. ok (b x) P) \<Longrightarrow> ok (case v of None \<Rightarrow> a | Some x \<Rightarrow> b x) P"
  by (cases v) simp_all

subsection \<open>The webhook always answers 200\<close>

lemma ok_webhook_dispatch:
  "ok (webhook_dispatch env t n st pt) (\<lambda>r. resp_status r = 200)"
  unfolding webhook_dispatch_def
  by (intro ok_if ok_bnd ok_ret) (simp_all add: json_response_def)

lemma ok_webhook_main: "ok (webhook_main env req) (\<lambda>r. resp_status r = 200)"
  unfolding webhook_main_def Let_def
  by (intro ok_if ok_bnd ok_ret ok_raise ok_option ok_webhook_dispatch)
     (simp_all add: empty_200_def)

lemma webhook_on_error_result:
  "\<exists>w'. webhook_on_error env b e w = (Inr empty_200, w') \<and> store w' = store w \<and>
        Console Error ''[Svea Webhook] Error:'' \<in> set (logs w')"
  by (simp add: webhook_on_error_def bnd_def console_def try_catch_def ret_def logger_def
      getPayload_def external_def)

lemma handleWebhook_unfold:
  "handleWebhook env req w =
     (let w1 = w\<lparr>logs := logs w @ [Console Info ''[Svea Webhook] Request received at:''],
                 calls := Suc (calls w)\<rparr>
      in if fails env (calls w) then webhook_on_error env False ExternalFailure w1
         else try_catch (webhook_main env req) (webhook_on_error env True) w1)"
  by (simp add: handleWebhook_def bnd_def console_def getPayload_def external_def Let_def)

lemma webhook_try_unfold:
  "webhook_try env req (snd (console Info ''[Svea Webhook] Request received at:'' w)) =
     (let w1 = w\<lparr>logs := logs w @ [Console Info ''[Svea Webhook] Request received at:''],
                 calls := Suc (calls w)\<rparr>
      in if fails env (calls w) then (Inl ExternalFailure, w1)
         else webhook_main env req w1)"
  by (simp add: webhook_try_def bnd_def console_def getPayload_def external_def Let_def)

text \<open>
  Claim C3. Whatever the request, the store and the failures of the host, the webhook
  handler returns a response (no exception leaves it) and its status is 200. Either the
  \<^verbatim>\<open>try\<close> block has returned that response, or the block has thrown: then the error has
  been written to the console and the response is the empty 200.
\<close>

theorem webhook_always_responds_200:
  "\<exists>r w'. handleWebhook env req w = (Inr r, w') \<and> resp_status r = 200 \<and>
     (webhook_try env req (snd (console Info ''[Svea Webhook] Request received at:'' w))
        = (Inr r, w')
      \<or> (r = empty_200 \<and> Console Error ''[Svea Webhook] Error:'' \<in> set (logs w')))"
proof -
  define w1 where
    "w1 = w\<lparr>logs := logs w @ [Console Info ''[Svea Webhook] Request received at:''],
            calls := Suc (calls w)\<rparr>"
  show ?thesis
  proof (cases "fails env (calls w)")
    case True
    obtain w' where "webhook_on_error env False ExternalFailure w1 = (Inr empty_200, w')"
      and "Console Error ''[Svea Webhook] Error:'' \<in> set (logs w')"
      using webhook_on_error_result by blast
    with True show ?thesis
      by (simp add: handleWebhook_unfold w1_def empty_200_def)
  next
    case False
    obtain res w2 where main: "webhook_main env req w1 = (res, w2)"
      by (cases "webhook_main env req w1")
    show ?thesis
    proof (cases res)
      case (Inl e)
      obtain w' where "webhook_on_error env True e w2 = (Inr empty_200, w')"
        and "Console Error ''[Svea Webhook] Error:'' \<in> set (logs w')"
        using webhook_on_error_result by blast
      with False main Inl show ?thesis
        by (simp add: handleWebhook_unfold try_catch_def empty_200_def flip: w1_def)
    next
      case (Inr r)
      with main have "resp_status r = 200"
        using ok_webhook_main [of env req] by (auto simp: ok_def)
      with False main Inr show ?thesis
        by (simp add: handleWebhook_unfold webhook_try_unfold try_catch_def flip: w1_def)
    qed
  qed
qed

text \<open>
  With every call to the host failing, the handler still answers the empty 200, and the
  error is on the console.
\<close>

theorem webhook_always_responds_200_witness:
  "\<exists>w'. handleWebhook (quiet_env\<lparr>fails := (\<lambda>n. True)\<rparr>) garbage_request ledger_world =
           (Inr empty_200, w') \<and>
         resp_status empty_200 = 200 \<and>
         Console Error ''[Svea Webhook] Error:'' \<in> set (logs w')"
proof -
  let ?env = "quiet_env\<lparr>fails := (\<lambda>n. True)\<rparr>"
  have "fst (webhook_try ?env garbage_request
          (snd (console Info ''[Svea Webhook] Request received at:'' ledger_world)))
        = Inl ExternalFailure"
    by (simp add: webhook_try_unfold)
  then show ?thesis
    using webhook_always_responds_200 [of ?env garbage_request ledger_world]
    by (auto simp: empty_200_def)
qed

subsection \<open>The webhook: requests without an order id\<close>

text \<open>Reading the body returns a value that depends on the request only, and writes to the log at most.\<close>

lemma parse_webhook_body_run:
  "\<exists>b l. \<forall>w. parse_webhook_body env req w = (Inr b, w\<lparr>logs := logs w @ l\<rparr>)"
proof -
  have "(\<exists>b. parse_webhook_body env req = ret b) \<or>
        (\<exists>b m. parse_webhook_body env req = bnd (console Info m) (\<lambda>_. ret b))"
    by (auto simp: parse_webhook_body_def Let_def split: option.splits)
  then show ?thesis
  proof (elim disjE exE)
    fix b assume "parse_webhook_body env req = ret b"
    then have "\<forall>w. parse_webhook_body env req w = (Inr b, w\<lparr>logs := logs w @ []\<rparr>)"
      by (simp add: ret_def)
    then show ?thesis by blast
  next
    fix b m assume "parse_webhook_body env req = bnd (console Info m) (\<lambda>_. ret b)"
    then have "\<forall>w. parse_webhook_body env req w =
                 (Inr b, w\<lparr>logs := logs w @ [Console Info m]\<rparr>)"
      by (simp add: ret_def bnd_def console_def)
    then show ?thesis by blast
  qed
qed

lemma parse_webhook_body_indep:
  assumes "fst (parse_webhook_body env req w0) = Inr body"
  shows "\<exists>l. parse_webhook_body env req w = (Inr body, w\<lparr>logs := logs w @ l\<rparr>)"
proof -
  obtain b l where run: "\<And>v. parse_webhook_body env req v = (Inr b, v\<lparr>logs := logs v @ l\<rparr>)"
    using parse_webhook_body_run by blast
  with assms have "b = body" by simp
  with run show ?thesis by blast
qed

lemma webhook_main_no_order_id:
  assumes "fst (parse_webhook_body env req w0) = Inr body"
    and "is_nullish body \<or> \<not> truthy (webhook_order_id req body)"
  shows "\<exists>res w'. webhook_main env req w = (res, w') \<and> store w' = store w \<and>
           (res = Inl TypeError \<or> res = Inr empty_200)"
proof -
  obtain l where "parse_webhook_body env req w = (Inr body, w\<lparr>logs := logs w @ l\<rparr>)"
    using parse_webhook_body_indep [OF assms(1)] by blast
  with assms(2) show ?thesis
    by (auto simp: webhook_main_def bnd_def raise_def ret_def console_def logger_def Let_def)
qed

text \<open>
  Claim C7. When the body the request is read as is \<^verbatim>\<open>null\<close>, or the order id taken
  from the body, the query and the path is falsy (absent, empty or 0), the handler returns
  a response with status 200 and the store is as it was: its collections and the journal
  of writes are unchanged.
\<close>

theorem webhook_without_order_id:
  assumes "fst (parse_webhook_body env req w) = Inr body"
    and "is_nullish body \<or> \<not> truthy (webhook_order_id req body)"
  shows "\<exists>r w'. handleWebhook env req w = (Inr r, w') \<and> resp_status r = 200 \<and>
           store w' = store w"
proof -
  define w1 where
    "w1 = w\<lparr>logs := logs w @ [Console Info ''[Svea Webhook] Request received at:''],
            calls := Suc (calls w)\<rparr>"
  have st: "store w1 = store w" by (simp add: w1_def)
  show ?thesis
  proof (cases "fails env (calls w)")
    case True
    obtain w' where "webhook_on_error env False ExternalFailure w1 = (Inr empty_200, w')"
      and "store w' = store w1"
      using webhook_on_error_result by blast
    with True st show ?thesis
      by (simp add: handleWebhook_unfold empty_200_def flip: w1_def)
  next
    case False
    obtain res w2 where main: "webhook_main env req w1 = (res, w2)" and s2: "store w2 = store w1"
      and res: "res = Inl TypeError \<or> res = Inr empty_200"
      using webhook_main_no_order_id [OF assms] by blast
    from res show ?thesis
    proof
      assume "res = Inl TypeError"
      moreover obtain w' where "webhook_on_error env True TypeError w2 = (Inr empty_200, w')"
        and "store w' = store w2"
        using webhook_on_error_result by blast
      ultimately show ?thesis using False main s2 st
        by (simp add: handleWebhook_unfold try_catch_def empty_200_def flip: w1_def)
    next
      assume "res = Inr empty_200"
      then show ?thesis using False main s2 st
        by (simp add: handleWebhook_unfold try_catch_def empty_200_def flip: w1_def)
    qed
  qed
qed

text \<open>
  The request with a body that is not JSON and no order id in the query or the path: the
  body is read as the empty object, no order id is found, the answer is 200 and the store
  of the ledger is untouched.
\<close>

theorem webhook_without_order_id_witness:
  "fst (parse_webhook_body quiet_env garbage_request ledger_world) = Inr (JObj []) \<and>
   \<not> truthy (webhook_order_id garbage_request (JObj [])) \<and>
   (\<exists>r w'. handleWebhook quiet_env garbage_request ledger_world = (Inr r, w') \<and>
      resp_status r = 200 \<and> store w' = store ledger_world)"
proof -
  have h1: "fst (parse_webhook_body quiet_env garbage_request ledger_world) = Inr (JObj [])"
    by (simp add: parse_webhook_body_def quiet_env_def garbage_request_def ret_def)
  have h2: "\<not> truthy (webhook_order_id garbage_request (JObj []))"
    by (simp add: webhook_order_id_def garbage_request_def searchParams_get_def nullish_or_def
        webhook_path_order_id_def is_digit_def)
  show ?thesis
    using h1 h2 webhook_without_order_id [OF h1 disjI2 [OF h2]] by simp
qed

subsection \<open>The webhook: a cancelled order\<close>

lemma find_same_id:
  "find P xs = Some t \<Longrightarrow> \<exists>d. find (\<lambda>d. tx_id d = tx_id t) xs = Some d"
  by (cases "find (\<lambda>d. tx_id d = tx_id t) xs") (auto simp: find_None_iff find_Some_iff)

lemma webhook_main_cancelled:
  assumes "fst (parse_webhook_body env req w0) = Inr body"
    and "\<not> is_nullish body"
    and "truthy (webhook_order_id req body)"
    and "webhook_status req body = JStr ''Cancelled''"
    and "lookup_by_orderId (transactions (store w)) (numeric_id (webhook_order_id req body))
           = Some t"
    and "\<not> fails env (calls w)"
    and "\<not> fails env (Suc (calls w))"
  shows "\<exists>w'. webhook_main env req w = (Inr (json_response success_body), w') \<and>
     transactions (store w') =
       map (\<lambda>d. if tx_id d = tx_id t then d\<lparr>tx_status := ''failed''\<rparr> else d)
         (transactions (store w)) \<and>
     orders (store w') = orders (store w) \<and> carts (store w') = carts (store w) \<and>
     journal (store w') = journal (store w) @ [Updated Transactions (tx_id t)]"
proof -
  obtain l where p: "parse_webhook_body env req w = (Inr body, w\<lparr>logs := logs w @ l\<rparr>)"
    using parse_webhook_body_indep [OF assms(1)] by blast
  obtain d where d: "find (\<lambda>d. tx_id d = tx_id t) (transactions (store w)) = Some d"
    using find_same_id assms(5) unfolding lookup_by_orderId_def by blast
  show ?thesis
    using assms(2-7) p d
    by (simp add: webhook_main_def webhook_dispatch_def bnd_def raise_def ret_def logger_def
        Let_def find_transaction_by_orderId_def update_transaction_def external_def)
qed

text \<open>
  Claim C6. A webhook with status \<^verbatim>\<open>Cancelled\<close> whose order id resolves to the
  transaction \<open>t\<close>, with the three calls to the host (\<^verbatim>\<open>getPayload\<close>, \<^verbatim>\<open>find\<close>,
  \<^verbatim>\<open>update\<close>) not failing: the answer is the success response, the status of the
  transaction with the id of \<open>t\<close> has become \<^verbatim>\<open>failed\<close> and nothing else in the
  transactions has changed, the orders and the carts are as they were, and the one write
  the store has seen is that update.
\<close>

theorem webhook_cancelled:
  assumes "fst (parse_webhook_body env req w) = Inr body"
    and "\<not> is_nullish body"
    and "truthy (webhook_order_id req body)"
    and "webhook_status req body = JStr ''Cancelled''"
    and "lookup_by_orderId (transactions (store w)) (numeric_id (webhook_order_id req body))
           = Some t"
    and "\<not> fails env (calls w)"
    and "\<not> fails env (Suc (calls w))"
    and "\<not> fails env (Suc (Suc (calls w)))"
  shows "\<exists>w'. handleWebhook env req w = (Inr (json_response success_body), w') \<and>
     resp_status (json_response success_body) = 200 \<and>
     transactions (store w') =
       map (\<lambda>d. if tx_id d = tx_id t then d\<lparr>tx_status := ''failed''\<rparr> else d)
         (transactions (store w)) \<and>
     orders (store w') = orders (store w) \<and> carts (store w') = carts (store w) \<and>
     journal (store w') = journal (store w) @ [Updated Transactions (tx_id t)]"
proof -
  define w1 where
    "w1 = w\<lparr>logs := logs w @ [Console Info ''[Svea Webhook] Request received at:''],
            calls := Suc (calls w)\<rparr>"
  have "\<exists>w'. webhook_main env req w1 = (Inr (json_response success_body), w') \<and>
     transactions (store w') =
       map (\<lambda>d. if tx_id d = tx_id t then d\<lparr>tx_status := ''failed''\<rparr> else d)
         (transactions (store w1)) \<and>
     orders (store w') = orders (store w1) \<and> carts (store w') = carts (store w1) \<and>
     journal (store w') = journal (store w1) @ [Updated Transactions (tx_id t)]"
    using assms by (intro webhook_main_cancelled [where ?w0.0 = w]) (simp_all add: w1_def)
  then show ?thesis using assms(6)
    by (auto simp: handleWebhook_unfold try_catch_def w1_def json_response_def)
qed

lemma parseInt_100: "parseInt ''100'' = JNum 100"
  by (simp add: parseInt_def is_space_def is_digit_def digits_value_def Let_def)

text \<open>
  The scenario of the specification: \<^verbatim>\<open>status=Cancelled\<close> for the pending transaction
  of the provider order 100.
\<close>

theorem webhook_cancelled_witness:
  "lookup_by_orderId (transactions (store shop_world))
     (numeric_id (webhook_order_id (query_request ''100'' ''Cancelled'') (JObj [])))
     = Some pending_tx \<and>
   (\<exists>w'. handleWebhook quiet_env (query_request ''100'' ''Cancelled'') shop_world =
            (Inr (json_response success_body), w') \<and>
      transactions (store w') = [pending_tx\<lparr>tx_status := ''failed''\<rparr>] \<and>
      orders (store w') = [] \<and> carts (store w') = [shop_cart] \<and>
      journal (store w') = [Updated Transactions 1])"
proof -
  let ?req = "query_request ''100'' ''Cancelled''"
  have id: "webhook_order_id ?req (JObj []) = JStr ''100''"
    by (simp add: webhook_order_id_def query_request_def searchParams_get_def nullish_or_def)
  have h1: "fst (parse_webhook_body quiet_env ?req shop_world) = Inr (JObj [])"
    by (simp add: parse_webhook_body_def query_request_def ret_def)
  have h2: "\<not> is_nullish (JObj [])" by simp
  have h3: "truthy (webhook_order_id ?req (JObj []))" by (simp add: id)
  have h4: "webhook_status ?req (JObj []) = JStr ''Cancelled''"
    by (simp add: webhook_status_def query_request_def searchParams_get_def nullish_or_def)
  have h5: "lookup_by_orderId (transactions (store shop_world))
     (numeric_id (webhook_order_id ?req (JObj []))) = Some pending_tx"
    by (simp add: id numeric_id_def parseInt_100 lookup_by_orderId_def shop_world_def
        equals_number_def svea_of_def pending_tx_def)
  have h6: "\<not> fails quiet_env n" for n by (simp add: quiet_env_def)
  obtain w' where
    "handleWebhook quiet_env ?req shop_world = (Inr (json_response success_body), w')"
    "transactions (store w') =
       map (\<lambda>d. if tx_id d = tx_id pending_tx then d\<lparr>tx_status := ''failed''\<rparr> else d)
         (transactions (store shop_world))"
    "orders (store w') = orders (store shop_world)"
    "carts (store w') = carts (store shop_world)"
    "journal (store w') = journal (store shop_world) @ [Updated Transactions (tx_id pending_tx)]"
    using webhook_cancelled [OF h1 h2 h3 h4 h5 h6 h6 h6] by blast
  then show ?thesis
    using h5 by (simp add: shop_world_def pending_tx_def)
qed

subsection \<open>The webhook: any status but \<^verbatim>\<open>Final\<close>\<close>

lemma webhook_main_not_final:
  assumes "fst (parse_webhook_body env req w0) = Inr body"
    and "webhook_status req body \<noteq> JStr ''Final''"
  shows "orders (store (snd (webhook_main env req w))) = orders (store w) \<and>
         carts (store (snd (webhook_main env req w))) = carts (store w) \<and>
         (journal (store (snd (webhook_main env req w))) = journal (store w) \<or>
          (\<exists>n. journal (store (snd (webhook_main env req w))) =
                 journal (store w) @ [Updated Transactions n]))"
proof -
  obtain l where p: "parse_webhook_body env req w = (Inr body, w\<lparr>logs := logs w @ l\<rparr>)"
    using parse_webhook_body_indep [OF assms(1)] by blast
  show ?thesis
    using assms(2) p
    by (auto simp: webhook_main_def webhook_dispatch_def bnd_def raise_def ret_def logger_def
        console_def Let_def find_transaction_by_orderId_def update_transaction_def external_def
        split: option.splits)
qed

lemma webhook_not_final:
  assumes "fst (parse_webhook_body env req w) = Inr body"
    and "webhook_status req body \<noteq> JStr ''Final''"
  shows "orders (store (snd (handleWebhook env req w))) = orders (store w) \<and>
         carts (store (snd (handleWebhook env req w))) = carts (store w) \<and>
         (journal (store (snd (handleWebhook env req w))) = journal (store w) \<or>
          (\<exists>n. journal (store (snd (handleWebhook env req w))) =
                 journal (store w) @ [Updated Transactions n]))"
proof -
  define w1 where
    "w1 = w\<lparr>logs := logs w @ [Console Info ''[Svea Webhook] Request received at:''],
            calls := Suc (calls w)\<rparr>"
  have st: "store w1 = store w" by (simp add: w1_def)
  have err: "\<And>b e v. store (snd (webhook_on_error env b e v)) = store v"
    using webhook_on_error_result by (metis snd_conv)
  have m: "orders (store (snd (webhook_main env req w1))) = orders (store w1) \<and>
         carts (store (snd (webhook_main env req w1))) = carts (store w1) \<and>
         (journal (store (snd (webhook_main env req w1))) = journal (store w1) \<or>
          (\<exists>n. journal (store (snd (webhook_main env req w1))) =
                 journal (store w1) @ [Updated Transactions n]))"
    using webhook_main_not_final [OF assms] .
  show ?thesis
  proof (cases "fails env (calls w)")
    case True
    then show ?thesis using err st by (simp add: handleWebhook_unfold flip: w1_def)
  next
    case False
    obtain res w2 where r: "webhook_main env req w1 = (res, w2)"
      by (cases "webhook_main env req w1")
    with m st False err [of True _ w2] show ?thesis
      by (cases res) (auto simp: handleWebhook_unfold try_catch_def simp flip: w1_def)
  qed
qed

subsection \<open>The Identifier Resolver\<close>

lemma resolve_no_faults:
  assumes "\<forall>n. \<not> fails env n"
  shows "fst (resolve_transaction env sid tid con w) =
           resolution (spec_resolve (transactions (store w)) sid tid con) \<and>
         store (snd (resolve_transaction env sid tid con w)) = store w \<and>
         calls (snd (resolve_transaction env sid tid con w)) =
           calls w + spec_resolve_lookups (transactions (store w)) sid tid con"
  using assms
  by (auto simp: resolve_transaction_def spec_resolve_def spec_resolve_lookups_def resolution_def
      bnd_def ret_def raise_def try_catch_def logger_def external_def Let_def
      findByID_transaction_def find_transaction_by_orderId_def
      find_transaction_by_clientOrderNumber_def
      split: option.splits)


lemma resolve_indep:
  assumes "store v = store w" and "calls v = calls w"
  shows "fst (resolve_transaction env a b c v) = fst (resolve_transaction env a b c w) \<and>
         store (snd (resolve_transaction env a b c v)) = store w"
  using assms
  by (auto simp: resolve_transaction_def
      bnd_def ret_def raise_def try_catch_def logger_def external_def Let_def
      findByID_transaction_def find_transaction_by_orderId_def
      find_transaction_by_clientOrderNumber_def
      split: option.splits)




subsection \<open>\<^verbatim>\<open>confirmOrder\<close> once the transaction is found\<close>

lemma confirmOrder_resolved:
  assumes "confirm_resolution env data w = Inr t"
    and "\<not> is_nullish data"
  shows "\<exists>w2. store w2 = store w \<and>
           confirmOrder env cfg data w =
             (case confirm_resolved env cfg data t w2 of
                (Inl e, w3) \<Rightarrow>
                  (Inl e,
                   w3\<lparr>logs := logs w3 @ [Logger Error ''Error confirming order with Svea'']\<rparr>)
              | (Inr r, w3) \<Rightarrow> (Inr r, w3))"
proof -
  define w1 where "w1 = w\<lparr>logs := logs w @ [Logger Info ''Svea confirmOrder called'']\<rparr>"
  define run where "run = resolve_transaction env (confirm_sveaOrderId data)
     (confirm_transactionId data) (confirm_clientOrderNumber data) w1"
  have "fst run = Inr t \<and> store (snd run) = store w"
    using resolve_indep [of w1 w env] assms(1) by (simp add: w1_def run_def)
  then have run: "run = (Inr t, snd run)" and st: "store (snd run) = store w"
    by (simp_all add: prod_eq_iff)
  have "confirmOrder env cfg data w =
          (case confirm_resolved env cfg data t (snd run) of
             (Inl e, w3) \<Rightarrow>
               (Inl e,
                w3\<lparr>logs := logs w3 @ [Logger Error ''Error confirming order with Svea'']\<rparr>)
           | (Inr r, w3) \<Rightarrow> (Inr r, w3))"
    using assms(2) run
    by (auto simp: confirmOrder_def confirm_try_def bnd_def try_catch_def logger_def raise_def
        run_def w1_def split: prod.splits sum.splits)
  with st show ?thesis by blast
qed

text \<open>
  Claim C10. The transaction is found, it is not already succeeded with an order link,
  and neither the request data nor the transaction carries a provider order id:
  \<^verbatim>\<open>confirmOrder\<close> throws the error \<^verbatim>\<open>Svea order ID is required.\<close> and the store is as
  it was. The message is neither that of a transaction not found nor that of missing
  identifiers.
\<close>

theorem confirm_without_svea_order_id:
  assumes "confirm_resolution env data w = Inr t"
    and "\<not> is_nullish data"
    and "\<not> (tx_status t = ''succeeded'' \<and> ref_truthy (tx_order t))"
    and "\<not> truthy (confirm_sveaOrderId data)"
    and "\<not> truthy (svea_orderId (svea_of t))"
  shows "\<exists>w'. confirmOrder env cfg data w = (Inl SveaOrderIdRequired, w') \<and>
           store w' = store w \<and>
           message SveaOrderIdRequired = ''Svea order ID is required.'' \<and>
           message SveaOrderIdRequired \<noteq> message TransactionNotFound \<and>
           message SveaOrderIdRequired \<noteq> missing_identifiers_message"
proof -
  obtain w2 where st: "store w2 = store w"
    and c: "confirmOrder env cfg data w =
             (case confirm_resolved env cfg data t w2 of
                (Inl e, w3) \<Rightarrow>
                  (Inl e,
                   w3\<lparr>logs := logs w3 @ [Logger Error ''Error confirming order with Svea'']\<rparr>)
              | (Inr r, w3) \<Rightarrow> (Inr r, w3))"
    using confirmOrder_resolved [OF assms(1,2)] by blast
  have "confirm_resolved env cfg data t w2 = (Inl SveaOrderIdRequired, w2)"
    using assms(4,5) by (simp add: confirm_resolved_def effective_sveaOrderId_def raise_def)
  with c st show ?thesis
    by (simp add: missing_identifiers_message_def)
qed

lemmas ledger_defs =
  quiet_env_def ledger_world_def numeric_id_def lookup_by_id_def lookup_by_orderId_def
  lookup_by_clientOrderNumber_def equals_number_def equals_text_def svea_of_def pending_tx_def
  bare_tx_def foreign_tx_def settled_tx_def relinked_tx_def confirm_sveaOrderId_def
  confirm_transactionId_def confirm_clientOrderNumber_def nullish_or_def

lemmas resolve_defs =
  resolve_transaction_def bnd_def ret_def raise_def try_catch_def logger_def external_def
  findByID_transaction_def find_transaction_by_orderId_def
  find_transaction_by_clientOrderNumber_def

text \<open>The pending transaction 2 of the ledger has no provider data and is asked for by its id.\<close>

theorem confirm_without_svea_order_id_witness:
  "confirm_resolution quiet_env (JObj [(''transactionId'', JNum 2)]) ledger_world = Inr bare_tx \<and>
   (\<exists>w'. confirmOrder quiet_env shop_config (JObj [(''transactionId'', JNum 2)]) ledger_world =
            (Inl SveaOrderIdRequired, w') \<and> store w' = store ledger_world)"
proof -
  let ?data = "JObj [(''transactionId'', JNum 2)]"
  have h1: "confirm_resolution quiet_env ?data ledger_world = Inr bare_tx"
    by (simp add: ledger_defs resolve_defs)
  have h2: "\<not> is_nullish ?data" by simp
  have h3: "\<not> (tx_status bare_tx = ''succeeded'' \<and> ref_truthy (tx_order bare_tx))"
    by (simp add: bare_tx_def pending_tx_def)
  have h4: "\<not> truthy (confirm_sveaOrderId ?data)"
    by (simp add: confirm_sveaOrderId_def nullish_or_def)
  have h5: "\<not> truthy (svea_orderId (svea_of bare_tx))"
    by (simp add: svea_of_def bare_tx_def pending_tx_def)
  show ?thesis
    using h1 confirm_without_svea_order_id [OF h1 h2 h3 h4 h5, of shop_config] by blast
qed

subsection \<open>Programs that leave the store alone\<close>

lemma keeps_ret: "keeps obs (ret x)"
  by (simp add: keeps_def ret_def)

lemma keeps_raise: "keeps obs (raise e)"
  by (simp add: keeps_def raise_def)

lemma keeps_bnd: "keeps obs m \<Longrightarrow> (\<And>x. keeps obs (f x)) \<Longrightarrow> keeps obs (bnd m f)"
  unfolding keeps_def bnd_def
  by (auto split: prod.splits sum.splits) (metis snd_conv)+

lemma keeps_bnd_ok:
  "keeps obs m \<Longrightarrow> ok m P \<Longrightarrow> (\<And>x. P x \<Longrightarrow> keeps obs (f x)) \<Longrightarrow> keeps obs (bnd m f)"
  unfolding keeps_def bnd_def ok_def
  by (auto split: prod.splits sum.splits) (metis snd_conv)+

lemma keeps_try_catch:
  "keeps obs m \<Longrightarrow> (\<And>e. keeps obs (h e)) \<Longrightarrow> keeps obs (try_catch m h)"
  unfolding keeps_def try_catch_def
  by (auto split: prod.splits sum.splits) (metis snd_conv)+

lemma keeps_if:
  "(c \<Longrightarrow> keeps obs a) \<Longrightarrow> (\<not> c \<Longrightarrow> keeps obs b) \<Longrightarrow> keeps obs (if c then a else b)"
  by simp

lemma keeps_option:
  "keeps obs a \<Longrightarrow> (\<And>x. keeps obs (b x)) \<Longrightarrow>
   keeps obs (case v of None \<Rightarrow> a | Some x \<Rightarrow> b x)"
  by (cases v) simp_all

lemma keeps_store_logger: "keeps store (logger l m)"
  by (simp add: keeps_def logger_def)

lemma keeps_store_console: "keeps store (console l m)"
  by (simp add: keeps_def console_def)

lemma keeps_store_external: "keeps store (external env)"
  by (simp add: keeps_def external_def)

lemma keeps_store_reads:
  "keeps store (find_transaction_by_orderId env v)"
  "keeps store (find_transaction_by_clientOrderNumber env v)"
  "keeps store (findByID_transaction env v)"
  "keeps store (findByID_cart env n)"
  "keeps store (findByID_order env n)"
  "keeps store (find_order_containing env n)"
  by (auto simp: keeps_def bnd_def external_def find_transaction_by_orderId_def
      find_transaction_by_clientOrderNumber_def findByID_transaction_def findByID_cart_def
      findByID_order_def find_order_containing_def split: option.splits)

lemmas keeps_store_rules =
  keeps_ret keeps_raise keeps_bnd keeps_try_catch keeps_if keeps_option
  keeps_store_logger keeps_store_console keeps_store_external keeps_store_reads

lemma keeps_store_resolve: "keeps store (resolve_transaction env a b c)"
  unfolding resolve_transaction_def
  by (intro keeps_store_rules)

lemma ok_fetch_svea_order:
  "ok (fetch_svea_order env cfg v) (\<lambda>so. \<exists>tok ts. fetch_order env v tok ts = FetchOk so)"
  by (auto simp: ok_def fetch_svea_order_def raise_def bnd_def logger_def ret_def
      split: sum.splits fetch_result.splits if_splits)

lemma keeps_store_fetch: "keeps store (fetch_svea_order env cfg v)"
  by (auto simp: keeps_def fetch_svea_order_def raise_def bnd_def logger_def ret_def
      split: sum.splits fetch_result.splits if_splits)

lemma keeps_store_confirm_resolved:
  assumes "\<forall>v tok ts so. fetch_order env v tok ts = FetchOk so \<longrightarrow>
             member so ''Status'' \<noteq> JStr ''Final''"
  shows "keeps store (confirm_resolved env cfg data t)"
proof -
  have fetched: "keeps store
     (bnd (fetch_svea_order env cfg v) (\<lambda>sveaOrder.
        if member sveaOrder ''Status'' \<noteq> JStr ''Final''
        then raise (OrderNotFinalized (member sveaOrder ''Status''))
        else confirm_materialize env data t v sveaOrder))" for v
    by (rule keeps_bnd_ok [OF keeps_store_fetch ok_fetch_svea_order])
       (use assms in \<open>auto intro: keeps_raise\<close>)
  show ?thesis
    unfolding confirm_resolved_def Let_def
    by (intro keeps_if keeps_raise keeps_option fetched keeps_bnd keeps_store_logger keeps_ret)
qed

lemma confirm_never_creates_unless_final:
  assumes "\<forall>v tok ts so. fetch_order env v tok ts = FetchOk so \<longrightarrow>
             member so ''Status'' \<noteq> JStr ''Final''"
  shows "store (snd (confirmOrder env cfg data w)) = store w"
proof -
  have "keeps store (confirmOrder env cfg data)"
    unfolding confirmOrder_def confirm_try_def
    by (intro keeps_store_rules keeps_store_resolve keeps_store_confirm_resolved [OF assms])
  then show ?thesis by (simp add: keeps_def)
qed


subsection \<open>The idempotency gate and the provider's verdict\<close>

lemma confirm_gate:
  assumes "confirm_resolution env data w = Inr t"
    and "\<not> is_nullish data"
    and "tx_status t = ''succeeded''"
    and "tx_order t = Some link"
    and "ref_truthy (Some link)"
    and "truthy (effective_sveaOrderId (confirm_sveaOrderId data) t)"
  shows "\<exists>w'. confirmOrder env cfg data w =
             (Inr \<lparr>cr_message = ''Order already confirmed'', cr_orderID = ref_id link,
                   cr_transactionID = tx_id t\<rparr>, w') \<and>
           store w' = store w"
proof -
  obtain w2 where st: "store w2 = store w"
    and c: "confirmOrder env cfg data w =
             (case confirm_resolved env cfg data t w2 of
                (Inl e, w3) \<Rightarrow>
                  (Inl e, w3\<lparr>logs := logs w3 @ [Logger Error ''Error confirming order with Svea'']\<rparr>)
              | (Inr r, w3) \<Rightarrow> (Inr r, w3))"
    using confirmOrder_resolved [OF assms(1,2)] by blast
  have "confirm_resolved env cfg data t w2 =
          (Inr \<lparr>cr_message = ''Order already confirmed'', cr_orderID = ref_id link,
                cr_transactionID = tx_id t\<rparr>,
           w2\<lparr>logs := logs w2 @ [Logger Info ''Order already confirmed'']\<rparr>)"
    using assms(3-6) by (simp add: confirm_resolved_def bnd_def logger_def ret_def)
  with c st show ?thesis by simp
qed

lemma confirm_not_final:
  assumes "confirm_resolution env data w = Inr t"
    and "\<not> is_nullish data"
    and "truthy (effective_sveaOrderId (confirm_sveaOrderId data) t)"
    and "\<not> (tx_status t = ''succeeded'' \<and> ref_truthy (tx_order t))"
    and "createSveaAuthHeaders (hashing env) (clock env) (merchantId cfg) (secretKey cfg) [] =
           Inr (token, timestamp)"
    and "fetch_order env (effective_sveaOrderId (confirm_sveaOrderId data) t) token timestamp =
           FetchOk sveaOrder"
    and "\<not> is_nullish sveaOrder"
    and "member sveaOrder ''Status'' \<noteq> JStr ''Final''"
  shows "\<exists>w'. confirmOrder env cfg data w =
             (Inl (OrderNotFinalized (member sveaOrder ''Status'')), w') \<and>
           store w' = store w"
proof -
  obtain w2 where st: "store w2 = store w"
    and c: "confirmOrder env cfg data w =
             (case confirm_resolved env cfg data t w2 of
                (Inl e, w3) \<Rightarrow>
                  (Inl e, w3\<lparr>logs := logs w3 @ [Logger Error ''Error confirming order with Svea'']\<rparr>)
              | (Inr r, w3) \<Rightarrow> (Inr r, w3))"
    using confirmOrder_resolved [OF assms(1,2)] by blast
  have "confirm_resolved env cfg data t w2 =
          (Inl (OrderNotFinalized (member sveaOrder ''Status'')),
           w2\<lparr>logs := logs w2 @ [Logger Info ''Fetched Svea order details'']\<rparr>)"
    using assms(3-8)
    by (auto simp: confirm_resolved_def fetch_svea_order_def bnd_def logger_def ret_def raise_def)
  with c st show ?thesis by simp
qed

lemma webhook_gate:
  assumes "fst (parse_webhook_body env req w) = Inr body"
    and "\<not> is_nullish body"
    and "truthy (webhook_order_id req body)"
    and "webhook_status req body = JStr ''Final''"
    and "lookup_by_orderId (transactions (store w)) (numeric_id (webhook_order_id req body)) = Some t"
    and "tx_status t = ''succeeded''"
    and "ref_truthy (tx_order t)"
    and "\<not> fails env (calls w)"
    and "\<not> fails env (Suc (calls w))"
  shows "\<exists>w'. handleWebhook env req w = (Inr (json_response already_processed_body), w') \<and>
           store w' = store w"
proof -
  define w1 where
    "w1 = w\<lparr>logs := logs w @ [Console Info ''[Svea Webhook] Request received at:''],
            calls := Suc (calls w)\<rparr>"
  obtain l where p: "parse_webhook_body env req w1 = (Inr body, w1\<lparr>logs := logs w1 @ l\<rparr>)"
    using parse_webhook_body_indep [OF assms(1)] by blast
  have "\<exists>w'. webhook_main env req w1 = (Inr (json_response already_processed_body), w') \<and>
           store w' = store w"
    using assms(2-9) p
    by (simp add: webhook_main_def webhook_dispatch_def bnd_def raise_def ret_def logger_def
        Let_def find_transaction_by_orderId_def external_def w1_def)
  then show ?thesis using assms(8)
    by (auto simp: handleWebhook_unfold try_catch_def w1_def)
qed

text \<open>
  Claim C1, as amended. A transaction that is \<^verbatim>\<open>succeeded\<close> and carries an order link:
  \<^item> \<^verbatim>\<open>confirmOrder\<close>, when it resolves that transaction and a provider order id is at hand
    (in the request data or stored on the transaction), returns the id of the linked order
    and the store is as it was;
  \<^item> a \<^verbatim>\<open>Final\<close> webhook that resolves that transaction (with \<^verbatim>\<open>getPayload\<close> and the
    query not failing) answers success with the message \<^verbatim>\<open>Already processed\<close>, and the
    store is as it was.
  An unchanged store has no further order and the transaction still \<^verbatim>\<open>succeeded\<close>.
\<close>

theorem idempotency_gate:
  "(confirm_resolution env data w = Inr t \<and> \<not> is_nullish data \<and>
    tx_status t = ''succeeded'' \<and> tx_order t = Some link \<and> ref_truthy (Some link) \<and>
    truthy (effective_sveaOrderId (confirm_sveaOrderId data) t) \<longrightarrow>
      (\<exists>w'. confirmOrder env cfg data w =
               (Inr \<lparr>cr_message = ''Order already confirmed'', cr_orderID = ref_id link,
                     cr_transactionID = tx_id t\<rparr>, w') \<and>
             store w' = store w)) \<and>
   (fst (parse_webhook_body env req w) = Inr body \<and> \<not> is_nullish body \<and>
    truthy (webhook_order_id req body) \<and> webhook_status req body = JStr ''Final'' \<and>
    lookup_by_orderId (transactions (store w)) (numeric_id (webhook_order_id req body))
      = Some u \<and>
    tx_status u = ''succeeded'' \<and> ref_truthy (tx_order u) \<and>
    \<not> fails env (calls w) \<and> \<not> fails env (Suc (calls w)) \<longrightarrow>
      (\<exists>w'. handleWebhook env req w = (Inr (json_response already_processed_body), w') \<and>
             store w' = store w))"
  using confirm_gate [of env data w t link cfg] webhook_gate [of env req w body u]
  by blast

text \<open>
  The claim as stated fails where no provider order id is at hand: the transaction 3 of
  the ledger is \<^verbatim>\<open>succeeded\<close> and linked to the order 7, and \<^verbatim>\<open>confirmOrder\<close> with its
  transaction id throws \<^verbatim>\<open>Svea order ID is required.\<close> instead of returning the order.
\<close>

theorem idempotency_gate_counterexample:
  "tx_status foreign_tx = ''succeeded'' \<and> ref_truthy (tx_order foreign_tx) \<and>
   confirm_resolution quiet_env (JObj [(''transactionId'', JNum 3)]) ledger_world
     = Inr foreign_tx \<and>
   fst (confirmOrder quiet_env shop_config (JObj [(''transactionId'', JNum 3)]) ledger_world)
     = Inl SveaOrderIdRequired"
  by (simp add: ledger_defs resolve_defs confirmOrder_def confirm_try_def confirm_resolved_def
      effective_sveaOrderId_def)

lemmas run_defs =
  confirmOrder_def confirm_try_def confirm_resolved_def confirm_materialize_def
  create_or_update_order_def lookup_existing_order_def load_cart_def fetch_svea_order_def
  createSveaAuthHeaders_def effective_sveaOrderId_def
  findByID_cart_def findByID_order_def find_order_containing_def update_transaction_def
  update_order_def update_cart_def create_order_def fresh_order_id_def
  lookup_order_containing_def id_truthy_def id_or_def ref_id_of_def
  confirm_transaction_patch_def confirm_billing_address_def confirm_shipping_address_def
  confirm_customer_email_def confirm_customer_id_def mapSveaAddressToPayload_def js_or_def
  order_payload_def confirm_order_items_def normalizeCartItems_def purchased_patch_def
  final_env_def confirm_data_def shop_world_def shop_config_def shop_cart_def Let_def

lemma parseInt_400: "parseInt ''400'' = JNum 400"
  by (simp add: parseInt_def is_space_def is_digit_def digits_value_def Let_def)

text \<open>
  The scenario of the specification, twice: the first \<^verbatim>\<open>confirmOrder\<close> for the client
  order number \<^verbatim>\<open>ORDER-42-123\<close> creates the order 1; the second returns the order 1 and
  leaves the store, with its one order, as the first has left it. And the \<^verbatim>\<open>Final\<close>
  webhook for the settled provider order 400 of the ledger changes nothing.
\<close>

theorem idempotency_gate_witness:
  "fst (confirmOrder final_env shop_config confirm_data shop_world) =
     Inr \<lparr>cr_message = ''Order confirmed successfully'', cr_orderID = 1,
           cr_transactionID = 1\<rparr> \<and>
   (\<exists>w'. confirmOrder final_env shop_config confirm_data
            (snd (confirmOrder final_env shop_config confirm_data shop_world)) =
            (Inr \<lparr>cr_message = ''Order already confirmed'', cr_orderID = 1,
                  cr_transactionID = 1\<rparr>, w') \<and>
          store w' = store (snd (confirmOrder final_env shop_config confirm_data shop_world)) \<and>
          map order_id (orders (store w')) = [1]) \<and>
   (\<exists>w'. handleWebhook quiet_env (query_request ''400'' ''Final'') ledger_world =
            (Inr (json_response already_processed_body), w') \<and>
          store w' = store ledger_world)"
proof -
  let ?w1 = "snd (confirmOrder final_env shop_config confirm_data shop_world)"
  let ?t = "pending_tx\<lparr>tx_order := Some (RefId 1), tx_status := ''succeeded'',
     tx_svea := Some \<lparr>svea_orderId = JNum 100, svea_clientOrderNumber = JStr ''ORDER-42-123'',
                      svea_paymentType = JStr ''CARD''\<rparr>\<rparr>"
  have first: "fst (confirmOrder final_env shop_config confirm_data shop_world) =
     Inr \<lparr>cr_message = ''Order confirmed successfully'', cr_orderID = 1,
           cr_transactionID = 1\<rparr>"
    by (simp add: run_defs ledger_defs resolve_defs)
  have ords: "map order_id (orders (store ?w1)) = [1]"
    by (simp add: run_defs ledger_defs resolve_defs)
  have a1: "confirm_resolution final_env confirm_data ?w1 = Inr ?t"
    by (simp add: run_defs ledger_defs resolve_defs)
  have a2: "\<not> is_nullish confirm_data" by (simp add: confirm_data_def)
  have a3: "tx_status ?t = ''succeeded''" by simp
  have a4: "tx_order ?t = Some (RefId 1)" by simp
  have a5: "ref_truthy (Some (RefId 1))" by simp
  have a6: "truthy (effective_sveaOrderId (confirm_sveaOrderId confirm_data) ?t)"
    by (simp add: effective_sveaOrderId_def svea_of_def confirm_sveaOrderId_def
        confirm_data_def nullish_or_def)
  let ?req = "query_request ''400'' ''Final''"
  have id: "webhook_order_id ?req (JObj []) = JStr ''400''"
    by (simp add: webhook_order_id_def query_request_def searchParams_get_def nullish_or_def)
  have b1: "fst (parse_webhook_body quiet_env ?req ledger_world) = Inr (JObj [])"
    by (simp add: parse_webhook_body_def query_request_def ret_def)
  have b2: "\<not> is_nullish (JObj [])" by simp
  have b3: "truthy (webhook_order_id ?req (JObj []))" by (simp add: id)
  have b4: "webhook_status ?req (JObj []) = JStr ''Final''"
    by (simp add: webhook_status_def query_request_def searchParams_get_def nullish_or_def)
  have b5: "lookup_by_orderId (transactions (store ledger_world))
              (numeric_id (webhook_order_id ?req (JObj []))) = Some settled_tx"
    by (simp add: id parseInt_400 ledger_defs)
  have b6: "tx_status settled_tx = ''succeeded''" "ref_truthy (tx_order settled_tx)"
    by (simp_all add: settled_tx_def pending_tx_def)
  have b7: "\<not> fails quiet_env n" for n by (simp add: quiet_env_def)
  have confirm: "\<exists>w'. confirmOrder final_env shop_config confirm_data ?w1 =
            (Inr \<lparr>cr_message = ''Order already confirmed'', cr_orderID = 1,
                  cr_transactionID = 1\<rparr>, w') \<and> store w' = store ?w1"
    using idempotency_gate [where env = final_env and data = confirm_data and w = ?w1
        and t = ?t and link = "RefId 1" and cfg = shop_config]
      a1 a2 a3 a4 a5 a6 by (simp add: pending_tx_def)
  have webhook: "\<exists>w'. handleWebhook quiet_env ?req ledger_world =
            (Inr (json_response already_processed_body), w') \<and> store w' = store ledger_world"
    using idempotency_gate [where env = quiet_env and req = ?req and w = ledger_world
        and body = "JObj []" and u = settled_tx]
      b1 b2 b3 b4 b5 b6 b7 by blast
  from first ords confirm webhook show ?thesis by auto
qed

subsection \<open>The validation callback\<close>

lemma ok_bnd_post:
  assumes "ok m Q" and "\<And>x. Q x \<Longrightarrow> ok (f x) P"
  shows "ok (bnd m f) P"
  unfolding ok_def
proof (intro allI impI)
  fix w r w'
  assume run: "bnd m f w = (Inr r, w')"
  then obtain x w1 where m: "m w = (Inr x, w1)" and f: "f x w1 = (Inr r, w')"
    by (auto simp: bnd_def split: prod.splits sum.splits)
  from m assms(1) have "Q x" by (auto simp: ok_def)
  with assms(2) f show "P r" by (auto simp: ok_def)
qed

lemma validation_on_error_result:
  "\<exists>w'. validation_on_error env b e w = (Inr (sveaOkResponse [(''Error'', JStr (message e))]), w')
        \<and> store w' = store w"
  by (simp add: validation_on_error_def bnd_def console_def try_catch_def ret_def logger_def
      getPayload_def external_def)

lemma handleValidationRequest_unfold:
  "handleValidationRequest env cv req w =
     (let w1 = w\<lparr>logs := logs w @
                   [Console Info ''[Svea Validation Callback] Request received at:''],
                 calls := Suc (calls w)\<rparr>
      in if fails env (calls w) then validation_on_error env False ExternalFailure w1
         else try_catch (validation_main env cv req) (validation_on_error env True) w1)"
  by (simp add: handleValidationRequest_def bnd_def console_def getPayload_def external_def
      Let_def)

lemma rejected_byI:
  "cv = Some validate \<Longrightarrow> validate orderId t body = outcome \<Longrightarrow> outcome \<noteq> Returns True \<Longrightarrow>
   rejected_by cv (rejection (rejection_message outcome))"
  by (auto simp: rejected_by_def)

lemma ok_run_custom_validation:
  "ok (run_custom_validation cv orderId t body)
     (\<lambda>x. case x of None \<Rightarrow> True | Some r \<Rightarrow> rejected_by cv r)"
proof (cases cv)
  case None
  then show ?thesis by (simp add: ok_def run_custom_validation_def ret_def)
next
  case (Some validate)
  show ?thesis
  proof (cases "validate orderId t body")
    case (Returns b)
    with Some rejected_byI [OF Some Returns] show ?thesis
      by (cases b)
         (simp_all add: ok_def run_custom_validation_def bnd_def logger_def ret_def
            rejection_message_def)
  next
    case (ThrowsError msg)
    with Some rejected_byI [OF Some ThrowsError] show ?thesis
      by (simp add: ok_def run_custom_validation_def bnd_def logger_def ret_def
          rejection_message_def)
  next
    case ThrowsOther
    with Some rejected_byI [OF Some ThrowsOther] show ?thesis
      by (simp add: ok_def run_custom_validation_def bnd_def logger_def ret_def
          rejection_message_def)
  qed
qed

lemma ok_validation_found:
  "ok (bnd (run_custom_validation cv orderId t body) (\<lambda>rejected.
         case rejected of
           Some r \<Rightarrow> ret r
         | None \<Rightarrow>
             bnd (logger Info ''Svea validation callback successful'') (\<lambda>_.
               ret (sveaOkResponse [(''OrderId'', orderId),
                                    (''TransactionId'', JNum (tx_id t))]))))
     (\<lambda>r. resp_status r = 200 \<and> (response_valid r = JBool True \<or> rejected_by cv r))"
proof (rule ok_bnd_post [OF ok_run_custom_validation])
  fix x
  assume "case x of None \<Rightarrow> True | Some r \<Rightarrow> rejected_by cv r"
  then show "ok (case x of
           Some r \<Rightarrow> ret r
         | None \<Rightarrow>
             bnd (logger Info ''Svea validation callback successful'') (\<lambda>_.
               ret (sveaOkResponse [(''OrderId'', orderId),
                                    (''TransactionId'', JNum (tx_id t))])))
     (\<lambda>r. resp_status r = 200 \<and> (response_valid r = JBool True \<or> rejected_by cv r))"
    by (cases x)
       (auto intro!: ok_ret ok_bnd
          simp: sveaOkResponse_def response_valid_def rejected_by_def rejection_def)
qed

lemma ok_validation_main:
  "ok (validation_main env cv req)
     (\<lambda>r. resp_status r = 200 \<and> (response_valid r = JBool True \<or> rejected_by cv r))"
  unfolding validation_main_def validation_event_def Let_def
  by (intro ok_validation_found ok_bnd ok_if ok_raise ok_option ok_ret)
     (simp_all add: sveaOkResponse_def response_valid_def)

lemma keeps_store_run_custom_validation:
  "keeps store (run_custom_validation cv orderId t body)"
  by (auto simp: keeps_def run_custom_validation_def bnd_def logger_def ret_def
      split: option.splits validation_outcome.splits)

lemma keeps_store_validation_main: "keeps store (validation_main env cv req)"
proof -
  have "keeps store (parse_validation_body env req)"
    unfolding parse_validation_body_def by (intro keeps_store_rules)
  then show ?thesis
    unfolding validation_main_def validation_event_def Let_def
    by (intro keeps_store_rules keeps_store_run_custom_validation)
qed

lemma validation_always_valid_or_rejected:
  "\<exists>r w'. handleValidationRequest env cv req w = (Inr r, w') \<and> resp_status r = 200 \<and>
     store w' = store w \<and> (response_valid r = JBool True \<or> rejected_by cv r)"
proof -
  define w1 where
    "w1 = w\<lparr>logs := logs w @ [Console Info ''[Svea Validation Callback] Request received at:''],
            calls := Suc (calls w)\<rparr>"
  have st: "store w1 = store w" by (simp add: w1_def)
  have err: "\<exists>w'. validation_on_error env b e v =
                 (Inr (sveaOkResponse [(''Error'', JStr (message e))]), w') \<and>
               store w' = store v" for b e v
    using validation_on_error_result .
  have valid: "resp_status (sveaOkResponse x) = 200 \<and> response_valid (sveaOkResponse x) = JBool True"
    for x by (simp add: sveaOkResponse_def response_valid_def)
  show ?thesis
  proof (cases "fails env (calls w)")
    case True
    with err [of False ExternalFailure w1] st valid show ?thesis
      by (auto simp: handleValidationRequest_unfold simp flip: w1_def)
  next
    case False
    obtain res w2 where main: "validation_main env cv req w1 = (res, w2)"
      by (cases "validation_main env cv req w1")
    have s2: "store w2 = store w"
      using keeps_store_validation_main [of env cv req] main st
      by (auto simp: keeps_def dest: spec [of _ w1])
    show ?thesis
    proof (cases res)
      case (Inl e)
      with err [of True e w2] False main s2 valid show ?thesis
        by (auto simp: handleValidationRequest_unfold try_catch_def simp flip: w1_def)
    next
      case (Inr r)
      with main have "resp_status r = 200 \<and> (response_valid r = JBool True \<or> rejected_by cv r)"
        using ok_validation_main [of env cv req] by (auto simp: ok_def)
      with False main Inr s2 show ?thesis
        by (auto simp: handleValidationRequest_unfold try_catch_def simp flip: w1_def)
    qed
  qed
qed

lemma parse_validation_body_indep:
  assumes "fst (parse_validation_body env req w0) = Inr body"
  shows "\<exists>l. parse_validation_body env req w = (Inr body, w\<lparr>logs := logs w @ l\<rparr>)"
proof -
  have "parse_validation_body env req = ret body \<or>
        (\<exists>m. parse_validation_body env req = bnd (console Info m) (\<lambda>_. ret body))"
    using assms
    by (auto simp: parse_validation_body_def ret_def bnd_def console_def
        split: option.splits if_splits)
  then show ?thesis
  proof (elim disjE exE)
    assume "parse_validation_body env req = ret body"
    then have "parse_validation_body env req w = (Inr body, w\<lparr>logs := logs w @ []\<rparr>)"
      by (simp add: ret_def)
    then show ?thesis by blast
  next
    fix m assume "parse_validation_body env req = bnd (console Info m) (\<lambda>_. ret body)"
    then have "parse_validation_body env req w =
                 (Inr body, w\<lparr>logs := logs w @ [Console Info m]\<rparr>)"
      by (simp add: ret_def bnd_def console_def)
    then show ?thesis by blast
  qed
qed

lemma validation_rejects:
  assumes "fst (parse_validation_body env req w) = Inr body"
    and "\<not> is_nullish body"
    and "\<not> truthy (member body ''EventName'')"
    and "truthy (validation_order_id req body)"
    and "lookup_by_orderId (transactions (store w)) (validation_order_id req body) = Some t"
    and "cv = Some validate"
    and "validate (validation_order_id req body) t body \<noteq> Returns True"
    and "\<not> fails env (calls w)"
    and "\<not> fails env (Suc (calls w))"
  shows "\<exists>w'. handleValidationRequest env cv req w =
           (Inr (rejection (rejection_message (validate (validation_order_id req body) t body))),
            w') \<and>
         store w' = store w"
proof -
  define w1 where
    "w1 = w\<lparr>logs := logs w @ [Console Info ''[Svea Validation Callback] Request received at:''],
            calls := Suc (calls w)\<rparr>"
  obtain l where p: "parse_validation_body env req w1 = (Inr body, w1\<lparr>logs := logs w1 @ l\<rparr>)"
    using parse_validation_body_indep [OF assms(1)] by blast
  have "\<exists>w'. validation_main env cv req w1 =
           (Inr (rejection (rejection_message (validate (validation_order_id req body) t body))),
            w') \<and>
         store w' = store w"
    using assms(2-9) p
    by (cases "validate (validation_order_id req body) t body")
       (auto simp: validation_main_def run_custom_validation_def rejection_message_def
          bnd_def raise_def ret_def logger_def console_def Let_def
          find_transaction_by_orderId_def external_def w1_def)
  then show ?thesis using assms(8)
    by (auto simp: handleValidationRequest_unfold try_catch_def w1_def)
qed

text \<open>
  Claim C8. The validation callback always returns a response with status 200 and never
  writes to the store. The field \<^verbatim>\<open>Valid\<close> of its body is \<^verbatim>\<open>true\<close> unless the response
  is the rejection made for a predicate that has returned false or thrown. And when the
  request reaches the predicate (the order id is found, a transaction has it, the two
  calls to the host do not fail) and the predicate returns false or throws, the response
  is that rejection: \<^verbatim>\<open>Valid: false\<close> with a message, status 200, store unchanged.
\<close>

theorem validation_rejection:
  "(\<exists>r w'. handleValidationRequest env cv req w = (Inr r, w') \<and> resp_status r = 200 \<and>
      store w' = store w \<and> (response_valid r = JBool True \<or> rejected_by cv r)) \<and>
   (fst (parse_validation_body env req w) = Inr body \<and> \<not> is_nullish body \<and>
    \<not> truthy (member body ''EventName'') \<and> truthy (validation_order_id req body) \<and>
    lookup_by_orderId (transactions (store w)) (validation_order_id req body) = Some t \<and>
    cv = Some validate \<and> validate (validation_order_id req body) t body \<noteq> Returns True \<and>
    \<not> fails env (calls w) \<and> \<not> fails env (Suc (calls w)) \<longrightarrow>
      (\<exists>r w'. handleValidationRequest env cv req w = (Inr r, w') \<and>
         r = rejection (rejection_message (validate (validation_order_id req body) t body)) \<and>
         response_valid r = JBool False \<and> resp_status r = 200 \<and> store w' = store w))"
proof -
  have "response_valid (rejection m) = JBool False \<and> resp_status (rejection m) = 200" for m
    by (simp add: rejection_def response_valid_def)
  then show ?thesis
    using validation_always_valid_or_rejected [of env cv req w]
      validation_rejects [of env req w body t cv validate]
    by blast
qed

text \<open>
  A validation request for the provider order 100 of the shop, with a predicate that
  throws for a transaction of 19900: the answer is \<^verbatim>\<open>Valid: false\<close> with the message
  thrown, and the store is untouched.
\<close>

theorem validation_rejection_witness:
  "\<exists>w'. handleValidationRequest quiet_env (Some stock_check) validation_request shop_world =
           (Inr \<lparr>resp_status = 200,
                 resp_body = Some (JObj [(''Valid'', JBool False),
                                         (''Message'', JStr ''Out of stock'')]),
                 resp_cors = True\<rparr>, w') \<and>
         store w' = store shop_world"
proof -
  have id: "validation_order_id validation_request (JObj []) = JNum 100"
    by (simp add: validation_order_id_def validation_request_def validation_path_order_id_def
        js_or_def parseInt_def is_space_def is_digit_def digits_value_def Let_def)
  have h1: "fst (parse_validation_body quiet_env validation_request shop_world) = Inr (JObj [])"
    by (simp add: parse_validation_body_def validation_request_def bnd_def console_def ret_def)
  have h2: "\<not> is_nullish (JObj [])" "\<not> truthy (member (JObj []) ''EventName'')" by simp_all
  have h3: "truthy (validation_order_id validation_request (JObj []))" by (simp add: id)
  have h4: "lookup_by_orderId (transactions (store shop_world))
              (validation_order_id validation_request (JObj [])) = Some pending_tx"
    by (simp add: id shop_world_def ledger_defs)
  have h5: "stock_check (validation_order_id validation_request (JObj [])) pending_tx (JObj [])
              = ThrowsError ''Out of stock''"
    by (simp add: stock_check_def pending_tx_def)
  have h6: "\<not> fails quiet_env n" for n by (simp add: quiet_env_def)
  show ?thesis
    using validation_rejection [where env = quiet_env and cv = "Some stock_check"
        and req = validation_request and w = shop_world and body = "JObj []" and t = pending_tx
        and validate = stock_check]
      h1 h2 h3 h4 h5 h6
    by (auto simp: rejection_def rejection_message_def)
qed

subsection \<open>No order without a final provider order\<close>

text \<open>
  Claim C2. A provider order whose status is not \<^verbatim>\<open>Final\<close> creates no order:
  \<^item> a webhook whose status is not \<^verbatim>\<open>Final\<close> leaves the orders and the carts as they
    were, whatever fails; the only write it can make is the update of a transaction;
  \<^item> if the provider reports no order as \<^verbatim>\<open>Final\<close>, \<^verbatim>\<open>confirmOrder\<close> leaves the store
    as it was, whatever the request and whatever fails;
  \<^item> when \<^verbatim>\<open>confirmOrder\<close> has resolved a transaction that is not already confirmed and
    the provider answers with an order of another status, it throws
    \<^verbatim>\<open>Svea order is not finalized\<close> with that status, and the store is as it was;
  \<^item> the validation callback, the third entry point, never writes to the store.
\<close>

theorem non_final_never_creates_order:
  "(fst (parse_webhook_body env req w) = Inr body \<and> webhook_status req body \<noteq> JStr ''Final'' \<longrightarrow>
      orders (store (snd (handleWebhook env req w))) = orders (store w) \<and>
      carts (store (snd (handleWebhook env req w))) = carts (store w) \<and>
      (journal (store (snd (handleWebhook env req w))) = journal (store w) \<or>
       (\<exists>n. journal (store (snd (handleWebhook env req w))) =
              journal (store w) @ [Updated Transactions n]))) \<and>
   ((\<forall>v tok ts so. fetch_order env v tok ts = FetchOk so \<longrightarrow>
        member so ''Status'' \<noteq> JStr ''Final'') \<longrightarrow>
      store (snd (confirmOrder env cfg data w)) = store w) \<and>
   (confirm_resolution env data w = Inr t \<and> \<not> is_nullish data \<and>
    truthy (effective_sveaOrderId (confirm_sveaOrderId data) t) \<and>
    \<not> (tx_status t = ''succeeded'' \<and> ref_truthy (tx_order t)) \<and>
    createSveaAuthHeaders (hashing env) (clock env) (merchantId cfg) (secretKey cfg) [] =
      Inr (token, timestamp) \<and>
    fetch_order env (effective_sveaOrderId (confirm_sveaOrderId data) t) token timestamp =
      FetchOk sveaOrder \<and>
    \<not> is_nullish sveaOrder \<and> member sveaOrder ''Status'' \<noteq> JStr ''Final'' \<longrightarrow>
      (\<exists>w'. confirmOrder env cfg data w =
               (Inl (OrderNotFinalized (member sveaOrder ''Status'')), w') \<and>
             store w' = store w)) \<and>
   store (snd (handleValidationRequest env cv req w)) = store w"
proof -
  have "store (snd (handleValidationRequest env cv req w)) = store w"
    using validation_always_valid_or_rejected [of env cv req w] by auto
  then show ?thesis
    using webhook_not_final [of env req w body]
      confirm_never_creates_unless_final [of env cfg data w]
      confirm_not_final [of env data w t cfg token timestamp sveaOrder]
    by blast
qed

text \<open>
  A webhook with status \<^verbatim>\<open>Pending\<close> for the shop's transaction, and \<^verbatim>\<open>confirmOrder\<close>
  for it while the provider reports the order as \<^verbatim>\<open>Created\<close>.
\<close>

theorem non_final_never_creates_order_witness:
  "orders (store (snd (handleWebhook quiet_env (query_request ''100'' ''Pending'') shop_world)))
     = [] \<and>
   store (snd (confirmOrder quiet_env shop_config confirm_data shop_world)) = store shop_world \<and>
   fst (confirmOrder quiet_env shop_config confirm_data shop_world) =
     Inl (OrderNotFinalized (JStr ''Created''))"
proof -
  let ?req = "query_request ''100'' ''Pending''"
  let ?so = "JObj [(''Status'', JStr ''Created'')]"
  have a1: "fst (parse_webhook_body quiet_env ?req shop_world) = Inr (JObj [])"
    by (simp add: parse_webhook_body_def query_request_def ret_def)
  have a2: "webhook_status ?req (JObj []) \<noteq> JStr ''Final''"
    by (simp add: webhook_status_def query_request_def searchParams_get_def nullish_or_def)
  have b: "\<forall>v tok ts so. fetch_order quiet_env v tok ts = FetchOk so \<longrightarrow>
             member so ''Status'' \<noteq> JStr ''Final''"
    by (auto simp: quiet_env_def)
  have c1: "confirm_resolution quiet_env confirm_data shop_world = Inr pending_tx"
    by (simp add: ledger_defs resolve_defs confirm_data_def shop_world_def)
  have c2: "\<not> is_nullish confirm_data" by (simp add: confirm_data_def)
  have c3: "effective_sveaOrderId (confirm_sveaOrderId confirm_data) pending_tx = JNum 100"
    by (simp add: effective_sveaOrderId_def svea_of_def confirm_sveaOrderId_def
        confirm_data_def nullish_or_def pending_tx_def)
  have c4: "\<not> (tx_status pending_tx = ''succeeded'' \<and> ref_truthy (tx_order pending_tx))"
    by (simp add: pending_tx_def)
  obtain token timestamp where c5:
    "createSveaAuthHeaders (hashing quiet_env) (clock quiet_env) (merchantId shop_config)
       (secretKey shop_config) [] = Inr (token, timestamp)"
    by (simp add: createSveaAuthHeaders_def shop_config_def Let_def)
  have c6: "fetch_order quiet_env (effective_sveaOrderId (confirm_sveaOrderId confirm_data)
              pending_tx) token timestamp = FetchOk ?so"
    by (simp add: quiet_env_def)
  have c7: "\<not> is_nullish ?so" "member ?so ''Status'' \<noteq> JStr ''Final''" by simp_all
  have c8: "truthy (effective_sveaOrderId (confirm_sveaOrderId confirm_data) pending_tx)"
    by (simp add: c3)
  have webhook: "orders (store (snd (handleWebhook quiet_env ?req shop_world))) =
          orders (store shop_world)"
    using non_final_never_creates_order [where env = quiet_env and req = ?req
        and w = shop_world and body = "JObj []"] a1 a2
    by blast
  have safe: "store (snd (confirmOrder quiet_env shop_config confirm_data shop_world)) =
          store shop_world"
    using non_final_never_creates_order [where env = quiet_env and w = shop_world
        and cfg = shop_config and data = confirm_data] b
    by blast
  have "\<exists>w'. confirmOrder quiet_env shop_config confirm_data shop_world =
               (Inl (OrderNotFinalized (member ?so ''Status'')), w')"
    using non_final_never_creates_order [where env = quiet_env and w = shop_world
        and cfg = shop_config and data = confirm_data and t = pending_tx and token = token
        and timestamp = timestamp and sveaOrder = ?so] c1 c2 c8 c4 c5 c6 c7
    by blast
  then have err: "fst (confirmOrder quiet_env shop_config confirm_data shop_world) =
     Inl (OrderNotFinalized (JStr ''Created''))"
    by auto
  from webhook safe err show ?thesis by (simp add: shop_world_def)
qed

subsection \<open>Request signing\<close>

lemma digit_char_nth: 
  assumes "d < 16"
  shows "digit_char d = ''0123456789abcdef'' ! d"
proof -
  have "''0123456789abcdefghijklmnopqrstuvwxyz'' = ''0123456789abcdef'' @ ''ghijklmnopqrstuvwxyz''"
    by simp
  then show ?thesis
    unfolding digit_char_def using assms by (simp only: nth_append) simp
qed

lemma decimal_digit:
  assumes "d < 10"
  shows "digit_char d = ''0123456789'' ! d"
proof -
  have "''0123456789abcdefghijklmnopqrstuvwxyz'' =
          ''0123456789'' @ ''abcdefghijklmnopqrstuvwxyz''"
    by simp
  then show ?thesis
    unfolding digit_char_def using assms by (simp only: nth_append) simp
qed

lemma to_lower_digit_char:
  assumes "d < 16"
  shows "to_lower_char (digit_char d) = digit_char d"
proof -
  define tbl where "tbl = ''0123456789abcdef''"
  have a: "\<forall>c \<in> set tbl. to_lower_char c = c"
    unfolding tbl_def by (simp add: to_lower_char_def)
  have b: "tbl ! d \<in> set tbl"
    using assms unfolding tbl_def by (intro nth_mem) simp
  from a b have "to_lower_char (tbl ! d) = tbl ! d" by blast
  then show ?thesis
    by (simp only: digit_char_nth [OF assms] tbl_def)
qed

lemma is_digit_decimal:
  assumes "d < 10"
  shows "is_digit (''0123456789'' ! d)"
proof -
  have "\<forall>c \<in> set ''0123456789''. is_digit c"
    by (simp add: is_digit_def)
  moreover have "''0123456789'' ! d \<in> set ''0123456789''"
    using assms by (intro nth_mem) simp
  ultimately show ?thesis by blast
qed


lemma hex_of_byte:
  assumes "n < 256"
  shows "padStart2 (number_to_string 16 n) = [digit_char (n div 16), digit_char (n mod 16)]"
proof (cases "n < 16")
  case True
  then have "number_to_string 16 n = [digit_char n]"
    by (simp add: number_to_string.simps [of 16 n])
  with True show ?thesis
    by (simp add: padStart2_def digit_char_nth [of 0] digit_char_nth [of n])
next
  case False
  from assms have small: "n div 16 < 16" by (simp add: div_less_iff_less_mult)
  then have "number_to_string 16 (n div 16) = [digit_char (n div 16)]"
    by (simp add: number_to_string.simps [of 16 "n div 16"])
  with False have "number_to_string 16 n = [digit_char (n div 16), digit_char (n mod 16)]"
    by (simp add: number_to_string.simps [of 16 n])
  then show ?thesis by (simp add: padStart2_def)
qed

lemma hex_byte_spec:
  "map to_lower_char (padStart2 (number_to_string 16 (of_char b))) = spec_hex_byte b"
proof -
  define n :: nat where "n = of_char b"
  have n: "n < 256" by (simp add: n_def)
  then have hi: "n div 16 < 16" by (simp add: div_less_iff_less_mult)
  have lo: "n mod 16 < 16" by simp
  have "map to_lower_char (padStart2 (number_to_string 16 n)) =
          [''0123456789abcdef'' ! (n div 16), ''0123456789abcdef'' ! (n mod 16)]"
    unfolding hex_of_byte [OF n]
    using to_lower_digit_char [OF hi] to_lower_digit_char [OF lo]
      digit_char_nth [OF hi] digit_char_nth [OF lo]
    by simp
  then show ?thesis by (simp add: spec_hex_byte_def n_def)
qed

lemma digest_hex_spec: "digest_hex bytes = concat (map spec_hex_byte bytes)"
proof -
  have "toLowerCase (concat (map f bytes)) = concat (map (\<lambda>b. map to_lower_char (f b)) bytes)"
    for f :: "char \<Rightarrow> string"
    by (simp add: toLowerCase_def map_concat comp_def)
  then show ?thesis
    by (simp add: digest_hex_def hex_byte_spec)
qed

lemma two_digits_of_string:
  assumes "n < 100"
  shows "padStart2 (number_to_string 10 n) = two_digits n"
proof (cases "n < 10")
  case True
  then have "number_to_string 10 n = [digit_char n]"
    by (simp add: number_to_string.simps [of 10 n])
  with True show ?thesis
    using decimal_digit [of 0] decimal_digit [of n]
    by (simp add: padStart2_def two_digits_def)
next
  case False
  from assms have small: "n div 10 < 10" by (simp add: div_less_iff_less_mult)
  then have "number_to_string 10 (n div 10) = [digit_char (n div 10)]"
    by (simp add: number_to_string.simps [of 10 "n div 10"])
  with False have "number_to_string 10 n = [digit_char (n div 10), digit_char (n mod 10)]"
    by (simp add: number_to_string.simps [of 10 n])
  then show ?thesis
    using decimal_digit [OF small] decimal_digit [of "n mod 10"]
    by (simp add: padStart2_def two_digits_def)
qed

lemma four_digits_of_string:
  assumes "1000 \<le> n" and "n \<le> 9999"
  shows "number_to_string 10 n = four_digits n"
proof -
  have big: "\<not> (n < 10 \<or> (10::nat) < 2)" "\<not> (n div 10 < 10 \<or> (10::nat) < 2)"
    "\<not> (n div 10 div 10 < 10 \<or> (10::nat) < 2)"
    and top: "n div 10 div 10 div 10 < 10 \<or> (10::nat) < 2"
    using assms by (simp_all add: div_less_iff_less_mult)
  have idx: "n div 10 div 10 div 10 = n div 1000" "n div 10 div 10 = n div 100"
    "n div 100 div 10 = n div 1000"
    by (simp_all add: div_mult2_eq [symmetric])
  have "number_to_string 10 n = number_to_string 10 (n div 10) @ [digit_char (n mod 10)]"
    using big(1) by (subst number_to_string.simps) (simp only: if_False)
  also have "number_to_string 10 (n div 10) =
               number_to_string 10 (n div 10 div 10) @ [digit_char (n div 10 mod 10)]"
    using big(2) by (subst number_to_string.simps) (simp only: if_False)
  also have "number_to_string 10 (n div 10 div 10) =
               number_to_string 10 (n div 10 div 10 div 10) @
               [digit_char (n div 10 div 10 mod 10)]"
    using big(3) by (subst number_to_string.simps) (simp only: if_False)
  also have "number_to_string 10 (n div 10 div 10 div 10) =
               [digit_char (n div 10 div 10 div 10)]"
    using top by (subst number_to_string.simps) (simp only: if_True)
  finally have "number_to_string 10 n =
      [digit_char (n div 1000), digit_char (n div 100 mod 10), digit_char (n div 10 mod 10),
       digit_char (n mod 10)]"
    by (simp only: idx append_assoc append_Cons append_Nil)
  moreover have "n div 1000 < 10"
    using assms by (simp add: div_less_iff_less_mult)
  ultimately show ?thesis
    using decimal_digit [of "n div 1000"] decimal_digit [of "n div 100 mod 10"]
      decimal_digit [of "n div 10 mod 10"] decimal_digit [of "n mod 10"]
    by (simp add: four_digits_def)
qed

lemma utc_timestamp_spec:
  assumes "valid_clock now"
  shows "utc_timestamp now = spec_timestamp now"
proof -
  have r: "utc_month now + 1 < 100" "utc_date now < 100" "utc_hours now < 100"
    "utc_minutes now < 100" "utc_seconds now < 100"
    and y: "1000 \<le> utc_year now" "utc_year now \<le> 9999"
    using assms by (simp_all add: valid_clock_def)
  show ?thesis
    unfolding utc_timestamp_def spec_timestamp_def Let_def
    by (simp only: four_digits_of_string [OF y] two_digits_of_string [OF r(1)]
        two_digits_of_string [OF r(2)] two_digits_of_string [OF r(3)]
        two_digits_of_string [OF r(4)] two_digits_of_string [OF r(5)] append_assoc)
qed

lemma is_digit_two_digits:
  assumes "n < 100" and "two_digits n = [a, b]"
  shows "is_digit a \<and> is_digit b"
proof -
  from assms(1) have "n div 10 < 10" by (simp add: div_less_iff_less_mult)
  moreover have "n mod 10 < 10" by simp
  ultimately show ?thesis
    using assms(2) is_digit_decimal by (auto simp: two_digits_def)
qed

lemma is_digit_four_digits:
  assumes "n \<le> 9999" and "four_digits n = [a, b, c, d]"
  shows "is_digit a \<and> is_digit b \<and> is_digit c \<and> is_digit d"
proof -
  from assms(1) have "n div 1000 < 10" by (simp add: div_less_iff_less_mult)
  moreover have "n div 100 mod 10 < 10" "n div 10 mod 10 < 10" "n mod 10 < 10" by simp_all
  ultimately show ?thesis
    using assms(2) is_digit_decimal by (auto simp: four_digits_def)
qed

lemma spec_timestamp_form:
  assumes "valid_clock now"
  shows "timestamp_form (spec_timestamp now)"
proof -
  obtain y1 y2 y3 y4 where y: "four_digits (utc_year now) = [y1, y2, y3, y4]"
    by (simp add: four_digits_def)
  obtain m1 m2 d1 d2 where md: "two_digits (Suc (utc_month now)) = [m1, m2]"
    "two_digits (utc_date now) = [d1, d2]" by (simp add: two_digits_def)
  obtain h1 h2 n1 n2 s1 s2 where t: "two_digits (utc_hours now) = [h1, h2]"
    "two_digits (utc_minutes now) = [n1, n2]" "two_digits (utc_seconds now) = [s1, s2]"
    by (simp add: two_digits_def)
  have ry: "utc_year now \<le> 9999" using assms by (simp add: valid_clock_def)
  have r: "Suc (utc_month now) < 100"
    "utc_date now < 100" "utc_hours now < 100" "utc_minutes now < 100" "utc_seconds now < 100"
    using assms by (simp_all add: valid_clock_def)
  have "is_digit y1 \<and> is_digit y2 \<and> is_digit y3 \<and> is_digit y4"
    using is_digit_four_digits [OF ry y] .
  moreover have "is_digit m1 \<and> is_digit m2"
    "is_digit d1 \<and> is_digit d2" "is_digit h1 \<and> is_digit h2" "is_digit n1 \<and> is_digit n2"
    "is_digit s1 \<and> is_digit s2"
    using is_digit_two_digits r md t by blast+
  ultimately show ?thesis
    by (simp add: spec_timestamp_def timestamp_form_def y md t)
qed

text \<open>
  Claim C9, as amended.
  \<^item> For a merchant id and a secret key that are not empty and a clock whose UTC year has
    four digits, \<^verbatim>\<open>createSveaAuthHeaders\<close> returns a timestamp of the form
    \<^verbatim>\<open>YYYY-MM-DD HH:MM:SS\<close> that spells the UTC fields of the clock, and the token of the
    specification: the base64 encoding of the merchant id, a colon and the lowercase
    hexadecimal SHA-512 digest of request body, secret key and timestamp.
  \<^item> For an empty merchant id or an empty secret key, whatever the clock and the request
    body, it throws the error \<^verbatim>\<open>Merchant ID and secret key are required\<close> and returns
    neither a token nor a timestamp.
\<close>

theorem auth_headers_scheme:
  "(merchant \<noteq> [] \<and> secret \<noteq> [] \<and> valid_clock now \<longrightarrow>
      (\<exists>token timestamp.
         createSveaAuthHeaders cr now merchant secret requestBody = Inr (token, timestamp) \<and>
         timestamp = spec_timestamp now \<and> timestamp_form timestamp \<and>
         token = spec_token cr merchant secret requestBody timestamp)) \<and>
   (merchant = [] \<or> secret = [] \<longrightarrow>
      createSveaAuthHeaders cr now merchant secret requestBody = Inl CredentialsRequired \<and>
      message CredentialsRequired = ''Merchant ID and secret key are required'')"
proof (intro conjI impI)
  assume "merchant \<noteq> [] \<and> secret \<noteq> [] \<and> valid_clock now"
  then show "\<exists>token timestamp.
         createSveaAuthHeaders cr now merchant secret requestBody = Inr (token, timestamp) \<and>
         timestamp = spec_timestamp now \<and> timestamp_form timestamp \<and>
         token = spec_token cr merchant secret requestBody timestamp"
    by (simp add: createSveaAuthHeaders_def Let_def digest_hex_spec spec_token_def
        utc_timestamp_spec spec_timestamp_form)
next
  assume "merchant = [] \<or> secret = []"
  then show "createSveaAuthHeaders cr now merchant secret requestBody = Inl CredentialsRequired"
    by (simp add: createSveaAuthHeaders_def)
next
  show "message CredentialsRequired = ''Merchant ID and secret key are required''"
    by simp
qed

text \<open>
  The claim as stated fails for an empty merchant id (or secret key): the function throws
  and produces neither a token nor a timestamp.
\<close>

theorem auth_headers_scheme_counterexample:
  "createSveaAuthHeaders (hashing quiet_env) (clock quiet_env) [] ''secret'' [] =
     Inl CredentialsRequired"
  by (simp add: createSveaAuthHeaders_def)

text \<open>
  The headers of the shop at 12:00:00 UTC on 1 March 2026, with a digest of six bytes; and
  the shop without a secret key, and with neither credential.
\<close>

theorem auth_headers_scheme_witness:
  "valid_clock (clock quiet_env) \<and>
   createSveaAuthHeaders (hashing quiet_env) (clock quiet_env) ''merchant'' ''secret'' [] =
     Inr (''merchant:646967657374'', ''2026-03-01 12:00:00'') \<and>
   createSveaAuthHeaders (hashing quiet_env) (clock quiet_env) ''merchant'' [] ''{}'' =
     Inl CredentialsRequired \<and>
   createSveaAuthHeaders (hashing quiet_env) (clock quiet_env) [] [] [] =
     Inl CredentialsRequired"
proof -
  have h2: "valid_clock (clock quiet_env)"
    by (simp add: valid_clock_def quiet_env_def)
  have h: "''merchant'' \<noteq> [] \<and> ''secret'' \<noteq> [] \<and> valid_clock (clock quiet_env)"
    using h2 by simp
  have ts: "spec_timestamp (clock quiet_env) = ''2026-03-01 12:00:00''"
    by (simp add: spec_timestamp_def two_digits_def four_digits_def quiet_env_def)
  have tk: "spec_token (hashing quiet_env) ''merchant'' ''secret'' [] ts =
              ''merchant:646967657374''" for ts
    by (simp add: spec_token_def spec_hex_byte_def quiet_env_def)
  have e1: "''merchant'' = [] \<or> ([] :: string) = []" by simp
  have e2: "([] :: string) = [] \<or> ([] :: string) = []" by simp
  have signed: "createSveaAuthHeaders (hashing quiet_env) (clock quiet_env) ''merchant''
      ''secret'' [] = Inr (''merchant:646967657374'', ''2026-03-01 12:00:00'')"
    using auth_headers_scheme [where merchant = "''merchant''" and secret = "''secret''"
        and now = "clock quiet_env" and cr = "hashing quiet_env" and requestBody = "[]",
        THEN conjunct1, THEN mp, OF h] ts tk
    by auto
  have thrown1: "createSveaAuthHeaders (hashing quiet_env) (clock quiet_env) ''merchant'' []
      ''{}'' = Inl CredentialsRequired"
    using auth_headers_scheme [where merchant = "''merchant''" and secret = "[]"
        and now = "clock quiet_env" and cr = "hashing quiet_env" and requestBody = "''{}''",
        THEN conjunct2, THEN mp, OF e1, THEN conjunct1] .
  have thrown2: "createSveaAuthHeaders (hashing quiet_env) (clock quiet_env) [] [] [] =
      Inl CredentialsRequired"
    using auth_headers_scheme [where merchant = "[]" and secret = "[]"
        and now = "clock quiet_env" and cr = "hashing quiet_env" and requestBody = "[]",
        THEN conjunct2, THEN mp, OF e2, THEN conjunct1] .
  from h2 signed thrown1 thrown2 show ?thesis by (intro conjI)
qed
subsection \<open>Creating or updating the order\<close>

lemma set_array_from_set: "set (array_from_set xs) = set xs"
  by (simp add: array_from_set_def)

lemma distinct_array_from_set: "distinct (array_from_set xs)"
  by (simp add: array_from_set_def)

lemma merged_transaction_ids_set:
  "set (merged_transaction_ids existing n) = (linked_ids existing - {0}) \<union> {n}"
  by (auto simp: merged_transaction_ids_def set_array_from_set linked_ids_def)

lemma merged_transaction_ids_distinct: "distinct (merged_transaction_ids existing n)"
  by (simp add: merged_transaction_ids_def distinct_array_from_set)

lemma update_existing_order:
  assumes "id_truthy (Some n)"
    and "find (\<lambda>d. order_id d = n) (orders (store w)) = Some existing"
    and "\<not> fails env (calls w)"
    and "\<not> fails env (Suc (calls w))"
  shows "\<exists>w'. create_or_update_order env t payload (Some n) w =
           (Inr (order_patch payload (merged_transaction_ids existing (tx_id t)) existing), w') \<and>
         orders (store w') =
           map (\<lambda>d. if order_id d = n
                     then order_patch payload (merged_transaction_ids existing (tx_id t)) d
                     else d) (orders (store w)) \<and>
         transactions (store w') = transactions (store w) \<and>
         carts (store w') = carts (store w) \<and>
         journal (store w') = journal (store w) @ [Updated Orders n]"
  using assms
  by (simp add: create_or_update_order_def findByID_order_def update_order_def bnd_def
      external_def logger_def ret_def)

lemma lookup_existing_order_result:
  "\<exists>res w'. lookup_existing_order env t w = (res, w') \<and> store w' = store w \<and>
     (res = Inl ExternalFailure \<or> res = Inr (existing_order_id (orders (store w)) t))"
  by (simp add: lookup_existing_order_def existing_order_id_def ret_def bnd_def external_def
      find_order_containing_def)

lemma webhook_finalize_keeps_existing:
  assumes "id_truthy (existing_order_id (orders (store w)) t)"
  shows "orders (store (snd (webhook_finalize env t n pt w))) = orders (store w) \<and>
         carts (store (snd (webhook_finalize env t n pt w))) = carts (store w)"
proof -
  define patch :: "transaction \<Rightarrow> transaction" where "patch = (\<lambda>d. d\<lparr>tx_status := ''succeeded'',
     tx_svea := Some ((svea_of t)\<lparr>svea_orderId := n,
       svea_paymentType := js_or pt (svea_paymentType (svea_of t))\<rparr>)\<rparr>)"
  obtain r1 w1 where u: "update_transaction env (tx_id t) patch w = (r1, w1)"
    by (cases "update_transaction env (tx_id t) patch w")
  have o1: "orders (store w1) = orders (store w)" "carts (store w1) = carts (store w)"
    using u
    by (auto simp: update_transaction_def bnd_def external_def split: option.splits if_splits)
  obtain r2 w2 where l: "lookup_existing_order env t w1 = (r2, w2)"
    and s2: "store w2 = store w1"
    and r2: "r2 = Inl ExternalFailure \<or> r2 = Inr (existing_order_id (orders (store w1)) t)"
    using lookup_existing_order_result by blast
  have "webhook_finalize env t n pt w =
          (case r1 of Inl e \<Rightarrow> (Inl e, w1)
           | Inr _ \<Rightarrow>
               (case r2 of Inl e \<Rightarrow> (Inl e, w2)
                | Inr found \<Rightarrow>
                    (if \<not> id_truthy found then webhook_create_order env t
                     else logger Info ''Order already exists - skipping creation'') w2))"
    using u l by (simp add: webhook_finalize_def Let_def bnd_def patch_def split: sum.splits)
  then show ?thesis
    using r2 o1 s2 assms by (auto simp: logger_def split: sum.splits)
qed

subsection \<open>Orders only grow\<close>

lemma orders_grow_refl: "orders_grow os os"
  by (auto simp: orders_grow_def)

lemma orders_grow_trans:
  assumes "orders_grow a b" and "orders_grow b c"
  shows "orders_grow a c"
  unfolding orders_grow_def
proof
  fix d assume "d \<in> set a"
  with assms(1) obtain d' where d': "d' \<in> set b" "order_id d' = order_id d"
    "linked_ids d - {0} \<subseteq> linked_ids d'"
    by (auto simp: orders_grow_def)
  with assms(2) obtain d'' where d'': "d'' \<in> set c" "order_id d'' = order_id d'"
    "linked_ids d' - {0} \<subseteq> linked_ids d''"
    by (auto simp: orders_grow_def)
  from d' d'' have "linked_ids d - {0} \<subseteq> linked_ids d''" by blast
  with d'(2) d''(1,2) show "\<exists>d'\<in>set c. order_id d' = order_id d \<and> linked_ids d - {0} \<subseteq> linked_ids d'"
    by auto
qed

lemma grown_refl: "grown w w"
  by (simp add: grown_def orders_grow_refl)

lemma grown_same: "orders (store w') = orders (store w) \<Longrightarrow> grown w w'"
  by (simp add: grown_def orders_grow_refl)

lemma grown_trans: "grown a b \<Longrightarrow> grown b c \<Longrightarrow> grown a c"
  unfolding grown_def using orders_grow_trans by blast

lemma grows_ret: "grows (ret x)"
  by (simp add: grows_def ret_def grown_refl)

lemma grows_raise: "grows (raise e)"
  by (simp add: grows_def raise_def grown_refl)

lemma grows_bnd:
  assumes "grows m" and "\<And>x. grows (f x)"
  shows "grows (bnd m f)"
  unfolding grows_def
proof
  fix w
  obtain r w1 where m: "m w = (r, w1)" by (cases "m w")
  with assms(1) have g1: "grown w w1" by (auto simp: grows_def dest: spec [of _ w])
  show "grown w (snd (bnd m f w))"
  proof (cases r)
    case (Inl e)
    with m g1 show ?thesis by (simp add: bnd_def)
  next
    case (Inr x)
    from assms(2) [of x] have "grown w1 (snd (f x w1))" by (simp add: grows_def)
    with g1 m Inr show ?thesis by (auto simp: bnd_def intro: grown_trans)
  qed
qed

lemma grows_try_catch:
  assumes "grows m" and "\<And>e. grows (h e)"
  shows "grows (try_catch m h)"
  unfolding grows_def
proof
  fix w
  obtain r w1 where m: "m w = (r, w1)" by (cases "m w")
  with assms(1) have g1: "grown w w1" by (auto simp: grows_def dest: spec [of _ w])
  show "grown w (snd (try_catch m h w))"
  proof (cases r)
    case (Inr x)
    with m g1 show ?thesis by (simp add: try_catch_def)
  next
    case (Inl e)
    from assms(2) [of e] have "grown w1 (snd (h e w1))" by (simp add: grows_def)
    with g1 m Inl show ?thesis by (auto simp: try_catch_def intro: grown_trans)
  qed
qed

lemma grows_if: "(c \<Longrightarrow> grows a) \<Longrightarrow> (\<not> c \<Longrightarrow> grows b) \<Longrightarrow> grows (if c then a else b)"
  by simp

lemma grows_option:
  "grows a \<Longrightarrow> (\<And>x. grows (b x)) \<Longrightarrow> grows (case v of None \<Rightarrow> a | Some x \<Rightarrow> b x)"
  by (cases v) simp_all

lemma grows_keeps: "keeps store m \<Longrightarrow> grows m"
  by (simp add: grows_def keeps_def grown_same)

lemma grows_update_transaction: "grows (update_transaction env n patch)"
  by (auto simp: grows_def update_transaction_def bnd_def external_def
      intro!: grown_same split: option.splits)

lemma grows_update_cart: "grows (update_cart env n patch)"
  by (auto simp: grows_def update_cart_def bnd_def external_def
      intro!: grown_same split: option.splits)

lemma foldl_max_ge: "a \<le> foldl max a (xs :: int list)"
  by (induction xs arbitrary: a) (auto intro: order_trans [OF max.cobounded1])

lemma foldl_max_member: "x \<in> set xs \<Longrightarrow> x \<le> foldl max a (xs :: int list)"
proof (induction xs arbitrary: a)
  case Nil
  then show ?case by simp
next
  case (Cons y ys)
  show ?case
  proof (cases "x = y")
    case True
    have "y \<le> max a y" by simp
    also have "\<dots> \<le> foldl max (max a y) ys" by (rule foldl_max_ge)
    finally show ?thesis using True by simp
  next
    case False
    with Cons show ?thesis by simp
  qed
qed

lemma fresh_order_id_new: "d \<in> set os \<Longrightarrow> order_id d \<noteq> fresh_order_id os"
proof
  assume d: "d \<in> set os" and eq: "order_id d = fresh_order_id os"
  from d have "order_id d \<in> set (map order_id os)" by simp
  then have "order_id d \<le> foldl max 0 (map order_id os)"
    by (rule foldl_max_member)
  with eq show False by (simp add: fresh_order_id_def)
qed

lemma append_grows:
  assumes "distinct (map ref_id (order_transactions d))"
    and "\<forall>x \<in> set os. order_id x \<noteq> order_id d"
  shows "(distinct (map order_id os) \<longrightarrow>
            distinct (map order_id (os @ [d])) \<and> orders_grow os (os @ [d]) \<and>
            (duplicate_free os \<longrightarrow> duplicate_free (os @ [d])))"
proof (intro impI conjI)
  assume "distinct (map order_id os)"
  with assms(2) show "distinct (map order_id (os @ [d]))" by auto
  show "orders_grow os (os @ [d])" by (auto simp: orders_grow_def)
  assume "duplicate_free os"
  with assms(1) show "duplicate_free (os @ [d])" by (auto simp: duplicate_free_def)
qed

lemma grows_logger: "grows (logger l m)"
  by (simp add: grows_def logger_def grown_same)

lemma grown_orders:
  assumes "orders (store w') = os'"
    and "distinct (map order_id (orders (store w))) \<longrightarrow>
           distinct (map order_id os') \<and> orders_grow (orders (store w)) os' \<and>
           (duplicate_free (orders (store w)) \<longrightarrow> duplicate_free os')"
  shows "grown w w'"
  using assms by (simp add: grown_def)

lemma create_order_orders:
  "orders (store (snd (create_order env data w))) =
     (if fails env (calls w) then orders (store w)
      else orders (store w) @ [data\<lparr>order_id := fresh_order_id (orders (store w))\<rparr>])"
  by (simp add: create_order_def bnd_def external_def Let_def)

lemma grows_create_order:
  assumes "distinct (map ref_id (order_transactions data))"
  shows "grows (create_order env data)"
  unfolding grows_def
proof
  fix w :: world
  define d where "d = data\<lparr>order_id := fresh_order_id (orders (store w))\<rparr>"
  have "distinct (map ref_id (order_transactions d))" using assms by (simp add: d_def)
  moreover have "\<forall>x \<in> set (orders (store w)). order_id x \<noteq> order_id d"
    using fresh_order_id_new by (simp add: d_def)
  ultimately have app: "distinct (map order_id (orders (store w))) \<longrightarrow>
      distinct (map order_id (orders (store w) @ [d])) \<and>
      orders_grow (orders (store w)) (orders (store w) @ [d]) \<and>
      (duplicate_free (orders (store w)) \<longrightarrow> duplicate_free (orders (store w) @ [d]))"
    by (rule append_grows)
  show "grown w (snd (create_order env data w))"
  proof (cases "fails env (calls w)")
    case True
    then show ?thesis by (intro grown_same) (simp add: create_order_orders)
  next
    case False
    then have "orders (store (snd (create_order env data w))) = orders (store w) @ [d]"
      by (simp add: create_order_orders d_def)
    then show ?thesis using app by (rule grown_orders)
  qed
qed

lemma find_SomeD: "find P xs = Some x \<Longrightarrow> x \<in> set xs \<and> P x"
  by (induction xs) (auto split: if_splits)

lemma order_patch_id: "order_id (order_patch payload m d) = order_id d"
  by (simp add: order_patch_def)

lemma order_patch_transactions: "order_transactions (order_patch payload m d) = map RefId m"
  by (simp add: order_patch_def)

lemma ref_id_RefId: "map ref_id (map RefId m) = m"
  by (induction m) simp_all

lemma linked_ids_patch: "linked_ids (order_patch payload m d) = set m"
proof -
  have "linked_ids (order_patch payload m d) = set (map ref_id (map RefId m))"
    unfolding linked_ids_def order_patch_transactions by (simp only: set_map)
  then show ?thesis by (simp only: ref_id_RefId)
qed

lemma patch_grows:
  assumes "distinct (map order_id os)"
    and "find (\<lambda>d. order_id d = n) os = Some existing"
  shows "distinct (map order_id
             (map (\<lambda>d. if order_id d = n
                        then order_patch payload (merged_transaction_ids existing k) d else d) os)) \<and>
         orders_grow os
             (map (\<lambda>d. if order_id d = n
                        then order_patch payload (merged_transaction_ids existing k) d else d) os) \<and>
         (duplicate_free os \<longrightarrow>
            duplicate_free
             (map (\<lambda>d. if order_id d = n
                        then order_patch payload (merged_transaction_ids existing k) d else d) os))"
proof -
  define f where "f = (\<lambda>d. if order_id d = n
                  then order_patch payload (merged_transaction_ids existing k) d else d)"
  have ex: "existing \<in> set os" "order_id existing = n"
    using find_SomeD [OF assms(2)] by simp_all
  have inj: "inj_on order_id (set os)"
    using assms(1) by (simp add: distinct_map)
  have same: "d = existing" if "d \<in> set os" "order_id d = n" for d
    using inj_onD [OF inj, of d existing] that ex by simp
  have f_id: "order_id (f d) = order_id d" for d
    by (simp add: f_def order_patch_id)
  have ids: "map order_id (map f os) = map order_id os"
    by (induction os) (simp_all add: f_id)
  have grow: "orders_grow os (map f os)"
    unfolding orders_grow_def
  proof
    fix d assume d: "d \<in> set os"
    have mem: "f d \<in> set (map f os)" using d by simp
    have "linked_ids d - {0} \<subseteq> linked_ids (f d)"
    proof (cases "order_id d = n")
      case True
      with d same have "d = existing" by blast
      moreover have "linked_ids (f d) = (linked_ids existing - {0}) \<union> {k}"
        using True by (simp add: f_def linked_ids_patch merged_transaction_ids_set)
      ultimately show ?thesis by blast
    next
      case False
      then have "f d = d" by (simp add: f_def)
      then show ?thesis by auto
    qed
    with mem f_id [of d]
    show "\<exists>d'\<in>set (map f os). order_id d' = order_id d \<and> linked_ids d - {0} \<subseteq> linked_ids d'"
      by blast
  qed
  have dup: "duplicate_free (map f os)" if df: "duplicate_free os"
    unfolding duplicate_free_def
  proof
    fix d' assume "d' \<in> set (map f os)"
    then obtain d where d: "d \<in> set os" "d' = f d" by auto
    show "distinct (map ref_id (order_transactions d'))"
    proof (cases "order_id d = n")
      case True
      with d have "order_transactions d' = map RefId (merged_transaction_ids existing k)"
        by (simp add: f_def order_patch_transactions)
      then show ?thesis
        by (simp only: ref_id_RefId merged_transaction_ids_distinct)
    next
      case False
      with d have "d' = d" by (simp add: f_def)
      with d df show ?thesis by (simp add: duplicate_free_def)
    qed
  qed
  have "distinct (map order_id (map f os))" unfolding ids by (rule assms(1))
  with grow dup show ?thesis unfolding f_def by blast
qed

lemma update_branch_orders:
  assumes "find (\<lambda>d. order_id d = n) (orders (store w)) = Some existing"
  shows "orders (store (snd
           (bnd (findByID_order env n) (\<lambda>existingOrder.
            bnd (update_order env n
                   (order_patch payload (merged_transaction_ids existingOrder k)))
              (\<lambda>updated.
            bnd (logger Info ''Updated existing order'') (\<lambda>_. ret updated))) w))) =
         orders (store w) \<or>
         orders (store (snd
           (bnd (findByID_order env n) (\<lambda>existingOrder.
            bnd (update_order env n
                   (order_patch payload (merged_transaction_ids existingOrder k)))
              (\<lambda>updated.
            bnd (logger Info ''Updated existing order'') (\<lambda>_. ret updated))) w))) =
         map (\<lambda>d. if order_id d = n
                   then order_patch payload (merged_transaction_ids existing k) d else d)
           (orders (store w))"
  using assms
  by (simp add: findByID_order_def update_order_def bnd_def external_def logger_def ret_def)

lemma missing_branch_orders:
  assumes "find (\<lambda>d. order_id d = n) (orders (store w)) = None"
  shows "orders (store (snd
           (bnd (findByID_order env n) (\<lambda>existingOrder.
            bnd (update_order env n
                   (order_patch payload (merged_transaction_ids existingOrder k)))
              (\<lambda>updated.
            bnd (logger Info ''Updated existing order'') (\<lambda>_. ret updated))) w))) =
         orders (store w)"
  using assms
  by (simp add: findByID_order_def bnd_def external_def)

lemma grows_create_or_update_order:
  assumes "distinct (map ref_id (order_transactions payload))"
  shows "grows (create_or_update_order env t payload existingOrderId)"
proof (cases "if id_truthy existingOrderId then existingOrderId else None")
  case None
  then have "create_or_update_order env t payload existingOrderId =
               bnd (create_order env payload) (\<lambda>created.
               bnd (logger Info ''Created new order'') (\<lambda>_. ret created))"
    by (simp add: create_or_update_order_def)
  then show ?thesis
    by (simp only:) (intro grows_bnd grows_create_order [OF assms] grows_logger grows_ret)
next
  case (Some n)
  then have unfold: "create_or_update_order env t payload existingOrderId =
      bnd (findByID_order env n) (\<lambda>existingOrder.
      bnd (update_order env n
             (order_patch payload (merged_transaction_ids existingOrder (tx_id t))))
        (\<lambda>updated.
      bnd (logger Info ''Updated existing order'') (\<lambda>_. ret updated)))"
    by (simp add: create_or_update_order_def)
  show ?thesis
    unfolding grows_def unfold
  proof
    fix w :: world
    let ?run = "bnd (findByID_order env n) (\<lambda>existingOrder.
      bnd (update_order env n
             (order_patch payload (merged_transaction_ids existingOrder (tx_id t))))
        (\<lambda>updated.
      bnd (logger Info ''Updated existing order'') (\<lambda>_. ret updated)))"
    show "grown w (snd (?run w))"
    proof (cases "find (\<lambda>d. order_id d = n) (orders (store w))")
      case None
      then show ?thesis by (intro grown_same missing_branch_orders)
    next
      case found: (Some existing)
      from update_branch_orders [OF found, of env payload "tx_id t"] show ?thesis
      proof
        assume "orders (store (snd (?run w))) = orders (store w)"
        then show ?thesis by (rule grown_same)
      next
        assume "orders (store (snd (?run w))) =
                  map (\<lambda>d. if order_id d = n
                            then order_patch payload (merged_transaction_ids existing (tx_id t)) d
                            else d) (orders (store w))"
        then show ?thesis
          using patch_grows [OF _ found, of payload "tx_id t"]
          by (intro grown_orders) auto
      qed
    qed
  qed
qed

lemma keeps_store_load_cart: "keeps store (load_cart env t)"
  unfolding load_cart_def
  by (auto split: option.splits cart_ref.splits intro!: keeps_store_rules)

lemma keeps_store_lookup_existing_order: "keeps store (lookup_existing_order env t)"
  unfolding lookup_existing_order_def by (intro keeps_store_rules)

lemma grows_purchase:
  "grows (try_catch (bnd (update_cart env n patch) f) h)"
  if "\<And>x. grows (f x)" "\<And>e. grows (h e)"
  using that by (intro grows_try_catch grows_bnd grows_update_cart)

lemma grows_confirm_materialize: "grows (confirm_materialize env data t v sveaOrder)"
  unfolding confirm_materialize_def Let_def
  by (intro grows_bnd grows_option grows_raise grows_ret grows_logger grows_update_transaction
      grows_purchase grows_create_or_update_order
      grows_keeps [OF keeps_store_load_cart] grows_keeps [OF keeps_store_lookup_existing_order])
     (simp add: order_payload_def)

lemma grows_confirmOrder: "grows (confirmOrder env cfg data)"
  unfolding confirmOrder_def confirm_try_def confirm_resolved_def Let_def
  by (intro grows_if grows_bnd grows_option grows_raise grows_ret grows_logger grows_try_catch
      grows_confirm_materialize grows_keeps [OF keeps_store_resolve]
      grows_keeps [OF keeps_store_fetch])

lemma grows_webhook_create_order: "grows (webhook_create_order env t)"
  unfolding webhook_create_order_def
  by (intro grows_bnd grows_option grows_ret grows_logger grows_update_transaction
      grows_purchase grows_create_order grows_keeps [OF keeps_store_load_cart])
     (simp add: webhook_order_data_def Let_def)

lemma grows_webhook_main: "grows (webhook_main env req)"
proof -
  have "keeps store (parse_webhook_body env req)"
    unfolding parse_webhook_body_def Let_def
    by (auto split: option.splits intro!: keeps_store_rules)
  then show ?thesis
    unfolding webhook_main_def webhook_dispatch_def webhook_finalize_def Let_def
    by (intro grows_if grows_bnd grows_option grows_raise grows_ret grows_logger
        grows_update_transaction grows_webhook_create_order grows_keeps
        keeps_store_console keeps_store_reads keeps_store_lookup_existing_order)
qed

lemma grown_handleWebhook: "grown w (snd (handleWebhook env req w))"
proof -
  define w1 where
    "w1 = w\<lparr>logs := logs w @ [Console Info ''[Svea Webhook] Request received at:''],
            calls := Suc (calls w)\<rparr>"
  have g1: "grown w w1" by (intro grown_same) (simp add: w1_def)
  have err: "grown v (snd (webhook_on_error env b e v))" for b e v
    using webhook_on_error_result [of env b e v] by (intro grown_same) auto
  have "grows (try_catch (webhook_main env req) (webhook_on_error env True))"
    by (intro grows_try_catch grows_webhook_main) (simp add: grows_def err)
  then have "grown w1 (snd (try_catch (webhook_main env req) (webhook_on_error env True) w1))"
    by (simp add: grows_def)
  with err [of w1 False ExternalFailure]
  have "grown w1 (snd (handleWebhook env req w))"
    by (simp add: handleWebhook_unfold flip: w1_def)
  with g1 show ?thesis by (rule grown_trans)
qed

lemma load_cart_found:
  assumes "cart_of (carts (store w)) t = Some cart" and "\<forall>k. \<not> fails env k"
  shows "\<exists>w'. load_cart env t w = (Inr (Some cart), w') \<and> store w' = store w"
  using assms
  by (auto simp: load_cart_def cart_of_def findByID_cart_def bnd_def ret_def external_def
      split: option.splits cart_ref.splits if_splits)

lemma lookup_existing_order_found:
  assumes "\<forall>k. \<not> fails env k"
  shows "\<exists>w'. lookup_existing_order env t w =
           (Inr (existing_order_id (orders (store w)) t), w') \<and> store w' = store w"
  using assms
  by (simp add: lookup_existing_order_def existing_order_id_def ret_def bnd_def external_def
      find_order_containing_def)

lemma purchase_keeps_orders:
  "\<exists>w'. try_catch
          (bnd (update_cart env n patch) (\<lambda>_. logger Info ''Cart marked as purchased''))
          (\<lambda>cartError. logger Warn ''Could not update cart status'') w = (Inr (), w') \<and>
        orders (store w') = orders (store w) \<and>
        transactions (store w') = transactions (store w)"
  by (simp add: try_catch_def bnd_def update_cart_def external_def logger_def
      split: option.splits)

lemma update_transaction_found:
  assumes "t \<in> set (transactions (store w))" and "\<forall>k. \<not> fails env k"
  shows "\<exists>d w'. update_transaction env (tx_id t) patch w = (Inr d, w') \<and>
           orders (store w') = orders (store w)"
proof -
  from assms(1) have "find (\<lambda>d. tx_id d = tx_id t) (transactions (store w)) \<noteq> None"
    by (auto simp: find_None_iff)
  with assms(2) show ?thesis
    by (auto simp: update_transaction_def bnd_def external_def)
qed
lemma bnd_apply:
  "bnd m f w = (case m w of (Inl e, w') \<Rightarrow> (Inl e, w') | (Inr x, w') \<Rightarrow> f x w')"
  by (simp add: bnd_def)

lemma ret_apply: "ret x w = (Inr x, w)"
  by (simp add: ret_def)

lemma logger_apply: "logger l m w = (Inr (), w\<lparr>logs := logs w @ [Logger l m]\<rparr>)"
  by (simp add: logger_def)

lemma confirm_materialize_existing:
  assumes "cart_of (carts (store w)) t = Some cart"
    and "existing_order_id (orders (store w)) t = Some n"
    and "id_truthy (Some n)"
    and "find (\<lambda>d. order_id d = n) (orders (store w)) = Some existing"
    and "t \<in> set (transactions (store w))"
    and "\<forall>k. \<not> fails env k"
  shows "\<exists>w'. confirm_materialize env data t v sveaOrder w =
           (Inr \<lparr>cr_message = ''Order confirmed successfully'', cr_orderID = n,
                 cr_transactionID = tx_id t\<rparr>, w') \<and>
         orders (store w') =
           map (\<lambda>d. if order_id d = n
                     then order_patch (confirm_payload env data t cart sveaOrder)
                            (merged_transaction_ids existing (tx_id t)) d
                     else d) (orders (store w))"
proof -
  have oid: "order_id existing = n"
    using find_SomeD [OF assms(4)] by simp
  obtain w1 where 1: "load_cart env t w = (Inr (Some cart), w1)" and s1: "store w1 = store w"
    using load_cart_found [OF assms(1,6)] by blast
  obtain w2 where 2: "lookup_existing_order env t w1 = (Inr (Some n), w2)"
    and s2: "store w2 = store w"
    using lookup_existing_order_found [OF assms(6), of t w1] assms(2) s1 by auto
  have f2: "find (\<lambda>d. order_id d = n) (orders (store w2)) = Some existing"
    using assms(4) s2 by simp
  obtain w3 where 3: "create_or_update_order env t (confirm_payload env data t cart sveaOrder)
        (Some n) w2 =
      (Inr (order_patch (confirm_payload env data t cart sveaOrder)
              (merged_transaction_ids existing (tx_id t)) existing), w3)"
    and o3: "orders (store w3) =
      map (\<lambda>d. if order_id d = n
                then order_patch (confirm_payload env data t cart sveaOrder)
                       (merged_transaction_ids existing (tx_id t)) d
                else d) (orders (store w2))"
    and t3: "transactions (store w3) = transactions (store w2)"
    using update_existing_order [OF assms(3) f2, of env t "confirm_payload env data t cart sveaOrder"]
      assms(6) by blast
  obtain w4 where 4: "try_catch
          (bnd (update_cart env (cart_id cart) (purchased_patch env cart))
             (\<lambda>_. logger Info ''Cart marked as purchased''))
          (\<lambda>cartError. logger Warn ''Could not update cart status'') w3 = (Inr (), w4)"
    and o4: "orders (store w4) = orders (store w3)"
    and t4: "transactions (store w4) = transactions (store w3)"
    using purchase_keeps_orders [of env "cart_id cart" "purchased_patch env cart" w3] by blast
  have "t \<in> set (transactions (store w4))"
    using assms(5) t4 t3 s2 by simp
  then obtain d w5 where 5: "update_transaction env (tx_id t)
        (confirm_transaction_patch env t v sveaOrder n (confirm_billing_address t sveaOrder)
           (confirm_customer_email env data t sveaOrder)) w4 = (Inr d, w5)"
    and o5: "orders (store w5) = orders (store w4)"
    using update_transaction_found [OF _ assms(6)] by blast
  have "confirm_materialize env data t v sveaOrder w =
          (Inr \<lparr>cr_message = ''Order confirmed successfully'', cr_orderID = n,
                cr_transactionID = tx_id t\<rparr>,
           w5\<lparr>logs := logs w5 @ [Logger Info ''Order confirmed successfully'']\<rparr>)"
    by (simp add: confirm_materialize_def Let_def bnd_apply 1 2 3 [unfolded confirm_payload_def]
        4 5 logger_apply ret_apply order_patch_id oid)
  moreover have "orders (store (w5\<lparr>logs := logs w5 @ [Logger Info ''Order confirmed successfully'']\<rparr>)) =
      map (\<lambda>d. if order_id d = n
                then order_patch (confirm_payload env data t cart sveaOrder)
                       (merged_transaction_ids existing (tx_id t)) d
                else d) (orders (store w))"
    using o5 o4 o3 s2 by simp
  ultimately show ?thesis by blast
qed

lemma resolved_in_store:
  assumes "confirm_resolution env data w = Inr t" and "\<forall>k. \<not> fails env k"
  shows "t \<in> set (transactions (store w))"
proof -
  have "resolution (spec_resolve (transactions (store w)) (confirm_sveaOrderId data)
          (confirm_transactionId data) (confirm_clientOrderNumber data)) = Inr t"
    using resolve_no_faults [OF assms(2)] assms(1) by simp
  then show ?thesis
    by (auto simp: resolution_def spec_resolve_def lookup_by_id_def lookup_by_orderId_def
        lookup_by_clientOrderNumber_def dest: find_SomeD split: option.splits if_splits)
qed

lemma confirm_updates_existing_order:
  assumes "confirm_resolution env data w = Inr t"
    and "\<not> is_nullish data"
    and "truthy (effective_sveaOrderId (confirm_sveaOrderId data) t)"
    and "\<not> (tx_status t = ''succeeded'' \<and> ref_truthy (tx_order t))"
    and "createSveaAuthHeaders (hashing env) (clock env) (merchantId cfg) (secretKey cfg) [] =
           Inr (token, timestamp)"
    and "fetch_order env (effective_sveaOrderId (confirm_sveaOrderId data) t) token timestamp =
           FetchOk sveaOrder"
    and "\<not> is_nullish sveaOrder"
    and "member sveaOrder ''Status'' = JStr ''Final''"
    and "cart_of (carts (store w)) t = Some cart"
    and "existing_order_id (orders (store w)) t = Some n"
    and "id_truthy (Some n)"
    and "find (\<lambda>d. order_id d = n) (orders (store w)) = Some existing"
    and "\<forall>k. \<not> fails env k"
  shows "\<exists>w'. confirmOrder env cfg data w =
           (Inr \<lparr>cr_message = ''Order confirmed successfully'', cr_orderID = n,
                 cr_transactionID = tx_id t\<rparr>, w') \<and>
         orders (store w') =
           map (\<lambda>d. if order_id d = n
                     then order_patch (confirm_payload env data t cart sveaOrder)
                            (merged_transaction_ids existing (tx_id t)) d
                     else d) (orders (store w))"
proof -
  obtain w2 where st: "store w2 = store w"
    and c: "confirmOrder env cfg data w =
             (case confirm_resolved env cfg data t w2 of
                (Inl e, w3) \<Rightarrow>
                  (Inl e, w3\<lparr>logs := logs w3 @ [Logger Error ''Error confirming order with Svea'']\<rparr>)
              | (Inr r, w3) \<Rightarrow> (Inr r, w3))"
    using confirmOrder_resolved [OF assms(1,2)] by blast
  define w3 where "w3 = w2\<lparr>logs := logs w2 @ [Logger Info ''Fetched Svea order details'']\<rparr>"
  have s3: "store w3 = store w" by (simp add: w3_def st)
  have r: "confirm_resolved env cfg data t w2 =
             confirm_materialize env data t (effective_sveaOrderId (confirm_sveaOrderId data) t)
               sveaOrder w3"
    using assms(3-8)
    by (auto simp: confirm_resolved_def fetch_svea_order_def bnd_def logger_def ret_def w3_def)
  have "t \<in> set (transactions (store w3))"
    using resolved_in_store [OF assms(1,13)] s3 by simp
  then obtain w' where "confirm_materialize env data t
        (effective_sveaOrderId (confirm_sveaOrderId data) t) sveaOrder w3 =
      (Inr \<lparr>cr_message = ''Order confirmed successfully'', cr_orderID = n,
            cr_transactionID = tx_id t\<rparr>, w')"
    and "orders (store w') =
           map (\<lambda>d. if order_id d = n
                     then order_patch (confirm_payload env data t cart sveaOrder)
                            (merged_transaction_ids existing (tx_id t)) d
                     else d) (orders (store w3))"
    using confirm_materialize_existing [of w3 t cart n existing env data _ sveaOrder]
      assms(9-13) s3 by auto
  with c r s3 show ?thesis by simp
qed
lemma snd_bnd_ret: "snd (bnd m (\<lambda>_. ret x) v) = snd (m v)"
  by (simp add: bnd_def ret_def split: prod.splits sum.splits)

lemma webhook_dispatch_final_keeps:
  assumes "id_truthy (existing_order_id (orders (store v)) t)"
  shows "orders (store (snd (webhook_dispatch env t n (JStr ''Final'') pt v))) =
           orders (store v)"
proof (cases "tx_status t = ''succeeded'' \<and> ref_truthy (tx_order t)")
  case True
  then show ?thesis
    by (simp add: webhook_dispatch_def bnd_def logger_def ret_def)
next
  case False
  then have "snd (webhook_dispatch env t n (JStr ''Final'') pt v) =
               snd (webhook_finalize env t n pt v)"
    by (auto simp: webhook_dispatch_def snd_bnd_ret)
  then show ?thesis
    using webhook_finalize_keeps_existing [OF assms] by simp
qed

lemma webhook_final_existing:
  assumes "fst (parse_webhook_body env req w) = Inr body"
    and "\<not> is_nullish body"
    and "truthy (webhook_order_id req body)"
    and "webhook_status req body = JStr ''Final''"
    and "lookup_by_orderId (transactions (store w)) (numeric_id (webhook_order_id req body))
           = Some t"
    and "id_truthy (existing_order_id (orders (store w)) t)"
  shows "orders (store (snd (handleWebhook env req w))) = orders (store w)"
proof -
  define w1 where
    "w1 = w\<lparr>logs := logs w @ [Console Info ''[Svea Webhook] Request received at:''],
            calls := Suc (calls w)\<rparr>"
  have s1: "store w1 = store w" by (simp add: w1_def)
  have err: "store (snd (webhook_on_error env b e v)) = store v" for b e v
    using webhook_on_error_result [of env b e v] by auto
  obtain l where p: "parse_webhook_body env req w1 = (Inr body, w1\<lparr>logs := logs w1 @ l\<rparr>)"
    using parse_webhook_body_indep [OF assms(1)] by blast
  have main: "orders (store (snd (webhook_main env req w1))) = orders (store w)"
    using assms(2-6) p s1
    by (simp add: webhook_main_def bnd_def raise_def ret_def logger_def Let_def
        find_transaction_by_orderId_def external_def webhook_dispatch_final_keeps)
  have "orders (store (snd (try_catch (webhook_main env req) (webhook_on_error env True) w1))) =
          orders (store (snd (webhook_main env req w1)))"
    by (simp add: try_catch_def err split: prod.splits sum.splits)
  with main err [of False ExternalFailure w1] s1 show ?thesis
    by (simp add: handleWebhook_unfold flip: w1_def)
qed
text \<open>
  Claim C5, as amended.
  \<^item> \<^verbatim>\<open>confirmOrder\<close> has resolved the transaction \<open>t\<close>, which is not already confirmed,
    the provider reports its order \<^verbatim>\<open>Final\<close>, the cart is found, and the order the
    transaction is linked to, or else the first order that lists it, is the order \<open>n\<close> of
    the store (no call to the host failing): \<^verbatim>\<open>confirmOrder\<close> returns the id \<open>n\<close>, and
    the orders are the orders as they were with the order \<open>n\<close> updated in place; no order
    is added. Its list of transactions has become the union of the ids it has listed
    (0 apart) and the id of \<open>t\<close>, each once.
  \<^item> A \<^verbatim>\<open>Final\<close> webhook that resolves a transaction for which such an order exists
    leaves the orders as they are, whatever call fails: it merges and updates nothing.
  \<^item> Under both handlers, with order ids unique, every order stays and keeps every
    transaction id it has listed (0 apart), and lists without duplicates stay without.
\<close>

theorem existing_order_merge:
  "(confirm_resolution env data w = Inr t \<and> \<not> is_nullish data \<and>
    truthy (effective_sveaOrderId (confirm_sveaOrderId data) t) \<and>
    \<not> (tx_status t = ''succeeded'' \<and> ref_truthy (tx_order t)) \<and>
    createSveaAuthHeaders (hashing env) (clock env) (merchantId cfg) (secretKey cfg) [] =
      Inr (token, timestamp) \<and>
    fetch_order env (effective_sveaOrderId (confirm_sveaOrderId data) t) token timestamp =
      FetchOk sveaOrder \<and>
    \<not> is_nullish sveaOrder \<and> member sveaOrder ''Status'' = JStr ''Final'' \<and>
    cart_of (carts (store w)) t = Some cart \<and>
    existing_order_id (orders (store w)) t = Some n \<and> id_truthy (Some n) \<and>
    find (\<lambda>d. order_id d = n) (orders (store w)) = Some existing \<and>
    (\<forall>k. \<not> fails env k) \<longrightarrow>
      (\<exists>w'. confirmOrder env cfg data w =
               (Inr \<lparr>cr_message = ''Order confirmed successfully'', cr_orderID = n,
                     cr_transactionID = tx_id t\<rparr>, w') \<and>
         orders (store w') =
           map (\<lambda>d. if order_id d = n
                     then order_patch (confirm_payload env data t cart sveaOrder)
                            (merged_transaction_ids existing (tx_id t)) d
                     else d) (orders (store w)) \<and>
         map order_id (orders (store w')) = map order_id (orders (store w))) \<and>
      set (merged_transaction_ids existing (tx_id t)) =
        (linked_ids existing - {0}) \<union> {tx_id t} \<and>
      distinct (merged_transaction_ids existing (tx_id t))) \<and>
   (fst (parse_webhook_body env req w) = Inr body \<and> \<not> is_nullish body \<and>
    truthy (webhook_order_id req body) \<and> webhook_status req body = JStr ''Final'' \<and>
    lookup_by_orderId (transactions (store w)) (numeric_id (webhook_order_id req body))
      = Some u \<and>
    id_truthy (existing_order_id (orders (store w)) u) \<longrightarrow>
      orders (store (snd (handleWebhook env req w))) = orders (store w)) \<and>
   (distinct (map order_id (orders (store w))) \<longrightarrow>
      orders_grow (orders (store w)) (orders (store (snd (confirmOrder env cfg data w)))) \<and>
      orders_grow (orders (store w)) (orders (store (snd (handleWebhook env req w)))) \<and>
      (duplicate_free (orders (store w)) \<longrightarrow>
         duplicate_free (orders (store (snd (confirmOrder env cfg data w)))) \<and>
         duplicate_free (orders (store (snd (handleWebhook env req w))))))"
proof -
  have ids: "map order_id (map (\<lambda>d. if order_id d = n then order_patch p m d else d) os) =
      map order_id os" for p m and os :: "order list"
    by (induction os) (simp_all add: order_patch_id)
  have g: "grown w (snd (confirmOrder env cfg data w))"
    using grows_confirmOrder [of env cfg data] by (simp add: grows_def)
  have first: "confirm_resolution env data w = Inr t \<and> \<not> is_nullish data \<and>
    truthy (effective_sveaOrderId (confirm_sveaOrderId data) t) \<and>
    \<not> (tx_status t = ''succeeded'' \<and> ref_truthy (tx_order t)) \<and>
    createSveaAuthHeaders (hashing env) (clock env) (merchantId cfg) (secretKey cfg) [] =
      Inr (token, timestamp) \<and>
    fetch_order env (effective_sveaOrderId (confirm_sveaOrderId data) t) token timestamp =
      FetchOk sveaOrder \<and>
    \<not> is_nullish sveaOrder \<and> member sveaOrder ''Status'' = JStr ''Final'' \<and>
    cart_of (carts (store w)) t = Some cart \<and>
    existing_order_id (orders (store w)) t = Some n \<and> id_truthy (Some n) \<and>
    find (\<lambda>d. order_id d = n) (orders (store w)) = Some existing \<and>
    (\<forall>k. \<not> fails env k) \<longrightarrow>
      (\<exists>w'. confirmOrder env cfg data w =
               (Inr \<lparr>cr_message = ''Order confirmed successfully'', cr_orderID = n,
                     cr_transactionID = tx_id t\<rparr>, w') \<and>
         orders (store w') =
           map (\<lambda>d. if order_id d = n
                     then order_patch (confirm_payload env data t cart sveaOrder)
                            (merged_transaction_ids existing (tx_id t)) d
                     else d) (orders (store w)) \<and>
         map order_id (orders (store w')) = map order_id (orders (store w))) \<and>
      set (merged_transaction_ids existing (tx_id t)) =
        (linked_ids existing - {0}) \<union> {tx_id t} \<and>
      distinct (merged_transaction_ids existing (tx_id t))"
  proof (intro impI conjI)
    assume a: "confirm_resolution env data w = Inr t \<and> \<not> is_nullish data \<and>
      truthy (effective_sveaOrderId (confirm_sveaOrderId data) t) \<and>
      \<not> (tx_status t = ''succeeded'' \<and> ref_truthy (tx_order t)) \<and>
      createSveaAuthHeaders (hashing env) (clock env) (merchantId cfg) (secretKey cfg) [] =
        Inr (token, timestamp) \<and>
      fetch_order env (effective_sveaOrderId (confirm_sveaOrderId data) t) token timestamp =
        FetchOk sveaOrder \<and>
      \<not> is_nullish sveaOrder \<and> member sveaOrder ''Status'' = JStr ''Final'' \<and>
      cart_of (carts (store w)) t = Some cart \<and>
      existing_order_id (orders (store w)) t = Some n \<and> id_truthy (Some n) \<and>
      find (\<lambda>d. order_id d = n) (orders (store w)) = Some existing \<and>
      (\<forall>k. \<not> fails env k)"
    then obtain w' where r: "confirmOrder env cfg data w =
               (Inr \<lparr>cr_message = ''Order confirmed successfully'', cr_orderID = n,
                     cr_transactionID = tx_id t\<rparr>, w')"
      and o: "orders (store w') =
           map (\<lambda>d. if order_id d = n
                     then order_patch (confirm_payload env data t cart sveaOrder)
                            (merged_transaction_ids existing (tx_id t)) d
                     else d) (orders (store w))"
      using confirm_updates_existing_order [of env data w t cfg token timestamp sveaOrder cart n
          existing]
      by (elim conjE) blast
    have "map order_id (orders (store w')) = map order_id (orders (store w))"
      unfolding o by (rule ids)
    with r o show "\<exists>w'. confirmOrder env cfg data w =
               (Inr \<lparr>cr_message = ''Order confirmed successfully'', cr_orderID = n,
                     cr_transactionID = tx_id t\<rparr>, w') \<and>
         orders (store w') =
           map (\<lambda>d. if order_id d = n
                     then order_patch (confirm_payload env data t cart sveaOrder)
                            (merged_transaction_ids existing (tx_id t)) d
                     else d) (orders (store w)) \<and>
         map order_id (orders (store w')) = map order_id (orders (store w))"
      by blast
  next
    show "set (merged_transaction_ids existing (tx_id t)) =
        (linked_ids existing - {0}) \<union> {tx_id t}"
      by (rule merged_transaction_ids_set)
  next
    show "distinct (merged_transaction_ids existing (tx_id t))"
      by (rule merged_transaction_ids_distinct)
  qed
  have second: "fst (parse_webhook_body env req w) = Inr body \<and> \<not> is_nullish body \<and>
    truthy (webhook_order_id req body) \<and> webhook_status req body = JStr ''Final'' \<and>
    lookup_by_orderId (transactions (store w)) (numeric_id (webhook_order_id req body))
      = Some u \<and>
    id_truthy (existing_order_id (orders (store w)) u) \<longrightarrow>
      orders (store (snd (handleWebhook env req w))) = orders (store w)"
    using webhook_final_existing [of env req w body u] by blast
  have third: "distinct (map order_id (orders (store w))) \<longrightarrow>
      orders_grow (orders (store w)) (orders (store (snd (confirmOrder env cfg data w)))) \<and>
      orders_grow (orders (store w)) (orders (store (snd (handleWebhook env req w)))) \<and>
      (duplicate_free (orders (store w)) \<longrightarrow>
         duplicate_free (orders (store (snd (confirmOrder env cfg data w)))) \<and>
         duplicate_free (orders (store (snd (handleWebhook env req w)))))"
    using g grown_handleWebhook [of w env req] unfolding grown_def by blast
  from first second third show ?thesis by (intro conjI)
qed

text \<open>
  The claim as stated fails for the webhook: the failed transaction 6 of the ledger is
  linked to the order 8, which does not list it; the \<^verbatim>\<open>Final\<close> webhook for its provider
  order 600 marks the transaction succeeded and leaves the order 8 as it is.
\<close>

theorem existing_order_merge_counterexample:
  "lookup_by_orderId (transactions (store ledger_world)) (JNum 600) = Some relinked_tx \<and>
   tx_order relinked_tx = Some (RefId 8) \<and>
   6 \<notin> linked_ids order_8 \<and>
   orders (store (snd (handleWebhook quiet_env (query_request ''600'' ''Final'') ledger_world)))
     = [order_7, order_8] \<and>
   journal (store (snd (handleWebhook quiet_env (query_request ''600'' ''Final'') ledger_world)))
     = [Updated Transactions 6]"
proof -
  have p: "parseInt ''600'' = JNum 600"
    by (simp add: parseInt_def is_space_def is_digit_def digits_value_def Let_def)
  show ?thesis
    by (simp add: handleWebhook_def webhook_main_def webhook_dispatch_def webhook_finalize_def
        lookup_existing_order_def parse_webhook_body_def webhook_order_id_def
        webhook_status_def webhook_payment_type_def webhook_path_order_id_def is_digit_def
        searchParams_get_def query_request_def getPayload_def console_def try_catch_def
        update_transaction_def ref_id_of_def id_truthy_def linked_ids_def order_8_def
        order_7_def p ledger_defs resolve_defs Let_def)
qed

text \<open>
  \<^verbatim>\<open>confirmOrder\<close> for the same transaction, the provider reporting \<^verbatim>\<open>Final\<close>: the
  order 8, which has listed the transaction 9 twice, is updated in place and lists 9 and 6;
  the \<^verbatim>\<open>Final\<close> webhook leaves both orders as they are. In the shop with the order 7, both
  handlers create the order for the pending transaction and no list has a duplicate.
\<close>

theorem existing_order_merge_witness:
  "confirm_resolution final_env (JObj [(''orderId'', JStr ''600'')]) ledger_world =
     Inr relinked_tx \<and>
   existing_order_id (orders (store ledger_world)) relinked_tx = Some 8 \<and>
   cart_of (carts (store ledger_world)) relinked_tx = Some shop_cart \<and>
   fst (confirmOrder final_env shop_config (JObj [(''orderId'', JStr ''600'')]) ledger_world) =
     Inr \<lparr>cr_message = ''Order confirmed successfully'', cr_orderID = 8,
           cr_transactionID = 6\<rparr> \<and>
   map order_id
     (orders (store (snd (confirmOrder final_env shop_config (JObj [(''orderId'', JStr ''600'')])
        ledger_world)))) = [7, 8] \<and>
   map order_transactions
     (orders (store (snd (confirmOrder final_env shop_config (JObj [(''orderId'', JStr ''600'')])
        ledger_world)))) = [[RefId 3, RefDoc 4], [RefId 9, RefId 6]] \<and>
   journal (store (snd (confirmOrder final_env shop_config (JObj [(''orderId'', JStr ''600'')])
        ledger_world))) = [Updated Orders 8, Updated Carts 5, Updated Transactions 6] \<and>
   orders_grow (orders (store ledger_world))
     (orders (store (snd (confirmOrder final_env shop_config (JObj [(''orderId'', JStr ''600'')])
        ledger_world)))) \<and>
   orders (store (snd (handleWebhook quiet_env (query_request ''600'' ''Final'') ledger_world)))
     = orders (store ledger_world) \<and>
   set (merged_transaction_ids order_8 6) = {9, 6} \<and> distinct (merged_transaction_ids order_8 6) \<and>
   duplicate_free (orders (store tidy_world)) \<and>
   duplicate_free (orders (store (snd (confirmOrder final_env shop_config confirm_data
     tidy_world)))) \<and>
   duplicate_free (orders (store (snd (handleWebhook quiet_env (query_request ''100'' ''Final'')
     tidy_world))))"
proof -
  let ?data = "JObj [(''orderId'', JStr ''600'')]"
  let ?so = "JObj [(''Status'', JStr ''Final''), (''PaymentType'', JStr ''CARD'')]"
  let ?req = "query_request ''600'' ''Final''"
  have p: "parseInt ''600'' = JNum 600"
    by (simp add: parseInt_def is_space_def is_digit_def digits_value_def Let_def)
  have run: "map order_transactions
     (orders (store (snd (confirmOrder final_env shop_config ?data ledger_world))))
       = [[RefId 3, RefDoc 4], [RefId 9, RefId 6]]"
    "journal (store (snd (confirmOrder final_env shop_config ?data ledger_world)))
       = [Updated Orders 8, Updated Carts 5, Updated Transactions 6]"
    by (simp_all add: run_defs ledger_defs resolve_defs p order_7_def order_8_def
        order_patch_def merged_transaction_ids_def array_from_set_def)
  have g1: "confirm_resolution final_env ?data ledger_world = Inr relinked_tx"
    by (simp add: ledger_defs resolve_defs final_env_def p)
  have g2: "\<not> is_nullish ?data" by simp
  have g3: "truthy (effective_sveaOrderId (confirm_sveaOrderId ?data) relinked_tx)"
    by (simp add: effective_sveaOrderId_def confirm_sveaOrderId_def nullish_or_def)
  have g4: "\<not> (tx_status relinked_tx = ''succeeded'' \<and> ref_truthy (tx_order relinked_tx))"
    by (simp add: relinked_tx_def pending_tx_def)
  obtain token timestamp where g5:
    "createSveaAuthHeaders (hashing final_env) (clock final_env) (merchantId shop_config)
       (secretKey shop_config) [] = Inr (token, timestamp)"
    by (simp add: createSveaAuthHeaders_def shop_config_def Let_def)
  have g6: "fetch_order final_env (effective_sveaOrderId (confirm_sveaOrderId ?data)
              relinked_tx) token timestamp = FetchOk ?so"
    by (simp add: final_env_def)
  have g7: "\<not> is_nullish ?so" "member ?so ''Status'' = JStr ''Final''" by simp_all
  have g8: "cart_of (carts (store ledger_world)) relinked_tx = Some shop_cart"
    by (simp add: cart_of_def ledger_world_def relinked_tx_def pending_tx_def shop_cart_def)
  have g9: "existing_order_id (orders (store ledger_world)) relinked_tx = Some 8"
    by (simp add: existing_order_id_def relinked_tx_def pending_tx_def ref_id_of_def)
  have h1: "distinct (map order_id (orders (store ledger_world)))"
    by (simp add: ledger_world_def order_7_def order_8_def)
  have h3: "id_truthy (Some 8)" by (simp add: id_truthy_def)
  have h4: "find (\<lambda>d. order_id d = 8) (orders (store ledger_world)) = Some order_8"
    by (simp add: ledger_world_def order_7_def order_8_def)
  have h5: "\<forall>k. \<not> fails final_env k" by (simp add: final_env_def quiet_env_def)
  have ids: "linked_ids order_8 - {0} = {9}"
    by (auto simp: linked_ids_def order_8_def order_7_def)
  have t6: "tx_id relinked_tx = 6" by (simp add: relinked_tx_def pending_tx_def)
  note inst = existing_order_merge [where n = 8 and w = ledger_world and existing = order_8
      and env = final_env and t = relinked_tx and cfg = shop_config and data = ?data
      and token = token and timestamp = timestamp and sveaOrder = ?so and cart = shop_cart]
  have hyps: "confirm_resolution final_env ?data ledger_world = Inr relinked_tx \<and>
    \<not> is_nullish ?data \<and>
    truthy (effective_sveaOrderId (confirm_sveaOrderId ?data) relinked_tx) \<and>
    \<not> (tx_status relinked_tx = ''succeeded'' \<and> ref_truthy (tx_order relinked_tx)) \<and>
    createSveaAuthHeaders (hashing final_env) (clock final_env) (merchantId shop_config)
      (secretKey shop_config) [] = Inr (token, timestamp) \<and>
    fetch_order final_env (effective_sveaOrderId (confirm_sveaOrderId ?data) relinked_tx)
      token timestamp = FetchOk ?so \<and>
    \<not> is_nullish ?so \<and> member ?so ''Status'' = JStr ''Final'' \<and>
    cart_of (carts (store ledger_world)) relinked_tx = Some shop_cart \<and>
    existing_order_id (orders (store ledger_world)) relinked_tx = Some 8 \<and>
    id_truthy (Some 8) \<and>
    find (\<lambda>d. order_id d = 8) (orders (store ledger_world)) = Some order_8 \<and>
    (\<forall>k. \<not> fails final_env k)"
    by (intro conjI g1 g2 g3 g4 g5 g6 g7 g8 g9 h3 h4 h5)
  note first = inst [THEN conjunct1, THEN mp, OF hyps]
  obtain w' where r: "confirmOrder final_env shop_config ?data ledger_world =
               (Inr \<lparr>cr_message = ''Order confirmed successfully'', cr_orderID = 8,
                     cr_transactionID = tx_id relinked_tx\<rparr>, w')"
    and o: "map order_id (orders (store w')) = map order_id (orders (store ledger_world))"
    using first [THEN conjunct1] by (elim exE conjE)
  have res: "fst (confirmOrder final_env shop_config ?data ledger_world) =
      Inr \<lparr>cr_message = ''Order confirmed successfully'', cr_orderID = 8,
            cr_transactionID = 6\<rparr>"
    "map order_id (orders (store (snd (confirmOrder final_env shop_config ?data ledger_world))))
       = [7, 8]"
    by (simp_all add: r o t6) (simp add: ledger_world_def order_7_def order_8_def)
  have grow: "orders_grow (orders (store ledger_world))
     (orders (store (snd (confirmOrder final_env shop_config ?data ledger_world))))"
    using inst [THEN conjunct2, THEN conjunct2, THEN mp, OF h1, THEN conjunct1] .
  have merged: "set (merged_transaction_ids order_8 6) = {9, 6} \<and>
      distinct (merged_transaction_ids order_8 6)"
    using first [THEN conjunct2] by (auto simp: ids t6)
  have id: "webhook_order_id ?req (JObj []) = JStr ''600''"
    by (simp add: webhook_order_id_def query_request_def searchParams_get_def nullish_or_def)
  have b1: "fst (parse_webhook_body quiet_env ?req ledger_world) = Inr (JObj [])"
    by (simp add: parse_webhook_body_def query_request_def ret_def)
  have b2: "\<not> is_nullish (JObj [])" by simp
  have b3: "truthy (webhook_order_id ?req (JObj []))" by (simp add: id)
  have b4: "webhook_status ?req (JObj []) = JStr ''Final''"
    by (simp add: webhook_status_def query_request_def searchParams_get_def nullish_or_def)
  have b5: "lookup_by_orderId (transactions (store ledger_world))
              (numeric_id (webhook_order_id ?req (JObj []))) = Some relinked_tx"
    by (simp add: id p ledger_defs)
  have b6: "id_truthy (existing_order_id (orders (store ledger_world)) relinked_tx)"
    by (simp add: g9 id_truthy_def)
  have hyps2: "fst (parse_webhook_body quiet_env ?req ledger_world) = Inr (JObj []) \<and>
    \<not> is_nullish (JObj []) \<and> truthy (webhook_order_id ?req (JObj [])) \<and>
    webhook_status ?req (JObj []) = JStr ''Final'' \<and>
    lookup_by_orderId (transactions (store ledger_world))
      (numeric_id (webhook_order_id ?req (JObj []))) = Some relinked_tx \<and>
    id_truthy (existing_order_id (orders (store ledger_world)) relinked_tx)"
    by (intro conjI b1 b2 b3 b4 b5 b6)
  have kept: "orders (store (snd (handleWebhook quiet_env ?req ledger_world))) =
      orders (store ledger_world)"
    using existing_order_merge [where w = ledger_world and u = relinked_tx and env = quiet_env
      and req = ?req and body = "JObj []", THEN conjunct2, THEN conjunct1, THEN mp, OF hyps2] .
  have t1: "distinct (map order_id (orders (store tidy_world)))"
    by (simp add: tidy_world_def order_7_def)
  have t2: "duplicate_free (orders (store tidy_world))"
    by (simp add: tidy_world_def order_7_def duplicate_free_def)
  have tidy1: "duplicate_free (orders (store (snd (confirmOrder final_env shop_config
      confirm_data tidy_world))))"
    using existing_order_merge [where w = tidy_world and env = final_env and cfg = shop_config
        and data = confirm_data, THEN conjunct2, THEN conjunct2, THEN mp, OF t1,
        THEN conjunct2, THEN conjunct2, THEN mp, OF t2, THEN conjunct1] .
  have tidy2: "duplicate_free (orders (store (snd (handleWebhook quiet_env
      (query_request ''100'' ''Final'') tidy_world))))"
    using existing_order_merge [where w = tidy_world and env = quiet_env
        and req = "query_request ''100'' ''Final''", THEN conjunct2, THEN conjunct2, THEN mp,
        OF t1, THEN conjunct2, THEN conjunct2, THEN mp, OF t2, THEN conjunct2] .
  note tidy = conjI [OF tidy1 tidy2]
  from g1 g8 g9 res run grow merged kept t2 tidy show ?thesis by (intro conjI) simp_all
qed
end
